theory Spec2Isabelle
  imports Complex_Main
begin

section \<open>JavaScript numbers\<close>

text \<open>
  A JavaScript \<open>number\<close> is a finite value, one of the two infinities, or NaN. Finite values
  are modelled by the real numbers they denote: rounding, overflow of finite operands and
  the sign of zero are not modelled. The special values follow IEEE 754 as ECMAScript
  prescribes it: NaN is absorbing, \<open>Infinity - Infinity\<close>, \<open>0 * Infinity\<close> and \<open>0 / 0\<close> are
  NaN, and a non-zero finite number divided by zero is an infinity.
\<close>

datatype jsnum = Fin real | PInf | NInf | NaN

instantiation jsnum :: "{plus, minus, uminus, times, inverse, abs}"
begin

fun plus_jsnum :: "jsnum \<Rightarrow> jsnum \<Rightarrow> jsnum" where
  "plus_jsnum (Fin a) (Fin b) = Fin (a + b)"
| "plus_jsnum NaN _ = NaN"
| "plus_jsnum _ NaN = NaN"
| "plus_jsnum PInf NInf = NaN"
| "plus_jsnum NInf PInf = NaN"
| "plus_jsnum PInf _ = PInf"
| "plus_jsnum _ PInf = PInf"
| "plus_jsnum NInf _ = NInf"
| "plus_jsnum _ NInf = NInf"

fun uminus_jsnum :: "jsnum \<Rightarrow> jsnum" where
  "uminus_jsnum (Fin a) = Fin (- a)"
| "uminus_jsnum PInf = NInf"
| "uminus_jsnum NInf = PInf"
| "uminus_jsnum NaN = NaN"

definition minus_jsnum :: "jsnum \<Rightarrow> jsnum \<Rightarrow> jsnum" where
  "minus_jsnum a b = a + (- b)"

fun times_jsnum :: "jsnum \<Rightarrow> jsnum \<Rightarrow> jsnum" where
  "times_jsnum (Fin a) (Fin b) = Fin (a * b)"
| "times_jsnum NaN _ = NaN"
| "times_jsnum _ NaN = NaN"
| "times_jsnum PInf (Fin b) = (if b = 0 then NaN else if 0 < b then PInf else NInf)"
| "times_jsnum NInf (Fin b) = (if b = 0 then NaN else if 0 < b then NInf else PInf)"
| "times_jsnum (Fin a) PInf = (if a = 0 then NaN else if 0 < a then PInf else NInf)"
| "times_jsnum (Fin a) NInf = (if a = 0 then NaN else if 0 < a then NInf else PInf)"
| "times_jsnum PInf PInf = PInf"
| "times_jsnum PInf NInf = NInf"
| "times_jsnum NInf PInf = NInf"
| "times_jsnum NInf NInf = PInf"

fun divide_jsnum :: "jsnum \<Rightarrow> jsnum \<Rightarrow> jsnum" where
  "divide_jsnum (Fin a) (Fin b) =
     (if b \<noteq> 0 then Fin (a / b)
      else if a = 0 then NaN else if 0 < a then PInf else NInf)"
| "divide_jsnum NaN _ = NaN"
| "divide_jsnum _ NaN = NaN"
| "divide_jsnum (Fin a) PInf = Fin 0"
| "divide_jsnum (Fin a) NInf = Fin 0"
| "divide_jsnum PInf (Fin b) = (if 0 \<le> b then PInf else NInf)"
| "divide_jsnum NInf (Fin b) = (if 0 \<le> b then NInf else PInf)"
| "divide_jsnum PInf PInf = NaN"
| "divide_jsnum PInf NInf = NaN"
| "divide_jsnum NInf PInf = NaN"
| "divide_jsnum NInf NInf = NaN"

definition inverse_jsnum :: "jsnum \<Rightarrow> jsnum" where
  "inverse_jsnum a = divide (Fin 1) a"

fun abs_jsnum :: "jsnum \<Rightarrow> jsnum" where
  "abs_jsnum (Fin a) = Fin \<bar>a\<bar>"
| "abs_jsnum PInf = PInf"
| "abs_jsnum NInf = PInf"
| "abs_jsnum NaN = NaN"

instance ..

end

text \<open>The global \<open>isFinite\<close> on a number, and the comparisons \<open><\<close>, \<open><=\<close>, \<open>>\<close>, \<open>>=\<close>, \<open>===\<close>:
  every comparison with NaN is false.\<close>

fun isFinite :: "jsnum \<Rightarrow> bool" where
  "isFinite (Fin a) = True"
| "isFinite _ = False"

fun js_lt :: "jsnum \<Rightarrow> jsnum \<Rightarrow> bool" where
  "js_lt (Fin a) (Fin b) = (a < b)"
| "js_lt NaN _ = False"
| "js_lt _ NaN = False"
| "js_lt _ NInf = False"
| "js_lt NInf _ = True"
| "js_lt PInf _ = False"
| "js_lt _ PInf = True"

fun js_le :: "jsnum \<Rightarrow> jsnum \<Rightarrow> bool" where
  "js_le (Fin a) (Fin b) = (a \<le> b)"
| "js_le NaN _ = False"
| "js_le _ NaN = False"
| "js_le NInf _ = True"
| "js_le _ PInf = True"
| "js_le PInf _ = False"
| "js_le _ NInf = False"

definition js_gt :: "jsnum \<Rightarrow> jsnum \<Rightarrow> bool" where
  "js_gt a b = js_lt b a"

definition js_ge :: "jsnum \<Rightarrow> jsnum \<Rightarrow> bool" where
  "js_ge a b = js_le b a"

fun js_strict_eq :: "jsnum \<Rightarrow> jsnum \<Rightarrow> bool" where
  "js_strict_eq NaN _ = False"
| "js_strict_eq _ NaN = False"
| "js_strict_eq a b = (a = b)"

text \<open>\<open>Math.min\<close> and \<open>Math.max\<close> of two numbers (NaN if either is), \<open>Math.floor\<close>, and
  \<open>Math.round\<close>, which rounds halves towards positive infinity.\<close>

definition Math_min :: "jsnum \<Rightarrow> jsnum \<Rightarrow> jsnum" where
  "Math_min a b = (if a = NaN \<or> b = NaN then NaN else if js_le a b then a else b)"

definition Math_max :: "jsnum \<Rightarrow> jsnum \<Rightarrow> jsnum" where
  "Math_max a b = (if a = NaN \<or> b = NaN then NaN else if js_le a b then b else a)"

fun Math_floor :: "jsnum \<Rightarrow> jsnum" where
  "Math_floor (Fin a) = Fin (of_int \<lfloor>a\<rfloor>)"
| "Math_floor n = n"

fun Math_round :: "jsnum \<Rightarrow> jsnum" where
  "Math_round (Fin a) = Fin (of_int \<lfloor>a + 1 / 2\<rfloor>)"
| "Math_round n = n"

section \<open>Values, exceptions and the host\<close>

text \<open>
  The values an evaluated expression can produce, with the tag \<open>typeof\<close> reports. Objects,
  functions and symbols are opaque references.
\<close>

datatype jsval =
    JSNumber jsnum
  | JSString string
  | JSBoolean bool
  | JSUndefined
  | JSNull
  | JSBigInt int
  | JSSymbol nat
  | JSObject nat
  | JSFunction nat

fun typeof :: "jsval \<Rightarrow> string" where
  "typeof (JSNumber _) = ''number''"
| "typeof (JSString _) = ''string''"
| "typeof (JSBoolean _) = ''boolean''"
| "typeof JSUndefined = ''undefined''"
| "typeof JSNull = ''object''"
| "typeof (JSBigInt _) = ''bigint''"
| "typeof (JSSymbol _) = ''symbol''"
| "typeof (JSObject _) = ''object''"
| "typeof (JSFunction _) = ''function''"

text \<open>
  Code that runs in the browser can read and change state outside its arguments (the
  clock, the DOM, globals, the generator behind \<open>Math.random\<close>). That ambient state is a
  value of an arbitrary type \<open>'w\<close>, passed through every call. A call either returns a
  result or throws a value; both leave a new ambient state. (A call is taken to come back:
  an expression that loops forever is outside this model.)
\<close>

datatype ('a, 'w) result = Returned 'a 'w | Thrown jsval 'w

type_synonym ('a, 'w) js = "'w \<Rightarrow> ('a, 'w) result"

definition js_return :: "'a \<Rightarrow> ('a, 'w) js" where
  "js_return a = (\<lambda>w. Returned a w)"

definition js_bind :: "('a, 'w) js \<Rightarrow> ('a \<Rightarrow> ('b, 'w) js) \<Rightarrow> ('b, 'w) js" where
  "js_bind m f = (\<lambda>w. case m w of Returned a w' \<Rightarrow> f a w' | Thrown e w' \<Rightarrow> Thrown e w')"

text \<open>\<open>try { m } catch { handler }\<close>.\<close>

definition try_catch :: "('a, 'w) js \<Rightarrow> (jsval \<Rightarrow> ('a, 'w) js) \<Rightarrow> ('a, 'w) js" where
  "try_catch m handler =
     (\<lambda>w. case m w of Returned a w' \<Rightarrow> Returned a w' | Thrown e w' \<Rightarrow> handler e w')"

text \<open>
  What the program takes from its host, the JavaScript engine:
  \<^item> \<open>newFunction params body\<close> is \<open>new Function(p1, ..., pn, body)\<close>: it throws (a
    \<open>SyntaxError\<close>, given as \<open>Inl\<close>) or yields a callable;
  \<^item> \<open>Math_ns\<close> is the global \<open>Math\<close> object;
  \<^item> \<open>Math_random\<close> is \<open>Math.random()\<close>, which draws from the ambient generator.
\<close>

record 'w host =
  newFunction :: "string list \<Rightarrow> string \<Rightarrow> jsval + (jsval list \<Rightarrow> (jsval, 'w) js)"
  Math_ns :: jsval
  Math_random :: "'w \<Rightarrow> jsnum \<times> 'w"

section \<open>The expression compiler\<close>

text \<open>The template literal that wraps the user's expression into a function body.\<close>

definition function_body :: "string \<Rightarrow> string" where
  "function_body expression =
     [CHR 0x0A] @ ''      '' @ [CHR 0x27] @ ''use strict'' @ [CHR 0x27] @ '';'' @
     [CHR 0x0A] @ ''      return '' @ expression @ '';'' @ [CHR 0x0A] @ ''    ''"

text \<open>
  The result check \<open>typeof result === 'number' && isFinite(result) ? result : 0\<close>.
  \<open>number_of\<close> reads the number a number-typed result holds; the conjunction
  short-circuits, so it is only consulted under the \<open>typeof\<close> guard.
\<close>

fun number_of :: "jsval \<Rightarrow> jsnum" where
  "number_of (JSNumber n) = n"
| "number_of _ = NaN"

definition finite_or_zero :: "jsval \<Rightarrow> jsnum" where
  "finite_or_zero result =
     (if typeof result = ''number'' \<and> isFinite (number_of result) then number_of result
      else Fin 0)"


definition createFieldFunction :: "'w host \<Rightarrow> string \<Rightarrow> jsnum \<Rightarrow> jsnum \<Rightarrow> (jsnum, 'w) js" where
  "createFieldFunction h expression =
     (case newFunction h [''x'', ''y'', ''Math''] (function_body expression) of
        Inr func \<Rightarrow>
          (\<lambda>x y. try_catch
             (js_bind (func [JSNumber x, JSNumber y, Math_ns h])
                (\<lambda>result. js_return (finite_or_zero result)))
             (\<lambda>e. js_return (Fin 0)))
      | Inl e \<Rightarrow> (\<lambda>x y. js_return (Fin 0)))"

definition createFieldFunction3D ::
  "'w host \<Rightarrow> string \<Rightarrow> jsnum \<Rightarrow> jsnum \<Rightarrow> jsnum \<Rightarrow> (jsnum, 'w) js" where
  "createFieldFunction3D h expression =
     (case newFunction h [''x'', ''y'', ''z'', ''Math''] (function_body expression) of
        Inr func \<Rightarrow>
          (\<lambda>x y z. try_catch
             (js_bind (func [JSNumber x, JSNumber y, JSNumber z, Math_ns h])
                (\<lambda>result. js_return (finite_or_zero result)))
             (\<lambda>e. js_return (Fin 0)))
      | Inl e \<Rightarrow> (\<lambda>x y z. js_return (Fin 0)))"

section \<open>The combined field and its divergence\<close>

datatype source_kind = Source | Sink

record PointSource =
  ps_id :: nat
  ps_x :: jsnum
  ps_y :: jsnum
  strength :: jsnum
  ps_type :: source_kind

text \<open>The regularised squared distance \<open>dx * dx + dy * dy + 0.01\<close> that both component
  closures compute for a source.\<close>

definition rSq :: "jsnum \<Rightarrow> jsnum \<Rightarrow> PointSource \<Rightarrow> jsnum" where
  "rSq x y ps = (let dx = x - ps_x ps; dy = y - ps_y ps in dx * dx + dy * dy + Fin 0.01)"

text \<open>
  The closures \<open>Fx\<close> and \<open>Fy\<close> of the 2D view: the compiled base component, then one term
  per point source, added in the order of the array.
\<close>

definition Fx ::
  "(jsnum \<Rightarrow> jsnum \<Rightarrow> (jsnum, 'w) js) \<Rightarrow> PointSource list \<Rightarrow> jsnum \<Rightarrow> jsnum \<Rightarrow> (jsnum, 'w) js" where
  "Fx baseFx pointSources x y =
     js_bind (baseFx x y)
       (\<lambda>fx0. js_return
          (foldl (\<lambda>fx ps. let dx = x - ps_x ps in fx + strength ps * dx / rSq x y ps)
             fx0 pointSources))"

definition Fy ::
  "(jsnum \<Rightarrow> jsnum \<Rightarrow> (jsnum, 'w) js) \<Rightarrow> PointSource list \<Rightarrow> jsnum \<Rightarrow> jsnum \<Rightarrow> (jsnum, 'w) js" where
  "Fy baseFy pointSources x y =
     js_bind (baseFy x y)
       (\<lambda>fy0. js_return
          (foldl (\<lambda>fy ps. let dy = y - ps_y ps in fy + strength ps * dy / rSq x y ps)
             fy0 pointSources))"

text \<open>The numerical derivative: a central difference with \<open>h = 0.01\<close>. The call at
  \<open>+h\<close> is made before the call at \<open>-h\<close>.\<close>

datatype axis = AxisX | AxisY

definition derivative ::
  "(jsnum \<Rightarrow> jsnum \<Rightarrow> (jsnum, 'w) js) \<Rightarrow> jsnum \<Rightarrow> jsnum \<Rightarrow> axis \<Rightarrow> (jsnum, 'w) js" where
  "derivative f x y ax =
     (let h = Fin 0.01 in
      case ax of
        AxisX \<Rightarrow>
          js_bind (f (x + h) y) (\<lambda>a. js_bind (f (x - h) y)
            (\<lambda>b. js_return ((a - b) / (Fin 2 * h))))
      | AxisY \<Rightarrow>
          js_bind (f x (y + h)) (\<lambda>a. js_bind (f x (y - h))
            (\<lambda>b. js_return ((a - b) / (Fin 2 * h)))))"

text \<open>A \<open>for\<close> loop over the given indices that threads the loop's variables \<open>s\<close>.\<close>

fun for_each :: "'a list \<Rightarrow> ('s \<Rightarrow> 'a \<Rightarrow> ('s, 'w) js) \<Rightarrow> 's \<Rightarrow> ('s, 'w) js" where
  "for_each [] body s = js_return s"
| "for_each (a # as) body s = js_bind (body s a) (for_each as body)"

text \<open>The constants of the 2D view.\<close>

definition gridSize :: nat where
  "gridSize = 100"

definition range2D :: jsnum where
  "range2D = Fin 3"

definition step2D :: jsnum where
  "step2D = (Fin 2 * range2D) / Fin (real gridSize)"

text \<open>
  The scan that fills \<open>divergenceGrid\<close>. One pass of the inner loop computes the sample at
  \<open>(i, j)\<close>, stores it at \<open>divergenceGrid[i][j]\<close> (the row has \<open>j\<close> entries at that point, so
  the store appends) and folds it into \<open>minDiv\<close> and \<open>maxDiv\<close> when it is finite. Both
  loops run while the index is \<open>\<le> gridSize\<close>.
\<close>

definition divergence_cell ::
  "(jsnum \<Rightarrow> jsnum \<Rightarrow> (jsnum, 'w) js) \<Rightarrow> (jsnum \<Rightarrow> jsnum \<Rightarrow> (jsnum, 'w) js) \<Rightarrow> nat \<Rightarrow>
   jsnum list \<times> jsnum \<times> jsnum \<Rightarrow> nat \<Rightarrow> (jsnum list \<times> jsnum \<times> jsnum, 'w) js" where
  "divergence_cell Fx' Fy' i acc j =
     (case acc of (row, minDiv, maxDiv) \<Rightarrow>
        let x = - range2D + Fin (real i) * step2D;
            y = range2D - Fin (real j) * step2D
        in js_bind (derivative Fx' x y AxisX) (\<lambda>dFx_dx.
           js_bind (derivative Fy' x y AxisY) (\<lambda>dFy_dy.
             let dv = dFx_dx + dFy_dy
             in js_return
                  (row @ [dv],
                   if isFinite dv then Math_min minDiv dv else minDiv,
                   if isFinite dv then Math_max maxDiv dv else maxDiv))))"

definition divergence_row ::
  "(jsnum \<Rightarrow> jsnum \<Rightarrow> (jsnum, 'w) js) \<Rightarrow> (jsnum \<Rightarrow> jsnum \<Rightarrow> (jsnum, 'w) js) \<Rightarrow>
   jsnum list list \<times> jsnum \<times> jsnum \<Rightarrow> nat \<Rightarrow> (jsnum list list \<times> jsnum \<times> jsnum, 'w) js" where
  "divergence_row Fx' Fy' acc i =
     (case acc of (divergenceGrid, minDiv, maxDiv) \<Rightarrow>
        js_bind (for_each [0..<Suc gridSize] (divergence_cell Fx' Fy' i) ([], minDiv, maxDiv))
          (\<lambda>(row, minDiv', maxDiv'). js_return (divergenceGrid @ [row], minDiv', maxDiv')))"

definition divergence_scan ::
  "(jsnum \<Rightarrow> jsnum \<Rightarrow> (jsnum, 'w) js) \<Rightarrow> (jsnum \<Rightarrow> jsnum \<Rightarrow> (jsnum, 'w) js) \<Rightarrow>
   (jsnum list list \<times> jsnum \<times> jsnum, 'w) js" where
  "divergence_scan Fx' Fy' = for_each [0..<Suc gridSize] (divergence_row Fx' Fy') ([], PInf, NInf)"

text \<open>
  The grid of one run of the view's effect: compile both expressions, build the closures,
  scan. The grid starts from the empty array on every run.
\<close>

definition computeDivergence ::
  "'w host \<Rightarrow> string \<Rightarrow> string \<Rightarrow> PointSource list \<Rightarrow> (jsnum list list \<times> jsnum \<times> jsnum, 'w) js" where
  "computeDivergence h fx fy pointSources =
     (let baseFx = createFieldFunction h fx;
          baseFy = createFieldFunction h fy
      in divergence_scan (Fx baseFx pointSources) (Fy baseFy pointSources))"

text \<open>
  The set-up part of the effect, from its first line. \<open>canvasRef.current\<close> is \<open>null\<close> or a canvas,
  and \<open>getContext('2d')\<close> of a canvas is \<open>null\<close> or a context: the effect returns at once when
  either is \<open>null\<close>. Otherwise it sets the size of the canvas (not modelled) and scans; the
  surrounding \<open>try\<close> reports a thrown value through \<open>setError\<close> and abandons the run.
\<close>

datatype context2d = Context2D

datatype canvas = Canvas "context2d option"

datatype 'a effect_outcome = NoCanvas | NoContext | Abandoned | Scanned 'a

definition fieldEffect ::
  "'w host \<Rightarrow> canvas option \<Rightarrow> string \<Rightarrow> string \<Rightarrow> PointSource list \<Rightarrow>
   ((jsnum list list \<times> jsnum \<times> jsnum) effect_outcome, 'w) js" where
  "fieldEffect h canvasRef fx fy pointSources =
     (case canvasRef of
        None \<Rightarrow> js_return NoCanvas
      | Some (Canvas None) \<Rightarrow> js_return NoContext
      | Some (Canvas (Some ctx)) \<Rightarrow>
          try_catch (js_bind (computeDivergence h fx fy pointSources) (\<lambda>g. js_return (Scanned g)))
            (\<lambda>err. js_return Abandoned))"

text \<open>The normalisation of a sample for the background; samples that are not finite are
  skipped (\<open>None\<close>).\<close>

definition normalized :: "jsnum \<Rightarrow> jsnum \<Rightarrow> jsnum \<Rightarrow> jsnum option" where
  "normalized dv minDiv maxDiv =
     (if isFinite dv then
        Some (if js_strict_eq maxDiv minDiv then Fin 0.5
              else (dv - minDiv) / (maxDiv - minDiv))
      else None)"

section \<open>The colour mapper\<close>

datatype ColorTheme = Viridis | Plasma | Cool | Hot | Rainbow | Grayscale

text \<open>The anchors of each palette, in the order of the table \<open>colorMaps\<close>.\<close>

fun colorMaps :: "ColorTheme \<Rightarrow> (int \<times> int \<times> int) list" where
  "colorMaps Viridis =
     [(68, 1, 84), (72, 40, 120), (62, 73, 137), (49, 104, 142), (38, 130, 142),
      (31, 158, 137), (53, 183, 121), (110, 206, 88), (181, 222, 43), (253, 231, 37)]"
| "colorMaps Plasma =
     [(13, 8, 135), (75, 3, 161), (125, 3, 168), (168, 34, 150), (203, 70, 121),
      (229, 107, 93), (248, 148, 65), (253, 195, 40), (240, 249, 33)]"
| "colorMaps Cool =
     [(0, 255, 255), (51, 204, 255), (102, 153, 255), (153, 102, 255), (204, 51, 255),
      (255, 0, 255)]"
| "colorMaps Hot =
     [(0, 0, 0), (128, 0, 0), (255, 0, 0), (255, 128, 0), (255, 255, 0), (255, 255, 128),
      (255, 255, 255)]"
| "colorMaps Rainbow =
     [(148, 0, 211), (75, 0, 130), (0, 0, 255), (0, 255, 0), (255, 255, 0), (255, 127, 0),
      (255, 0, 0)]"
| "colorMaps Grayscale =
     [(0, 0, 0), (64, 64, 64), (128, 128, 128), (192, 192, 192), (255, 255, 255)]"

text \<open>
  Reading \<open>colors[idx]\<close> with a number as index yields the element when the number is an
  integer within the array and \<open>undefined\<close> (\<open>None\<close>) otherwise. Reading a component of
  \<open>undefined\<close> throws a \<open>TypeError\<close>.
\<close>

datatype js_error = TypeError

fun array_get :: "'a list \<Rightarrow> jsnum \<Rightarrow> 'a option" where
  "array_get xs (Fin r) =
     (if r = of_int \<lfloor>r\<rfloor> \<and> 0 \<le> r \<and> nat \<lfloor>r\<rfloor> < length xs then Some (xs ! nat \<lfloor>r\<rfloor>)
      else None)"
| "array_get xs _ = None"

text \<open>The string \<open>rgb(r, g, b)\<close> that \<open>getColor\<close> returns is kept as the three numbers
  interpolated into it.\<close>

datatype css_color = RGB jsnum jsnum jsnum

definition channel :: "int \<Rightarrow> jsnum" where
  "channel c = Fin (of_int c)"

definition getColor :: "jsnum \<Rightarrow> ColorTheme \<Rightarrow> js_error + css_color" where
  "getColor t0 theme =
     (let t = Math_max (Fin 0) (Math_min (Fin 1) t0);
          colors = colorMaps theme;
          top = Fin (real (length colors)) - Fin 1;
          scaled = t * top;
          idx = Math_floor scaled;
          frac = scaled - idx
      in if js_ge idx top then
           (case array_get colors top of
              None \<Rightarrow> Inl TypeError
            | Some (r, g, b) \<Rightarrow> Inr (RGB (channel r) (channel g) (channel b)))
         else
           (case array_get colors idx of
              None \<Rightarrow> Inl TypeError
            | Some (r1, g1, b1) \<Rightarrow>
                (case array_get colors (idx + Fin 1) of
                   None \<Rightarrow> Inl TypeError
                 | Some (r2, g2, b2) \<Rightarrow>
                     Inr (RGB
                       (Math_round (channel r1 + (channel r2 - channel r1) * frac))
                       (Math_round (channel g1 + (channel g2 - channel g1) * frac))
                       (Math_round (channel b1 + (channel b2 - channel b1) * frac))))))"

section \<open>The particles\<close>

subsection \<open>The 2D view\<close>

record Particle =
  px :: jsnum
  py :: jsnum
  life :: jsnum

text \<open>\<open>(Math.random() * 2 - 1) * range\<close>.\<close>

definition random_coordinate :: "'w host \<Rightarrow> jsnum \<Rightarrow> (jsnum, 'w) js" where
  "random_coordinate h domainRange =
     (\<lambda>w. case Math_random h w of (u, w') \<Rightarrow> Returned ((u * Fin 2 - Fin 1) * domainRange) w')"

text \<open>
  One pass of the loop over \<open>particlesRef.current\<close> in \<open>animate\<close>, in three parts: sample
  the field and advance the position when both components are finite; decrease the life;
  respawn. The particle is updated in place; drawing it is not modelled.
\<close>

definition moveParticle ::
  "(jsnum \<Rightarrow> jsnum \<Rightarrow> (jsnum, 'w) js) \<Rightarrow> (jsnum \<Rightarrow> jsnum \<Rightarrow> (jsnum, 'w) js) \<Rightarrow> jsnum \<Rightarrow>
   Particle \<Rightarrow> (Particle, 'w) js" where
  "moveParticle Fx' Fy' animationSpeed particle =
     (let dt = Fin 0.016 * animationSpeed in
      js_bind (Fx' (px particle) (py particle)) (\<lambda>vx.
      js_bind (Fy' (px particle) (py particle)) (\<lambda>vy.
        let moved =
              (if isFinite vx \<and> isFinite vy
               then particle\<lparr>px := px particle + vx * dt, py := py particle + vy * dt\<rparr>
               else particle)
        in js_return (moved\<lparr>life := life moved - Fin 0.005 * animationSpeed\<rparr>))))"

definition needsRespawn :: "Particle \<Rightarrow> bool" where
  "needsRespawn particle \<longleftrightarrow>
     js_le (life particle) (Fin 0) \<or> js_gt \<bar>px particle\<bar> range2D \<or> js_gt \<bar>py particle\<bar> range2D"

definition respawnParticle :: "'w host \<Rightarrow> Particle \<Rightarrow> (Particle, 'w) js" where
  "respawnParticle h particle =
     (if needsRespawn particle then
        js_bind (random_coordinate h range2D) (\<lambda>nx.
        js_bind (random_coordinate h range2D) (\<lambda>ny.
          js_return (particle\<lparr>px := nx, py := ny, life := Fin 1\<rparr>)))
      else js_return particle)"

definition updateParticle ::
  "'w host \<Rightarrow> (jsnum \<Rightarrow> jsnum \<Rightarrow> (jsnum, 'w) js) \<Rightarrow> (jsnum \<Rightarrow> jsnum \<Rightarrow> (jsnum, 'w) js) \<Rightarrow>
   jsnum \<Rightarrow> Particle \<Rightarrow> (Particle, 'w) js" where
  "updateParticle h Fx' Fy' animationSpeed particle =
     js_bind (moveParticle Fx' Fy' animationSpeed particle) (respawnParticle h)"

text \<open>Visiting the elements of an array in order, each replaced by its update.\<close>

fun for_each_element :: "('a \<Rightarrow> ('a, 'w) js) \<Rightarrow> 'a list \<Rightarrow> ('a list, 'w) js" where
  "for_each_element f [] = js_return []"
| "for_each_element f (a # as) =
     js_bind (f a) (\<lambda>b. js_bind (for_each_element f as) (\<lambda>bs. js_return (b # bs)))"

definition animateParticles ::
  "'w host \<Rightarrow> (jsnum \<Rightarrow> jsnum \<Rightarrow> (jsnum, 'w) js) \<Rightarrow> (jsnum \<Rightarrow> jsnum \<Rightarrow> (jsnum, 'w) js) \<Rightarrow>
   bool \<Rightarrow> jsnum \<Rightarrow> Particle list \<Rightarrow> (Particle list, 'w) js" where
  "animateParticles h Fx' Fy' isAnimating animationSpeed particles =
     (if isAnimating then for_each_element (updateParticle h Fx' Fy' animationSpeed) particles
      else js_return particles)"

text \<open>The particle part of a frame of the 2D view, with the closures the effect built.\<close>

definition animate ::
  "'w host \<Rightarrow> string \<Rightarrow> string \<Rightarrow> PointSource list \<Rightarrow> bool \<Rightarrow> jsnum \<Rightarrow> Particle list \<Rightarrow>
   (Particle list, 'w) js" where
  "animate h fx fy pointSources isAnimating animationSpeed particles =
     animateParticles h
       (Fx (createFieldFunction h fx) pointSources) (Fy (createFieldFunction h fy) pointSources)
       isAnimating animationSpeed particles"

subsection \<open>The 3D view\<close>

record Vector3 =
  v3x :: jsnum
  v3y :: jsnum
  v3z :: jsnum

record Particle3D =
  position :: Vector3
  velocity :: Vector3
  life3D :: jsnum

definition moveParticle3D ::
  "(jsnum \<Rightarrow> jsnum \<Rightarrow> jsnum \<Rightarrow> (jsnum, 'w) js) \<Rightarrow> (jsnum \<Rightarrow> jsnum \<Rightarrow> jsnum \<Rightarrow> (jsnum, 'w) js) \<Rightarrow>
   (jsnum \<Rightarrow> jsnum \<Rightarrow> jsnum \<Rightarrow> (jsnum, 'w) js) \<Rightarrow> jsnum \<Rightarrow> jsnum \<Rightarrow> Particle3D \<Rightarrow>
   (Particle3D, 'w) js" where
  "moveParticle3D Fx' Fy' Fz' delta speed particle =
     (let x = v3x (position particle); y = v3y (position particle); z = v3z (position particle) in
      js_bind (Fx' x y z) (\<lambda>vx.
      js_bind (Fy' x y z) (\<lambda>vy.
      js_bind (Fz' x y z) (\<lambda>vz.
        let moved =
              (if isFinite vx \<and> isFinite vy \<and> isFinite vz
               then particle\<lparr>position :=
                      \<lparr>v3x = x + vx * delta * speed,
                       v3y = y + vy * delta * speed,
                       v3z = z + vz * delta * speed\<rparr>\<rparr>
               else particle)
        in js_return (moved\<lparr>life3D := life3D moved - delta * Fin 0.3 * speed\<rparr>)))))"

definition needsRespawn3D :: "jsnum \<Rightarrow> Particle3D \<Rightarrow> bool" where
  "needsRespawn3D domainRange particle \<longleftrightarrow>
     js_le (life3D particle) (Fin 0) \<or>
     js_gt \<bar>v3x (position particle)\<bar> domainRange \<or>
     js_gt \<bar>v3y (position particle)\<bar> domainRange \<or>
     js_gt \<bar>v3z (position particle)\<bar> domainRange"

definition respawnParticle3D :: "'w host \<Rightarrow> jsnum \<Rightarrow> Particle3D \<Rightarrow> (Particle3D, 'w) js" where
  "respawnParticle3D h domainRange particle =
     (if needsRespawn3D domainRange particle then
        js_bind (random_coordinate h domainRange) (\<lambda>nx.
        js_bind (random_coordinate h domainRange) (\<lambda>ny.
        js_bind (random_coordinate h domainRange) (\<lambda>nz.
          js_return (particle\<lparr>position := \<lparr>v3x = nx, v3y = ny, v3z = nz\<rparr>, life3D := Fin 1\<rparr>))))
      else js_return particle)"

definition updateParticle3D ::
  "'w host \<Rightarrow> (jsnum \<Rightarrow> jsnum \<Rightarrow> jsnum \<Rightarrow> (jsnum, 'w) js) \<Rightarrow>
   (jsnum \<Rightarrow> jsnum \<Rightarrow> jsnum \<Rightarrow> (jsnum, 'w) js) \<Rightarrow> (jsnum \<Rightarrow> jsnum \<Rightarrow> jsnum \<Rightarrow> (jsnum, 'w) js) \<Rightarrow>
   jsnum \<Rightarrow> jsnum \<Rightarrow> jsnum \<Rightarrow> Particle3D \<Rightarrow> (Particle3D, 'w) js" where
  "updateParticle3D h Fx' Fy' Fz' domainRange delta speed particle =
     js_bind (moveParticle3D Fx' Fy' Fz' delta speed particle) (respawnParticle3D h domainRange)"

text \<open>
  The frame callback of \<open>ParticleSystem\<close>. It does nothing unless the system is animating
  and its \<open>points\<close> object is mounted. The copies of position and life into the geometry
  buffers are not modelled.
\<close>

definition useFrame ::
  "'w host \<Rightarrow> string \<Rightarrow> string \<Rightarrow> string \<Rightarrow> jsnum \<Rightarrow> bool \<Rightarrow> bool \<Rightarrow> jsnum \<Rightarrow> jsnum \<Rightarrow>
   Particle3D list \<Rightarrow> (Particle3D list, 'w) js" where
  "useFrame h fx fy fz domainRange isAnimating mounted speed delta particles =
     (if \<not> isAnimating \<or> \<not> mounted then js_return particles
      else for_each_element
             (updateParticle3D h (createFieldFunction3D h fx) (createFieldFunction3D h fy)
                (createFieldFunction3D h fz) domainRange delta speed)
             particles)"

section \<open>The Electric Dipole preset\<close>

record PhysicsPreset =
  preset_fx :: string
  preset_fy :: string
  preset_sources :: "(jsnum \<times> jsnum \<times> jsnum \<times> source_kind) list"

definition electricDipole :: PhysicsPreset where
  "electricDipole =
     \<lparr>preset_fx = ''0'', preset_fy = ''0'',
      preset_sources = [(Fin (- 1), Fin 0, Fin 3, Source), (Fin 1, Fin 0, Fin (- 3), Sink)]\<rparr>"

text \<open>\<open>loadPhysicsPreset\<close> gives the preset's sources the next free identifiers.\<close>

definition loadPhysicsPreset :: "nat \<Rightarrow> PhysicsPreset \<Rightarrow> PointSource list" where
  "loadPhysicsPreset nextSourceId preset =
     map (\<lambda>(k, (x, y, s, t)).
            \<lparr>ps_id = nextSourceId + k, ps_x = x, ps_y = y, strength = s, ps_type = t\<rparr>)
       (enumerate 0 (preset_sources preset))"

section \<open>When the effect runs\<close>

text \<open>
  The state of the 2D view that the effect lists as its dependencies, in the order of the
  list: \<open>[fx, fy, isAnimating, animationSpeed, pointSources, colorTheme, isPulsingEnabled]\<close>.
  After a render the framework runs the effect again when an entry of the list differs from
  its value at the previous render; it compares with \<open>Object.is\<close>, which on strings, booleans
  and numbers of this model is equality. The source list is compared as an object: every
  handler of the view that changes the sources installs a new array, so a list with other
  contents is another object.
\<close>

record ViewState =
  view_fx :: string
  view_fy :: string
  view_isAnimating :: bool
  view_animationSpeed :: jsnum
  view_pointSources :: "PointSource list"
  view_colorTheme :: ColorTheme
  view_isPulsingEnabled :: bool

definition effect_deps ::
  "ViewState \<Rightarrow> string \<times> string \<times> bool \<times> jsnum \<times> PointSource list \<times> ColorTheme \<times> bool" where
  "effect_deps s =
     (view_fx s, view_fy s, view_isAnimating s, view_animationSpeed s, view_pointSources s,
      view_colorTheme s, view_isPulsingEnabled s)"

text \<open>
  The grid in use after a render: when a dependency changed, the outcome of a new run of the
  effect on the current state (the frame loop of the previous run is cancelled, and its
  grid with it); otherwise the grid that was in use.
\<close>

definition render ::
  "'w host \<Rightarrow> canvas option \<Rightarrow> ViewState \<Rightarrow> ViewState \<Rightarrow>
   (jsnum list list \<times> jsnum \<times> jsnum) effect_outcome \<Rightarrow>
   ((jsnum list list \<times> jsnum \<times> jsnum) effect_outcome, 'w) js" where
  "render h canvasRef previous current inUse =
     (if effect_deps previous \<noteq> effect_deps current
      then fieldEffect h canvasRef (view_fx current) (view_fy current) (view_pointSources current)
      else js_return inUse)"

section \<open>Notions used to state the properties\<close>

text \<open>The real number a finite JavaScript number denotes.\<close>

fun fin_value :: "jsnum \<Rightarrow> real" where
  "fin_value (Fin a) = a"
| "fin_value _ = 0"

text \<open>A point source whose position and strength are finite numbers, as every source is
  that the view creates (from a click, a drag or a preset).\<close>

definition finite_source :: "PointSource \<Rightarrow> bool" where
  "finite_source ps \<longleftrightarrow> isFinite (ps_x ps) \<and> isFinite (ps_y ps) \<and> isFinite (strength ps)"

text \<open>
  The combination rule in the specification's words: the contribution of a source of
  strength \<open>s\<close> to a component is \<open>s\<close> times that component \<open>d\<close> of the separation, divided by
  the squared length of the separation \<open>(dx, dy)\<close> plus \<open>\<epsilon> = 0.01\<close>.
\<close>

definition spec_source_term :: "real \<Rightarrow> real \<Rightarrow> real \<Rightarrow> real \<Rightarrow> real" where
  "spec_source_term s d dx dy = s * d / (dx\<^sup>2 + dy\<^sup>2 + 1 / 100)"

text \<open>
  A closure that never throws; and a closure that, at finite arguments, returns the finite
  value \<open>g x y\<close> and leaves the ambient state alone.
\<close>

definition never_throws :: "(jsnum \<Rightarrow> jsnum \<Rightarrow> (jsnum, 'w) js) \<Rightarrow> bool" where
  "never_throws f \<longleftrightarrow> (\<forall>x y w. \<exists>v w'. f x y w = Returned v w')"

definition computes :: "(jsnum \<Rightarrow> jsnum \<Rightarrow> (jsnum, 'w) js) \<Rightarrow> (real \<Rightarrow> real \<Rightarrow> real) \<Rightarrow> bool" where
  "computes f g \<longleftrightarrow> (\<forall>x y w. f (Fin x) (Fin y) w = Returned (Fin (g x y)) w)"

text \<open>
  The derivative in the specification's words, \<open>(f(x + h) - f(x - h)) / (2h)\<close> with
  \<open>h = 0.01\<close>, the divergence as the sum of the two partials, each along its own axis, and
  the coordinates of the grid point \<open>(i, j)\<close>.
\<close>

definition central_difference :: "(real \<Rightarrow> real) \<Rightarrow> real \<Rightarrow> real" where
  "central_difference f x = (f (x + 1 / 100) - f (x - 1 / 100)) / (2 * (1 / 100))"

definition spec_divergence :: "(real \<Rightarrow> real \<Rightarrow> real) \<Rightarrow> (real \<Rightarrow> real \<Rightarrow> real) \<Rightarrow> real \<Rightarrow> real \<Rightarrow> real" where
  "spec_divergence gx gy x y =
     central_difference (\<lambda>x'. gx x' y) x + central_difference (\<lambda>y'. gy x y') y"

definition grid_x :: "nat \<Rightarrow> real" where
  "grid_x i = - 3 + real i * (6 / 100)"

definition grid_y :: "nat \<Rightarrow> real" where
  "grid_y j = 3 - real j * (6 / 100)"

text \<open>The grid of samples that the specification's formulas give for a field with
  components \<open>gx\<close> and \<open>gy\<close>, indexed like \<open>divergenceGrid\<close>.\<close>

definition spec_grid :: "(real \<Rightarrow> real \<Rightarrow> real) \<Rightarrow> (real \<Rightarrow> real \<Rightarrow> real) \<Rightarrow> jsnum list list" where
  "spec_grid gx gy =
     map (\<lambda>i. map (\<lambda>j. Fin (spec_divergence gx gy (grid_x i) (grid_y j))) [0..<Suc gridSize])
       [0..<Suc gridSize]"

text \<open>
  A particle whose fields are finite numbers, the respawn trigger in the specification's
  words (life at most zero, or the absolute value of a coordinate above the domain range
  \<open>r\<close>), and a particle that lies within \<open>[-r, r]\<close> on each axis.
\<close>

definition finite_particle :: "Particle \<Rightarrow> bool" where
  "finite_particle p \<longleftrightarrow> isFinite (px p) \<and> isFinite (py p) \<and> isFinite (life p)"

definition spec_trigger :: "real \<Rightarrow> Particle \<Rightarrow> bool" where
  "spec_trigger r p \<longleftrightarrow>
     fin_value (life p) \<le> 0 \<or> \<bar>fin_value (px p)\<bar> > r \<or> \<bar>fin_value (py p)\<bar> > r"

definition in_domain :: "real \<Rightarrow> Particle \<Rightarrow> bool" where
  "in_domain r p \<longleftrightarrow>
     (\<exists>x y. px p = Fin x \<and> py p = Fin y \<and> - r \<le> x \<and> x \<le> r \<and> - r \<le> y \<and> y \<le> r)"

definition finite_vector :: "Vector3 \<Rightarrow> bool" where
  "finite_vector v \<longleftrightarrow> isFinite (v3x v) \<and> isFinite (v3y v) \<and> isFinite (v3z v)"

definition finite_particle3D :: "Particle3D \<Rightarrow> bool" where
  "finite_particle3D p \<longleftrightarrow> finite_vector (position p) \<and> isFinite (life3D p)"

definition spec_trigger3D :: "real \<Rightarrow> Particle3D \<Rightarrow> bool" where
  "spec_trigger3D r p \<longleftrightarrow>
     fin_value (life3D p) \<le> 0 \<or> \<bar>fin_value (v3x (position p))\<bar> > r \<or>
     \<bar>fin_value (v3y (position p))\<bar> > r \<or> \<bar>fin_value (v3z (position p))\<bar> > r"

definition in_domain3D :: "real \<Rightarrow> Particle3D \<Rightarrow> bool" where
  "in_domain3D r p \<longleftrightarrow>
     (\<exists>x y z. position p = \<lparr>v3x = Fin x, v3y = Fin y, v3z = Fin z\<rparr> \<and>
        - r \<le> x \<and> x \<le> r \<and> - r \<le> y \<and> y \<le> r \<and> - r \<le> z \<and> z \<le> r)"

definition never_throws3D :: "(jsnum \<Rightarrow> jsnum \<Rightarrow> jsnum \<Rightarrow> (jsnum, 'w) js) \<Rightarrow> bool" where
  "never_throws3D f \<longleftrightarrow> (\<forall>x y z w. \<exists>v w'. f x y z w = Returned v w')"

text \<open>A channel value within \<open>[0, 255]\<close>.\<close>

definition byte :: "int \<Rightarrow> bool" where
  "byte c \<longleftrightarrow> 0 \<le> c \<and> c \<le> 255"

text \<open>The colour string of a palette anchor, unmodified.\<close>

definition anchor :: "int \<times> int \<times> int \<Rightarrow> css_color" where
  "anchor c = (case c of (r, g, b) \<Rightarrow> RGB (channel r) (channel g) (channel b))"

text \<open>Every strength replaced by its double.\<close>

definition double_strengths :: "PointSource list \<Rightarrow> PointSource list" where
  "double_strengths pointSources = map (\<lambda>ps. ps\<lparr>strength := Fin 2 * strength ps\<rparr>) pointSources"

section \<open>The same computations with rounding\<close>

text \<open>
  The model above computes with exact reals. Two properties speak of what rounding could
  disturb: that doubling the strengths doubles the field exactly, and that a divergence
  stays within a tolerance. For these the computations are repeated here on reals with
  every arithmetic result (and every decimal literal) passed through a rounding function
  \<open>rnd\<close>. Rounding to the nearest double moves a real of magnitude at most \<open>2\<^sup>1\<^sup>0\<^sup>2\<^sup>3\<close> by at
  most the larger of \<open>2\<^sup>-\<^sup>5\<^sup>3\<close> of its magnitude and half the spacing \<open>2\<^sup>-\<^sup>1\<^sup>0\<^sup>7\<^sup>4\<close> of the
  subnormal numbers; and it commutes with doubling on the reals that are zero or of a
  magnitude between the smallest normal number \<open>2\<^sup>-\<^sup>1\<^sup>0\<^sup>2\<^sup>2\<close> and \<open>2\<^sup>1\<^sup>0\<^sup>2\<^sup>2\<close>, where neither the
  real nor its double underflows or overflows.
\<close>

definition standard_rounding :: "(real \<Rightarrow> real) \<Rightarrow> bool" where
  "standard_rounding rnd \<longleftrightarrow>
     (\<forall>x. \<bar>x\<bar> \<le> 2 ^ 1023 \<longrightarrow> \<bar>rnd x - x\<bar> \<le> max (\<bar>x\<bar> / 2 ^ 53) (1 / 2 ^ 1075))"

definition normal_or_zero :: "real \<Rightarrow> bool" where
  "normal_or_zero x \<longleftrightarrow> x = 0 \<or> (1 / 2 ^ 1022 \<le> \<bar>x\<bar> \<and> \<bar>x\<bar> \<le> 2 ^ 1022)"

definition doubling_exact :: "(real \<Rightarrow> real) \<Rightarrow> bool" where
  "doubling_exact rnd \<longleftrightarrow> (\<forall>x. normal_or_zero x \<longrightarrow> rnd (2 * x) = 2 * rnd x)"

text \<open>\<open>Fx\<close> and \<open>Fy\<close> for sources given as \<open>(x, y, strength)\<close>, starting from the base value
  \<open>b\<close>.\<close>

definition fl_rSq :: "(real \<Rightarrow> real) \<Rightarrow> real \<Rightarrow> real \<Rightarrow> real \<Rightarrow> real \<Rightarrow> real" where
  "fl_rSq rnd x y sx sy =
     (let dx = rnd (x - sx); dy = rnd (y - sy)
      in rnd (rnd (rnd (dx * dx) + rnd (dy * dy)) + rnd (1 / 100)))"

definition fl_Fx :: "(real \<Rightarrow> real) \<Rightarrow> real \<Rightarrow> (real \<times> real \<times> real) list \<Rightarrow> real \<Rightarrow> real \<Rightarrow> real" where
  "fl_Fx rnd b sources x y =
     foldl (\<lambda>fx (sx, sy, s). rnd (fx + rnd (rnd (s * rnd (x - sx)) / fl_rSq rnd x y sx sy)))
       b sources"

definition fl_Fy :: "(real \<Rightarrow> real) \<Rightarrow> real \<Rightarrow> (real \<times> real \<times> real) list \<Rightarrow> real \<Rightarrow> real \<Rightarrow> real" where
  "fl_Fy rnd b sources x y =
     foldl (\<lambda>fy (sx, sy, s). rnd (fy + rnd (rnd (s * rnd (y - sy)) / fl_rSq rnd x y sx sy)))
       b sources"

text \<open>
  No overflow and no harmful underflow in the evaluation of \<open>Fx\<close> (of \<open>Fy\<close>): for every source,
  no operation on the way to \<open>rSq\<close> yields a real beyond the range of the doubles, and the
  product \<open>strength * dx\<close>, its quotient by \<open>rSq\<close> and the sum with the value so far are zero or
  in the normal range, before they are rounded.
\<close>

definition in_range :: "real \<Rightarrow> bool" where
  "in_range v \<longleftrightarrow> \<bar>v\<bar> \<le> 2 ^ 1023"

definition fl_rSq_in_range :: "(real \<Rightarrow> real) \<Rightarrow> real \<Rightarrow> real \<Rightarrow> real \<Rightarrow> real \<Rightarrow> bool" where
  "fl_rSq_in_range rnd x y sx sy =
     (let dx = rnd (x - sx); dy = rnd (y - sy);
          sx2 = rnd (dx * dx); sy2 = rnd (dy * dy)
      in in_range (x - sx) \<and> in_range (y - sy) \<and> in_range (dx * dx) \<and> in_range (dy * dy) \<and>
         in_range (sx2 + sy2) \<and> in_range (rnd (sx2 + sy2) + rnd (1 / 100)))"

fun fl_normal_x :: "(real \<Rightarrow> real) \<Rightarrow> real \<Rightarrow> (real \<times> real \<times> real) list \<Rightarrow> real \<Rightarrow> real \<Rightarrow> bool" where
  "fl_normal_x rnd fx [] x y = True"
| "fl_normal_x rnd fx ((sx, sy, s) # sources) x y =
     (let p = s * rnd (x - sx);
          q = rnd p / fl_rSq rnd x y sx sy;
          a = fx + rnd q
      in fl_rSq_in_range rnd x y sx sy \<and>
         normal_or_zero p \<and> normal_or_zero q \<and> normal_or_zero a \<and>
         fl_normal_x rnd (rnd a) sources x y)"

fun fl_normal_y :: "(real \<Rightarrow> real) \<Rightarrow> real \<Rightarrow> (real \<times> real \<times> real) list \<Rightarrow> real \<Rightarrow> real \<Rightarrow> bool" where
  "fl_normal_y rnd fy [] x y = True"
| "fl_normal_y rnd fy ((sx, sy, s) # sources) x y =
     (let p = s * rnd (y - sy);
          q = rnd p / fl_rSq rnd x y sx sy;
          a = fy + rnd q
      in fl_rSq_in_range rnd x y sx sy \<and>
         normal_or_zero p \<and> normal_or_zero q \<and> normal_or_zero a \<and>
         fl_normal_y rnd (rnd a) sources x y)"

text \<open>The point sources of the state as such triples.\<close>

definition source_triples :: "PointSource list \<Rightarrow> (real \<times> real \<times> real) list" where
  "source_triples pointSources =
     map (\<lambda>ps. (fin_value (ps_x ps), fin_value (ps_y ps), fin_value (strength ps))) pointSources"

text \<open>The sample of the scan at \<open>(i, j)\<close> for the field \<open>Fx = x\<close>, \<open>Fy = y\<close>: the step
  \<open>(2 * range) / gridSize\<close>, the coordinates \<open>-range + i * step\<close> and \<open>range - j * step\<close>, the
  difference quotient of a closure that returns its argument, and the sum of the two.\<close>

definition fl_step :: "(real \<Rightarrow> real) \<Rightarrow> real" where
  "fl_step rnd = rnd (rnd (2 * 3) / 100)"

definition fl_x :: "(real \<Rightarrow> real) \<Rightarrow> nat \<Rightarrow> real" where
  "fl_x rnd i = rnd (- 3 + rnd (real i * fl_step rnd))"

definition fl_y :: "(real \<Rightarrow> real) \<Rightarrow> nat \<Rightarrow> real" where
  "fl_y rnd j = rnd (3 - rnd (real j * fl_step rnd))"

definition fl_derivative :: "(real \<Rightarrow> real) \<Rightarrow> real \<Rightarrow> real" where
  "fl_derivative rnd x =
     (let h = rnd (1 / 100)
      in rnd (rnd (rnd (x + h) - rnd (x - h)) / rnd (2 * h)))"

definition fl_radial_sample :: "(real \<Rightarrow> real) \<Rightarrow> nat \<Rightarrow> nat \<Rightarrow> real" where
  "fl_radial_sample rnd i j = rnd (fl_derivative rnd (fl_x rnd i) + fl_derivative rnd (fl_y rnd j))"

subsection \<open>Rounding to the nearest double\<close>

text \<open>
  The rounding of the code's arithmetic: to the nearest multiple of the spacing of the
  doubles around \<open>x\<close>, ties to the even multiple. The spacing is \<open>2\<^sup>e\<^sup>-\<^sup>5\<^sup>2\<close> for \<open>2\<^sup>e \<le> |x| < 2\<^sup>e\<^sup>+\<^sup>1\<close>,
  and \<open>2\<^sup>-\<^sup>1\<^sup>0\<^sup>7\<^sup>4\<close> for the subnormal numbers below \<open>2\<^sup>-\<^sup>1\<^sup>0\<^sup>2\<^sup>2\<close>. In the code a real beyond the largest
  double by half a spacing or more becomes an infinity; \<open>round_double\<close> is the double of the
  code for the reals below that, in particular for those of magnitude at most \<open>2\<^sup>1\<^sup>0\<^sup>2\<^sup>3\<close>.
\<close>

definition round_half_even :: "real \<Rightarrow> int" where
  "round_half_even x =
     (let n = \<lfloor>x\<rfloor>; r = x - of_int n
      in if r < 1 / 2 then n else if 1 / 2 < r then n + 1 else if even n then n else n + 1)"

definition binade :: "real \<Rightarrow> int" where
  "binade x = max (- 1022) \<lfloor>log 2 \<bar>x\<bar>\<rfloor>"

definition spacing :: "real \<Rightarrow> real" where
  "spacing x = 2 powi (binade x - 52)"

definition round_double :: "real \<Rightarrow> real" where
  "round_double x = (if x = 0 then 0 else of_int (round_half_even (x / spacing x)) * spacing x)"

section \<open>Statements about the host, and a host to instantiate them\<close>

text \<open>
  \<open>host_evaluates h params expression f\<close>: the host compiles the body made from
  \<open>expression\<close>, and every call of the compiled function returns \<open>f\<close> of its arguments and
  leaves the ambient state alone. The theorems about the fields \<open>x\<close>, \<open>y\<close> and \<open>0\<close> assume this
  of the host for those three texts, as any ECMAScript engine provides it.
\<close>

definition host_evaluates ::
  "'w host \<Rightarrow> string list \<Rightarrow> string \<Rightarrow> (jsval list \<Rightarrow> jsval) \<Rightarrow> bool" where
  "host_evaluates h params expression f \<longleftrightarrow>
     (\<exists>func. newFunction h params (function_body expression) = Inr func \<and>
        (\<forall>args w. func args w = Returned (f args) w))"

text \<open>\<open>Math.random()\<close> returns a finite number \<open>u\<close> with \<open>0 \<le> u < 1\<close>.\<close>

definition random_in_unit_interval :: "'w host \<Rightarrow> bool" where
  "random_in_unit_interval h \<longleftrightarrow>
     (\<forall>w. \<exists>u. fst (Math_random h w) = Fin u \<and> 0 \<le> u \<and> u < 1)"

text \<open>
  A small host for concrete instances. Its ambient state is a clock reading in
  milliseconds. It compiles seven expression texts, each as an ECMAScript engine does, and
  rejects every other text: \<open>x\<close>, \<open>y\<close> and \<open>0\<close>; \<open>1/0\<close>, which is \<open>Infinity\<close>; \<open>'a'\<close>, a string;
  \<open>null.x\<close>, whose evaluation throws a \<open>TypeError\<close>; and \<open>Date.now()\<close>, which reads the clock.
  Its \<open>Math.random()\<close> always draws \<open>1/4\<close>.
\<close>

definition sample_newFunction ::
  "string list \<Rightarrow> string \<Rightarrow> jsval + (jsval list \<Rightarrow> (jsval, nat) js)" where
  "sample_newFunction params body =
     (if body = function_body ''x'' then Inr (\<lambda>args. js_return (args ! 0))
      else if body = function_body ''y'' then Inr (\<lambda>args. js_return (args ! 1))
      else if body = function_body ''0'' then Inr (\<lambda>args. js_return (JSNumber (Fin 0)))
      else if body = function_body ''1/0'' then Inr (\<lambda>args. js_return (JSNumber PInf))
      else if body = function_body [CHR 0x27, CHR ''a'', CHR 0x27]
        then Inr (\<lambda>args. js_return (JSString ''a''))
      else if body = function_body ''null.x'' then Inr (\<lambda>args w. Thrown (JSObject 1) w)
      else if body = function_body ''Date.now()''
        then Inr (\<lambda>args w. Returned (JSNumber (Fin (real w))) w)
      else Inl (JSObject 2))"

definition sample_host :: "nat host" where
  "sample_host =
     \<lparr>newFunction = sample_newFunction, Math_ns = JSObject 0,
      Math_random = (\<lambda>w. (Fin (1 / 4), w))\<rparr>"

section \<open>Basic facts about results and numbers\<close>

lemma js_bind_apply:
  "js_bind m f w = (case m w of Returned a w' \<Rightarrow> f a w' | Thrown e w' \<Rightarrow> Thrown e w')"
  by (simp add: js_bind_def)

lemma js_bind_return [simp]: "js_bind (js_return a) f = f a"
  by (simp add: js_bind_def js_return_def)

lemma js_return_apply [simp]: "js_return a w = Returned a w"
  by (simp add: js_return_def)

lemma minus_Fin [simp]: "Fin a - Fin b = Fin (a - b)"
  by (simp add: minus_jsnum_def)

section \<open>Properties of the expression compiler\<close>

lemma typeof_number: "typeof r = ''number'' \<longleftrightarrow> (\<exists>n. r = JSNumber n)"
  by (cases r) simp_all

lemma finite_or_zero_simps:
  "finite_or_zero (JSNumber (Fin v)) = Fin v"
  "finite_or_zero (JSNumber PInf) = Fin 0"
  "finite_or_zero (JSNumber NInf) = Fin 0"
  "finite_or_zero (JSNumber NaN) = Fin 0"
  by (simp_all add: finite_or_zero_def)

lemma finite_or_zero_other:
  assumes "\<And>v. r \<noteq> JSNumber (Fin v)"
  shows "finite_or_zero r = Fin 0"
proof (cases r)
  case (JSNumber n)
  with assms show ?thesis by (cases n) (auto simp: finite_or_zero_def)
qed (simp_all add: finite_or_zero_def)

lemma finite_or_zero_finite: "\<exists>v. finite_or_zero r = Fin v"
proof (cases "\<exists>v. r = JSNumber (Fin v)")
  case True
  then show ?thesis by (auto simp: finite_or_zero_simps)
next
  case False
  then have "finite_or_zero r = Fin 0" by (intro finite_or_zero_other) auto
  then show ?thesis by blast
qed

lemma guarded_call:
  "try_catch (js_bind m (\<lambda>result. js_return (finite_or_zero result))) (\<lambda>e. js_return (Fin 0)) w =
     (case m w of Returned r w' \<Rightarrow> Returned (finite_or_zero r) w' | Thrown e w' \<Rightarrow> Returned (Fin 0) w')"
  by (simp add: try_catch_def js_bind_def js_return_def split: result.splits)

lemma createFieldFunction_Inl:
  "newFunction h [''x'', ''y'', ''Math''] (function_body src) = Inl e \<Longrightarrow>
   createFieldFunction h src x y w = Returned (Fin 0) w"
  by (simp add: createFieldFunction_def js_return_def)

lemma createFieldFunction_Inr:
  "newFunction h [''x'', ''y'', ''Math''] (function_body src) = Inr func \<Longrightarrow>
   createFieldFunction h src x y w =
     (case func [JSNumber x, JSNumber y, Math_ns h] w of
        Returned r w' \<Rightarrow> Returned (finite_or_zero r) w'
      | Thrown e w' \<Rightarrow> Returned (Fin 0) w')"
  by (simp add: createFieldFunction_def guarded_call)

lemma createFieldFunction_returns:
  "\<exists>v w'. createFieldFunction h src x y w = Returned (Fin v) w'"
proof (cases "newFunction h [''x'', ''y'', ''Math''] (function_body src)")
  case (Inl e)
  then show ?thesis by (simp add: createFieldFunction_Inl)
next
  case (Inr func)
  show ?thesis
  proof (cases "func [JSNumber x, JSNumber y, Math_ns h] w")
    case (Returned r w')
    obtain v where "finite_or_zero r = Fin v" using finite_or_zero_finite by blast
    with Inr Returned show ?thesis by (simp add: createFieldFunction_Inr)
  next
    case (Thrown e w')
    with Inr show ?thesis by (simp add: createFieldFunction_Inr)
  qed
qed



lemma createFieldFunction3D_Inl:
  "newFunction h [''x'', ''y'', ''z'', ''Math''] (function_body src) = Inl e \<Longrightarrow>
   createFieldFunction3D h src x y z w = Returned (Fin 0) w"
  by (simp add: createFieldFunction3D_def js_return_def)

lemma createFieldFunction3D_Inr:
  "newFunction h [''x'', ''y'', ''z'', ''Math''] (function_body src) = Inr func \<Longrightarrow>
   createFieldFunction3D h src x y z w =
     (case func [JSNumber x, JSNumber y, JSNumber z, Math_ns h] w of
        Returned r w' \<Rightarrow> Returned (finite_or_zero r) w'
      | Thrown e w' \<Rightarrow> Returned (Fin 0) w')"
  by (simp add: createFieldFunction3D_def guarded_call)

lemma createFieldFunction3D_returns:
  "\<exists>v w'. createFieldFunction3D h src x y z w = Returned (Fin v) w'"
proof (cases "newFunction h [''x'', ''y'', ''z'', ''Math''] (function_body src)")
  case (Inl e)
  then show ?thesis by (simp add: createFieldFunction3D_Inl)
next
  case (Inr func)
  show ?thesis
  proof (cases "func [JSNumber x, JSNumber y, JSNumber z, Math_ns h] w")
    case (Returned r w')
    obtain v where "finite_or_zero r = Fin v" using finite_or_zero_finite by blast
    with Inr Returned show ?thesis by (simp add: createFieldFunction3D_Inr)
  next
    case (Thrown e w')
    with Inr show ?thesis by (simp add: createFieldFunction3D_Inr)
  qed
qed


text \<open>What the sample host makes of its expression texts.\<close>

lemma sample_compile [simp]:
  "newFunction sample_host params (function_body ''x +'') = Inl (JSObject 2)"
  "newFunction sample_host params (function_body ''null.x'') = Inr (\<lambda>args w. Thrown (JSObject 1) w)"
  "newFunction sample_host params (function_body ''1/0'') = Inr (\<lambda>args. js_return (JSNumber PInf))"
  "newFunction sample_host params (function_body [CHR 0x27, CHR ''a'', CHR 0x27]) = Inr (\<lambda>args. js_return (JSString ''a''))"
  "newFunction sample_host params (function_body ''x'') = Inr (\<lambda>args. js_return (args ! 0))"
  "newFunction sample_host params (function_body ''y'') = Inr (\<lambda>args. js_return (args ! 1))"
  "newFunction sample_host params (function_body ''0'') = Inr (\<lambda>args. js_return (JSNumber (Fin 0)))"
  "newFunction sample_host params (function_body ''Date.now()'') = Inr (\<lambda>args w. Returned (JSNumber (Fin (real w))) w)"
  by (simp_all add: sample_host_def sample_newFunction_def function_body_def)


text \<open>
  Claim C2 fails on the code. The compiler hands the text to \<open>new Function\<close> as it is and
  adds nothing between the compiled function and the ambient state: what the compiled
  function returns at one ambient state and at another, for the same arguments, is what
  the host's function returns there, and the ambient state a call leaves behind is the
  one the host's function left. A text that reads a global, such as \<open>Date.now()\<close>,
  therefore yields a field function whose value changes between two calls with equal
  arguments.
\<close>

theorem compiled_function_not_isolated:
  assumes "newFunction h [''x'', ''y'', ''Math''] (function_body src) = Inr func"
    and "func [JSNumber x, JSNumber y, Math_ns h] w1 = Returned (JSNumber (Fin a)) w1'"
    and "func [JSNumber x, JSNumber y, Math_ns h] w2 = Returned (JSNumber (Fin b)) w2'"
  shows "createFieldFunction h src x y w1 = Returned (Fin a) w1' \<and>
         createFieldFunction h src x y w2 = Returned (Fin b) w2'"
  using assms by (simp add: createFieldFunction_Inr finite_or_zero_simps)

theorem compiled_function_not_isolated_witness:
  "createFieldFunction sample_host ''Date.now()'' (Fin 0) (Fin 0) 1000 = Returned (Fin 1000) 1000 \<and>
   createFieldFunction sample_host ''Date.now()'' (Fin 0) (Fin 0) 2000 = Returned (Fin 2000) 2000 \<and>
   Fin 1000 \<noteq> Fin 2000"
  using compiled_function_not_isolated [of sample_host "''Date.now()''"
      "\<lambda>args w. Returned (JSNumber (Fin (real w))) w" "Fin 0" "Fin 0" 1000 1000 1000 2000 2000 2000]
  by simp

section \<open>Properties of the combined field\<close>

lemma rSq_finite:
  assumes "finite_source ps"
  shows "rSq (Fin x) (Fin y) ps =
           Fin ((x - fin_value (ps_x ps))\<^sup>2 + (y - fin_value (ps_y ps))\<^sup>2 + 1 / 100)"
proof -
  from assms obtain a b where "ps_x ps = Fin a" "ps_y ps = Fin b"
    unfolding finite_source_def by (cases "ps_x ps"; cases "ps_y ps") simp_all
  then show ?thesis by (simp add: rSq_def power2_eq_square)
qed

lemma rSq_bound: "1 / 100 \<le> (dx::real)\<^sup>2 + dy\<^sup>2 + 1 / 100"
  by simp

lemma x_term_finite:
  assumes "finite_source ps"
  shows "Fin a + strength ps * (Fin x - ps_x ps) / rSq (Fin x) (Fin y) ps =
           Fin (a + spec_source_term (fin_value (strength ps)) (x - fin_value (ps_x ps))
                      (x - fin_value (ps_x ps)) (y - fin_value (ps_y ps)))"
proof -
  from assms obtain s px where eq: "strength ps = Fin s" "ps_x ps = Fin px"
    unfolding finite_source_def by (cases "strength ps"; cases "ps_x ps") simp_all
  have pos: "(x - px)\<^sup>2 + (y - fin_value (ps_y ps))\<^sup>2 + 1 / 100 \<noteq> 0"
    using rSq_bound [of "x - px" "y - fin_value (ps_y ps)"] by linarith
  show ?thesis
    using pos eq by (simp add: rSq_finite [OF assms] spec_source_term_def)
qed

lemma y_term_finite:
  assumes "finite_source ps"
  shows "Fin a + strength ps * (Fin y - ps_y ps) / rSq (Fin x) (Fin y) ps =
           Fin (a + spec_source_term (fin_value (strength ps)) (y - fin_value (ps_y ps))
                      (x - fin_value (ps_x ps)) (y - fin_value (ps_y ps)))"
proof -
  from assms obtain s py where eq: "strength ps = Fin s" "ps_y ps = Fin py"
    unfolding finite_source_def by (cases "strength ps"; cases "ps_y ps") simp_all
  have pos: "(x - fin_value (ps_x ps))\<^sup>2 + (y - py)\<^sup>2 + 1 / 100 \<noteq> 0"
    using rSq_bound [of "x - fin_value (ps_x ps)" "y - py"] by linarith
  show ?thesis
    using pos eq by (simp add: rSq_finite [OF assms] spec_source_term_def)
qed

lemma foldl_x_terms:
  assumes "\<forall>ps\<in>set pointSources. finite_source ps"
  shows "foldl (\<lambda>fx ps. fx + strength ps * (Fin x - ps_x ps) / rSq (Fin x) (Fin y) ps)
           (Fin a) pointSources =
         Fin (a + (\<Sum>ps\<leftarrow>pointSources.
                spec_source_term (fin_value (strength ps)) (x - fin_value (ps_x ps))
                  (x - fin_value (ps_x ps)) (y - fin_value (ps_y ps))))"
  using assms
proof (induction pointSources arbitrary: a)
  case Nil
  then show ?case by simp
next
  case (Cons ps pointSources)
  then have "finite_source ps" by simp
  from x_term_finite [OF this] Cons show ?case
    by (simp add: Let_def add.assoc)
qed

lemma foldl_y_terms:
  assumes "\<forall>ps\<in>set pointSources. finite_source ps"
  shows "foldl (\<lambda>fy ps. fy + strength ps * (Fin y - ps_y ps) / rSq (Fin x) (Fin y) ps)
           (Fin a) pointSources =
         Fin (a + (\<Sum>ps\<leftarrow>pointSources.
                spec_source_term (fin_value (strength ps)) (y - fin_value (ps_y ps))
                  (x - fin_value (ps_x ps)) (y - fin_value (ps_y ps))))"
  using assms
proof (induction pointSources arbitrary: a)
  case Nil
  then show ?case by simp
next
  case (Cons ps pointSources)
  then have "finite_source ps" by simp
  from y_term_finite [OF this] Cons show ?case
    by (simp add: Let_def add.assoc)
qed

lemma Fx_finite:
  assumes "\<forall>ps\<in>set pointSources. finite_source ps"
    and "baseFx (Fin x) (Fin y) w = Returned (Fin b) w'"
  shows "Fx baseFx pointSources (Fin x) (Fin y) w =
           Returned (Fin (b + (\<Sum>ps\<leftarrow>pointSources.
                spec_source_term (fin_value (strength ps)) (x - fin_value (ps_x ps))
                  (x - fin_value (ps_x ps)) (y - fin_value (ps_y ps))))) w'"
  using assms(2) by (simp add: Fx_def js_bind_apply Let_def foldl_x_terms [OF assms(1)])

lemma Fy_finite:
  assumes "\<forall>ps\<in>set pointSources. finite_source ps"
    and "baseFy (Fin x) (Fin y) w = Returned (Fin b) w'"
  shows "Fy baseFy pointSources (Fin x) (Fin y) w =
           Returned (Fin (b + (\<Sum>ps\<leftarrow>pointSources.
                spec_source_term (fin_value (strength ps)) (y - fin_value (ps_y ps))
                  (x - fin_value (ps_x ps)) (y - fin_value (ps_y ps))))) w'"
  using assms(2) by (simp add: Fy_def js_bind_apply Let_def foldl_y_terms [OF assms(1)])

lemma Fx_no_sources: "Fx baseFx [] x y w = baseFx x y w"
  by (cases "baseFx x y w") (simp_all add: Fx_def js_bind_apply)

lemma Fy_no_sources: "Fy baseFy [] x y w = baseFy x y w"
  by (cases "baseFy x y w") (simp_all add: Fy_def js_bind_apply)

text \<open>
  Claim C5. At every finite position and for every list of finite point sources, each
  component of the effective field is the base component there plus the sum over the
  sources of \<open>strength * d / (|separation|\<^sup>2 + 0.01)\<close>, with \<open>d\<close> the matching component of the
  separation; the regularised squared distance is at least \<open>0.01\<close>, so no division is by
  zero; and with no sources the effective field is the base field.
\<close>

theorem effective_field_formula:
  assumes "\<forall>ps\<in>set pointSources. finite_source ps"
  shows "\<exists>cx wx cy wy.
           createFieldFunction h fx (Fin x) (Fin y) w = Returned (Fin cx) wx \<and>
           Fx (createFieldFunction h fx) pointSources (Fin x) (Fin y) w =
             Returned (Fin (cx + (\<Sum>ps\<leftarrow>pointSources.
                spec_source_term (fin_value (strength ps)) (x - fin_value (ps_x ps))
                  (x - fin_value (ps_x ps)) (y - fin_value (ps_y ps))))) wx \<and>
           createFieldFunction h fy (Fin x) (Fin y) w = Returned (Fin cy) wy \<and>
           Fy (createFieldFunction h fy) pointSources (Fin x) (Fin y) w =
             Returned (Fin (cy + (\<Sum>ps\<leftarrow>pointSources.
                spec_source_term (fin_value (strength ps)) (y - fin_value (ps_y ps))
                  (x - fin_value (ps_x ps)) (y - fin_value (ps_y ps))))) wy \<and>
           (\<forall>ps\<in>set pointSources. \<exists>r. rSq (Fin x) (Fin y) ps = Fin r \<and> 1 / 100 \<le> r) \<and>
           Fx (createFieldFunction h fx) [] (Fin x) (Fin y) w = Returned (Fin cx) wx \<and>
           Fy (createFieldFunction h fy) [] (Fin x) (Fin y) w = Returned (Fin cy) wy"
proof -
  obtain cx wx where cx: "createFieldFunction h fx (Fin x) (Fin y) w = Returned (Fin cx) wx"
    using createFieldFunction_returns [of h fx "Fin x" "Fin y" w] by blast
  obtain cy wy where cy: "createFieldFunction h fy (Fin x) (Fin y) w = Returned (Fin cy) wy"
    using createFieldFunction_returns [of h fy "Fin x" "Fin y" w] by blast
  have r: "\<forall>ps\<in>set pointSources. \<exists>r. rSq (Fin x) (Fin y) ps = Fin r \<and> 1 / 100 \<le> r"
    using assms by (auto simp: rSq_finite)
  show ?thesis
    using cx cy r Fx_finite [of pointSources "createFieldFunction h fx", OF assms cx]
      Fy_finite [of pointSources "createFieldFunction h fy", OF assms cy]
    by (simp add: Fx_no_sources Fy_no_sources)
qed


lemma sample_fields [simp]:
  "createFieldFunction sample_host ''x'' x y w = Returned (finite_or_zero (JSNumber x)) w"
  "createFieldFunction sample_host ''y'' x y w = Returned (finite_or_zero (JSNumber y)) w"
  "createFieldFunction sample_host ''0'' x y w = Returned (Fin 0) w"
  by (simp_all add: createFieldFunction_Inr [OF sample_compile(5)]
      createFieldFunction_Inr [OF sample_compile(6)]
      createFieldFunction_Inr [OF sample_compile(7)] finite_or_zero_simps)

lemma electricDipole_loaded:
  "loadPhysicsPreset n electricDipole =
     [\<lparr>ps_id = n, ps_x = Fin (- 1), ps_y = Fin 0, strength = Fin 3, ps_type = Source\<rparr>,
      \<lparr>ps_id = Suc n, ps_x = Fin 1, ps_y = Fin 0, strength = Fin (- 3), ps_type = Sink\<rparr>]"
  by (simp add: loadPhysicsPreset_def electricDipole_def)

lemma electricDipole_finite: "\<forall>ps\<in>set (loadPhysicsPreset n electricDipole). finite_source ps"
  by (simp add: electricDipole_loaded finite_source_def)

theorem effective_field_formula_witness:
  "Fx (createFieldFunction sample_host ''x'') (loadPhysicsPreset 0 electricDipole) (Fin 2) (Fin 1) 0 =
     Returned (Fin (2 + (3 * 3 / (3\<^sup>2 + 1\<^sup>2 + 1 / 100) + (- 3) * 1 / (1\<^sup>2 + 1\<^sup>2 + 1 / 100)))) 0 \<and>
   Fy (createFieldFunction sample_host ''y'') (loadPhysicsPreset 0 electricDipole) (Fin 2) (Fin 1) 0 =
     Returned (Fin (1 + (3 * 1 / (3\<^sup>2 + 1\<^sup>2 + 1 / 100) + (- 3) * 1 / (1\<^sup>2 + 1\<^sup>2 + 1 / 100)))) 0 \<and>
   Fx (createFieldFunction sample_host ''x'') [] (Fin 2) (Fin 1) 0 = Returned (Fin 2) 0"
  using effective_field_formula [where pointSources = "loadPhysicsPreset 0 electricDipole"
      and h = sample_host and fx = "''x''" and fy = "''y''" and x = 2 and y = 1 and w = 0,
      OF electricDipole_finite]
  by (simp add: finite_or_zero_simps electricDipole_loaded spec_source_term_def)

lemma host_evaluates_zero:
  assumes "host_evaluates h [''x'', ''y'', ''Math''] ''0'' (\<lambda>args. JSNumber (Fin 0))"
  shows "createFieldFunction h ''0'' x y w = Returned (Fin 0) w"
proof -
  from assms obtain func where
    "newFunction h [''x'', ''y'', ''Math''] (function_body ''0'') = Inr func"
    "\<And>args w. func args w = Returned (JSNumber (Fin 0)) w"
    unfolding host_evaluates_def by blast
  then show ?thesis by (simp add: createFieldFunction_Inr finite_or_zero_simps)
qed

text \<open>Rounding to the nearest double: its value from the power of two below the argument,
  and that it commutes with doubling away from underflow.\<close>

lemma powr_powi: "(2::real) powr real_of_int n = 2 powi n"
  by (rule powr_real_of_int') simp_all

lemma binade_eq:
  assumes "2 powi e \<le> \<bar>x\<bar>" "\<bar>x\<bar> < 2 powi (e + 1)" "- 1022 \<le> e"
  shows "binade x = e"
proof -
  have "(0::real) < 2 powi e" by (rule zero_less_power_int) simp
  with assms(1) have pos: "0 < \<bar>x\<bar>" by linarith
  have one: "(1::real) < 2" by simp
  have "2 powr real_of_int e \<le> \<bar>x\<bar> \<and> \<bar>x\<bar> < 2 powr real_of_int (e + 1)"
    using assms(1,2) by (simp only: powr_powi)
  then have "\<lfloor>log 2 \<bar>x\<bar>\<rfloor> = e"
    by (simp only: floor_log_eq_powr_iff [OF pos one])
  with assms(3) show ?thesis by (simp add: binade_def)
qed

lemma binade_subnormal:
  assumes "x \<noteq> 0" "\<bar>x\<bar> < 2 powi (- 1022)"
  shows "binade x = - 1022"
proof -
  have pos: "0 < \<bar>x\<bar>" using assms(1) by simp
  have "\<bar>x\<bar> < 2 powr real_of_int (- 1022)"
    using assms(2) by (simp only: powr_powi)
  then have "log 2 \<bar>x\<bar> < real_of_int (- 1022)"
    using pos by (simp add: log_less_iff)
  then have "\<lfloor>log 2 \<bar>x\<bar>\<rfloor> < - 1022" by (simp add: floor_less_iff)
  then show ?thesis by (simp add: binade_def)
qed

lemma round_double_normal:
  assumes "2 powi e \<le> \<bar>x\<bar>" "\<bar>x\<bar> < 2 powi (e + 1)" "- 1022 \<le> e"
  shows "round_double x = of_int (round_half_even (x / 2 powi (e - 52))) * 2 powi (e - 52)"
proof -
  have "(0::real) < 2 powi e" by (rule zero_less_power_int) simp
  with assms(1) have "0 < \<bar>x\<bar>" by linarith
  then have "x \<noteq> 0" by auto
  then show ?thesis by (simp add: round_double_def spacing_def binade_eq [OF assms])
qed

lemma round_double_subnormal:
  assumes "x \<noteq> 0" "\<bar>x\<bar> < 2 powi (- 1022)"
  shows "round_double x = of_int (round_half_even (x / 2 powi (- 1074))) * 2 powi (- 1074)"
  using assms(1) by (simp add: round_double_def spacing_def binade_subnormal [OF assms])

lemma round_double_doubling:
  assumes "normal_or_zero x"
  shows "round_double (2 * x) = 2 * round_double x"
proof (cases "x = 0")
  case True
  then show ?thesis by (simp add: round_double_def)
next
  case False
  with assms have lo: "1 / 2 ^ 1022 \<le> \<bar>x\<bar>" by (simp add: normal_or_zero_def)
  have pos: "0 < \<bar>x\<bar>" using False by simp
  define f where "f = \<lfloor>log 2 \<bar>x\<bar>\<rfloor>"
  have "(2::real) powi (- 1022) = 1 / 2 ^ 1022" by (simp add: power_int_minus_divide)
  with lo have "2 powr real_of_int (- 1022) \<le> \<bar>x\<bar>"
    by (simp only: powr_powi)
  then have "real_of_int (- 1022) \<le> log 2 \<bar>x\<bar>"
    using pos by (simp add: le_log_iff)
  then have f: "- 1022 \<le> f" unfolding f_def by (simp add: le_floor_iff)
  have "log 2 \<bar>2 * x\<bar> = 1 + log 2 \<bar>x\<bar>"
    using pos by (simp add: abs_mult log_mult)
  then have "\<lfloor>log 2 \<bar>2 * x\<bar>\<rfloor> = f + 1" unfolding f_def by simp
  with f have b2: "binade (2 * x) = f + 1" and b1: "binade x = f"
    by (simp_all add: binade_def f_def)
  have sp: "spacing (2 * x) = 2 * spacing x"
    unfolding spacing_def b1 b2
    by (simp add: power_int_add power_int_diff)
  have nz: "spacing x \<noteq> 0" by (simp add: spacing_def)
  show ?thesis using False nz by (simp add: round_double_def sp)
qed

lemma round_double_doubling_exact: "doubling_exact round_double"
  by (simp add: doubling_exact_def round_double_doubling)

text \<open>Rounding to the nearest double is off by at most half a spacing, so it has the
  accuracy of \<open>standard_rounding\<close>.\<close>

lemma round_half_even_near: "\<bar>of_int (round_half_even t) - t\<bar> \<le> 1 / 2"
proof -
  have "of_int \<lfloor>t\<rfloor> \<le> t" "t < of_int \<lfloor>t\<rfloor> + 1" by linarith+
  then show ?thesis
    by (auto simp: round_half_even_def Let_def)
qed

lemma round_double_error: "\<bar>round_double x - x\<bar> \<le> spacing x / 2"
proof (cases "x = 0")
  case True
  then show ?thesis by (simp add: round_double_def spacing_def)
next
  case False
  have sp: "0 < spacing x" by (simp add: spacing_def zero_less_power_int)
  have "round_double x - x = spacing x * (of_int (round_half_even (x / spacing x)) - x / spacing x)"
    using False sp by (simp add: round_double_def field_simps)
  then have "\<bar>round_double x - x\<bar> = spacing x * \<bar>of_int (round_half_even (x / spacing x)) - x / spacing x\<bar>"
    using sp by (simp add: abs_mult)
  also have "\<dots> \<le> spacing x * (1 / 2)"
    using sp round_half_even_near [of "x / spacing x"] by (intro mult_left_mono) simp_all
  finally show ?thesis by simp
qed

lemma round_double_standard: "standard_rounding round_double"
  unfolding standard_rounding_def
proof (intro allI impI)
  fix x :: real
  assume "\<bar>x\<bar> \<le> 2 ^ 1023"
  show "\<bar>round_double x - x\<bar> \<le> max (\<bar>x\<bar> / 2 ^ 53) (1 / 2 ^ 1075)"
  proof (cases "x = 0")
    case True
    then show ?thesis by (simp add: round_double_def)
  next
    case False
    then have pos: "0 < \<bar>x\<bar>" by simp
    define f where "f = \<lfloor>log 2 \<bar>x\<bar>\<rfloor>"
    show ?thesis
    proof (cases "- 1022 \<le> f")
      case True
      then have b: "binade x = f" by (simp add: binade_def f_def)
      have one: "(1::real) < 2" by simp
      from floor_log_eq_powr_iff [OF pos one, of f]
      have "2 powr real_of_int f \<le> \<bar>x\<bar>" by (simp add: f_def)
      then have lo: "2 powi f \<le> \<bar>x\<bar>" by (simp only: powr_powi)
      have "spacing x / 2 = 2 powi f / 2 ^ 53"
        by (simp add: spacing_def b power_int_diff)
      also have "\<dots> \<le> \<bar>x\<bar> / 2 ^ 53" using lo by (simp add: divide_right_mono)
      finally have "spacing x / 2 \<le> \<bar>x\<bar> / 2 ^ 53" .
      with round_double_error [of x] show ?thesis by (simp add: le_max_iff_disj)
    next
      case False
      then have b: "binade x = - 1022" by (simp add: binade_def f_def)
      have "spacing x / 2 = 1 / 2 ^ 1075"
        by (simp add: spacing_def b power_int_minus_divide)
      with round_double_error [of x] show ?thesis by (simp add: le_max_iff_disj)
    qed
  qed
qed

lemma round_double_zero: "round_double 0 = 0"
  by (simp add: round_double_def)

lemma exact_doubling_exact: "doubling_exact (\<lambda>x. x)"
  by (simp add: doubling_exact_def)

text \<open>With a rounding that commutes with doubling, and no overflow or harmful underflow on
  the way, doubling the strengths doubles the rounded sum.\<close>

lemma fl_Fx_doubled:
  assumes "doubling_exact rnd" "fl_normal_x rnd b sources x y"
  shows "fl_Fx rnd (2 * b) (map (\<lambda>(sx, sy, s). (sx, sy, 2 * s)) sources) x y =
           2 * fl_Fx rnd b sources x y"
  using assms(2) unfolding fl_Fx_def
proof (induction sources arbitrary: b)
  case Nil
  show ?case by simp
next
  case (Cons src sources)
  obtain sx sy s where src: "src = (sx, sy, s)" by (metis prod_cases3)
  define p where "p = s * rnd (x - sx)"
  define q where "q = rnd p / fl_rSq rnd x y sx sy"
  define a where "a = b + rnd q"
  from Cons.prems have n: "normal_or_zero p" "normal_or_zero q" "normal_or_zero a"
    and rest: "fl_normal_x rnd (rnd a) sources x y"
    by (simp_all add: src Let_def p_def q_def a_def)
  have dbl: "\<And>v. normal_or_zero v \<Longrightarrow> rnd (2 * v) = 2 * rnd v"
    using assms(1) by (simp add: doubling_exact_def)
  have "rnd (2 * s * rnd (x - sx)) = 2 * rnd p"
    using dbl [OF n(1)] by (simp add: p_def mult.assoc)
  then have "rnd (rnd (2 * s * rnd (x - sx)) / fl_rSq rnd x y sx sy) = 2 * rnd q"
    using dbl [OF n(2)] by (simp add: q_def)
  then have step: "rnd (2 * b + rnd (rnd (2 * s * rnd (x - sx)) / fl_rSq rnd x y sx sy)) = 2 * rnd a"
    using dbl [OF n(3)] by (simp add: a_def distrib_left)
  show ?case
    using Cons.IH [OF rest] by (simp add: src step) (simp add: a_def q_def p_def)
qed

lemma fl_Fy_doubled:
  assumes "doubling_exact rnd" "fl_normal_y rnd b sources x y"
  shows "fl_Fy rnd (2 * b) (map (\<lambda>(sx, sy, s). (sx, sy, 2 * s)) sources) x y =
           2 * fl_Fy rnd b sources x y"
  using assms(2) unfolding fl_Fy_def
proof (induction sources arbitrary: b)
  case Nil
  show ?case by simp
next
  case (Cons src sources)
  obtain sx sy s where src: "src = (sx, sy, s)" by (metis prod_cases3)
  define p where "p = s * rnd (y - sy)"
  define q where "q = rnd p / fl_rSq rnd x y sx sy"
  define a where "a = b + rnd q"
  from Cons.prems have n: "normal_or_zero p" "normal_or_zero q" "normal_or_zero a"
    and rest: "fl_normal_y rnd (rnd a) sources x y"
    by (simp_all add: src Let_def p_def q_def a_def)
  have dbl: "\<And>v. normal_or_zero v \<Longrightarrow> rnd (2 * v) = 2 * rnd v"
    using assms(1) by (simp add: doubling_exact_def)
  have "rnd (2 * s * rnd (y - sy)) = 2 * rnd p"
    using dbl [OF n(1)] by (simp add: p_def mult.assoc)
  then have "rnd (rnd (2 * s * rnd (y - sy)) / fl_rSq rnd x y sx sy) = 2 * rnd q"
    using dbl [OF n(2)] by (simp add: q_def)
  then have step: "rnd (2 * b + rnd (rnd (2 * s * rnd (y - sy)) / fl_rSq rnd x y sx sy)) = 2 * rnd a"
    using dbl [OF n(3)] by (simp add: a_def distrib_left)
  show ?case
    using Cons.IH [OF rest] by (simp add: src step) (simp add: a_def q_def p_def)
qed

text \<open>Without rounding, the rounded computation is the one of the model.\<close>

lemma fl_Fx_exact:
  "fl_Fx (\<lambda>x. x) b (source_triples pointSources) x y =
     b + (\<Sum>ps\<leftarrow>pointSources. spec_source_term (fin_value (strength ps)) (x - fin_value (ps_x ps))
                  (x - fin_value (ps_x ps)) (y - fin_value (ps_y ps)))"
  unfolding fl_Fx_def source_triples_def
  by (induction pointSources arbitrary: b)
     (simp_all add: fl_rSq_def Let_def spec_source_term_def power2_eq_square add.assoc)

lemma fl_Fy_exact:
  "fl_Fy (\<lambda>x. x) b (source_triples pointSources) x y =
     b + (\<Sum>ps\<leftarrow>pointSources. spec_source_term (fin_value (strength ps)) (y - fin_value (ps_y ps))
                  (x - fin_value (ps_x ps)) (y - fin_value (ps_y ps)))"
  unfolding fl_Fy_def source_triples_def
  by (induction pointSources arbitrary: b)
     (simp_all add: fl_rSq_def Let_def spec_source_term_def power2_eq_square add.assoc)

text \<open>The dipole's sources as triples, and the doubled ones.\<close>

lemma fin_value_doubled: "isFinite v \<Longrightarrow> fin_value (Fin 2 * v) = 2 * fin_value v"
  by (cases v) simp_all

lemma source_triples_doubled:
  assumes "\<forall>ps\<in>set pointSources. finite_source ps"
  shows "source_triples (double_strengths pointSources) =
           map (\<lambda>(sx, sy, s). (sx, sy, 2 * s)) (source_triples pointSources)"
  using assms
  by (induction pointSources)
     (simp_all add: source_triples_def double_strengths_def finite_source_def fin_value_doubled)

lemma dipole_triples:
  "source_triples (loadPhysicsPreset n electricDipole) = [(- 1, 0, 3), (1, 0, - 3)]"
  "source_triples (double_strengths (loadPhysicsPreset n electricDipole)) =
     [(- 1, 0, 6), (1, 0, - 6)]"
  by (simp_all add: source_triples_doubled [OF electricDipole_finite])
     (simp_all add: source_triples_def electricDipole_loaded)

text \<open>The roundings in the evaluation of the dipole's field at the origin, for the preset and
  for the doubled strengths.\<close>

lemma origin_steps:
  "round_double (1) = 1"
  "round_double (3) = 3"
  "round_double (1 / 100) = 5764607523034235 / 576460752303423488"
  "round_double (582225359826457723 / 576460752303423488) = 4548635623644201 / 4503599627370496"
  "round_double (4503599627370496 / 1516211874548067) = 3344257149037497 / 1125899906842624"
  "round_double (3344257149037497 / 1125899906842624) = 3344257149037497 / 1125899906842624"
  "round_double (- 1) = - 1"
  "round_double (3344257149037497 / 562949953421312) = 3344257149037497 / 562949953421312"
  "round_double (6) = 6"
  "round_double (9007199254740992 / 1516211874548067) = 3344257149037497 / 562949953421312"
  "round_double (3344257149037497 / 281474976710656) = 3344257149037497 / 281474976710656"
proof -
  show "round_double (1) = 1"
    by (subst round_double_normal [where e = "0"]) (simp_all add: round_half_even_def Let_def)
  show "round_double (3) = 3"
    by (subst round_double_normal [where e = "1"]) (simp_all add: round_half_even_def Let_def)
  show "round_double (1 / 100) = 5764607523034235 / 576460752303423488"
    by (subst round_double_normal [where e = "- 7"]) (simp_all add: round_half_even_def Let_def)
  show "round_double (582225359826457723 / 576460752303423488) = 4548635623644201 / 4503599627370496"
    by (subst round_double_normal [where e = "0"]) (simp_all add: round_half_even_def Let_def)
  show "round_double (4503599627370496 / 1516211874548067) = 3344257149037497 / 1125899906842624"
    by (subst round_double_normal [where e = "1"]) (simp_all add: round_half_even_def Let_def)
  show "round_double (3344257149037497 / 1125899906842624) = 3344257149037497 / 1125899906842624"
    by (subst round_double_normal [where e = "1"]) (simp_all add: round_half_even_def Let_def)
  show "round_double (- 1) = - 1"
    by (subst round_double_normal [where e = "0"]) (simp_all add: round_half_even_def Let_def)
  show "round_double (3344257149037497 / 562949953421312) = 3344257149037497 / 562949953421312"
    by (subst round_double_normal [where e = "2"]) (simp_all add: round_half_even_def Let_def)
  show "round_double (6) = 6"
    by (subst round_double_normal [where e = "2"]) (simp_all add: round_half_even_def Let_def)
  show "round_double (9007199254740992 / 1516211874548067) = 3344257149037497 / 562949953421312"
    by (subst round_double_normal [where e = "2"]) (simp_all add: round_half_even_def Let_def)
  show "round_double (3344257149037497 / 281474976710656) = 3344257149037497 / 281474976710656"
    by (subst round_double_normal [where e = "3"]) (simp_all add: round_half_even_def Let_def)
qed

text \<open>
  The roundings in the evaluation at \<open>(0.5, 100 \<times> 2\<^sup>-\<^sup>1\<^sup>0\<^sup>7\<^sup>4)\<close>, with the numerals written out. In
  units of \<open>2\<^sup>-\<^sup>1\<^sup>0\<^sup>7\<^sup>4\<close>: \<open>dy = 100\<close>; the square of \<open>dy\<close> rounds to \<open>0\<close>, so \<open>rSq\<close> is the double of \<open>2.26\<close>
  for the source and of \<open>0.26\<close> for the sink; the products are \<open>300\<close> and \<open>-300\<close>, the quotients
  \<open>132.7\<close> and \<open>-1153.8\<close> round to \<open>133\<close> and \<open>-1154\<close>, and the sum is \<open>-1021\<close>. With the strengths
  doubled the products are \<open>600\<close> and \<open>-600\<close>, the quotients \<open>265.49\<close> and \<open>-2307.7\<close> round to \<open>265\<close> and
  \<open>-2308\<close>, and the sum is \<open>-2043\<close>.
\<close>

lemma underflow_steps:
  "round_double (25 / 50600563326827654588123836679729326762389162441035529589225339506857584891998836722990095925359281123796769466079202977847452184346448369216753349985184627480379356069141590341116726935523304085309941919618186267140501870856173174654525838912289889085202514128089692388083353653807625633046581877161501565826926935273373696) = 25 / 50600563326827654588123836679729326762389162441035529589225339506857584891998836722990095925359281123796769466079202977847452184346448369216753349985184627480379356069141590341116726935523304085309941919618186267140501870856173174654525838912289889085202514128089692388083353653807625633046581877161501565826926935273373696"
  "round_double (75 / 50600563326827654588123836679729326762389162441035529589225339506857584891998836722990095925359281123796769466079202977847452184346448369216753349985184627480379356069141590341116726935523304085309941919618186267140501870856173174654525838912289889085202514128089692388083353653807625633046581877161501565826926935273373696) = 75 / 50600563326827654588123836679729326762389162441035529589225339506857584891998836722990095925359281123796769466079202977847452184346448369216753349985184627480379356069141590341116726935523304085309941919618186267140501870856173174654525838912289889085202514128089692388083353653807625633046581877161501565826926935273373696"
  "round_double (3 / 2) = 3 / 2"
  "round_double (9 / 4) = 9 / 4"
  "round_double (625 / 2560417008992295759073514303002693196495535401616769648112539898563173690820280857141310009316893264342312511747627169207133209017438374418784817763504231443756899851682245628126104338548822390609014760772812693860225017099650128991545145325095759037757220113653791413995946477966822817782179967238492529197748886400632112844352708635302239949127552814408080882356076143402453457826141550948752503393495056267532989706441483054705361078028919031980996551514409646740539156683913246145955749953609728882105736765378367524920207616582488092432380101964493097347046844239637272393265228802327888656637277893430859822630049748282850160536697664700416) = 0"
  "round_double (1 / 100) = 5764607523034235 / 576460752303423488"
  "round_double (1302801300205737083 / 576460752303423488) = 1272266894732165 / 562949953421312"
  "round_double (15 / 22871454623726097716600212344458566421433672476518379032757478726331741090022500305999413692250837475454411929777367492545681828867874370980495288420303981706962301269562506300970039476470710130933458532714290759310511420606921048886037491078800452179554209895969694999207547636485467906770103746720403049729495019252875264) = 133 / 202402253307310618352495346718917307049556649764142118356901358027430339567995346891960383701437124495187077864316811911389808737385793476867013399940738509921517424276566361364466907742093216341239767678472745068562007483424692698618103355649159556340810056512358769552333414615230502532186327508646006263307707741093494784"
  "round_double (133 / 202402253307310618352495346718917307049556649764142118356901358027430339567995346891960383701437124495187077864316811911389808737385793476867013399940738509921517424276566361364466907742093216341239767678472745068562007483424692698618103355649159556340810056512358769552333414615230502532186327508646006263307707741093494784) = 133 / 202402253307310618352495346718917307049556649764142118356901358027430339567995346891960383701437124495187077864316811911389808737385793476867013399940738509921517424276566361364466907742093216341239767678472745068562007483424692698618103355649159556340810056512358769552333414615230502532186327508646006263307707741093494784"
  "round_double (- (75 / 50600563326827654588123836679729326762389162441035529589225339506857584891998836722990095925359281123796769466079202977847452184346448369216753349985184627480379356069141590341116726935523304085309941919618186267140501870856173174654525838912289889085202514128089692388083353653807625633046581877161501565826926935273373696)) = - (75 / 50600563326827654588123836679729326762389162441035529589225339506857584891998836722990095925359281123796769466079202977847452184346448369216753349985184627480379356069141590341116726935523304085309941919618186267140501870856173174654525838912289889085202514128089692388083353653807625633046581877161501565826926935273373696)"
  "round_double (- (1 / 2)) = - (1 / 2)"
  "round_double (1 / 4) = 1 / 4"
  "round_double (149879795598890107 / 576460752303423488) = 1170935903116329 / 4503599627370496"
  "round_double (- (25 / 4385382154991730214111827084102867296849159977308473699230944335786538418498300147436371484781940307986117789066477609013540755869519990047776764344063186459005736392220708144370027521799924084312044634071987909363079288878373149168517807991117524948978476675123804309759316220485242754820075378087093723067797275743879168)) = - (577 / 101201126653655309176247673359458653524778324882071059178450679013715169783997673445980191850718562247593538932158405955694904368692896738433506699970369254960758712138283180682233453871046608170619883839236372534281003741712346349309051677824579778170405028256179384776166707307615251266093163754323003131653853870546747392)"
  "round_double (- (1021 / 202402253307310618352495346718917307049556649764142118356901358027430339567995346891960383701437124495187077864316811911389808737385793476867013399940738509921517424276566361364466907742093216341239767678472745068562007483424692698618103355649159556340810056512358769552333414615230502532186327508646006263307707741093494784)) = - (1021 / 202402253307310618352495346718917307049556649764142118356901358027430339567995346891960383701437124495187077864316811911389808737385793476867013399940738509921517424276566361364466907742093216341239767678472745068562007483424692698618103355649159556340810056512358769552333414615230502532186327508646006263307707741093494784)"
  "round_double (75 / 25300281663413827294061918339864663381194581220517764794612669753428792445999418361495047962679640561898384733039601488923726092173224184608376674992592313740189678034570795170558363467761652042654970959809093133570250935428086587327262919456144944542601257064044846194041676826903812816523290938580750782913463467636686848) = 75 / 25300281663413827294061918339864663381194581220517764794612669753428792445999418361495047962679640561898384733039601488923726092173224184608376674992592313740189678034570795170558363467761652042654970959809093133570250935428086587327262919456144944542601257064044846194041676826903812816523290938580750782913463467636686848"
  "round_double (15 / 11435727311863048858300106172229283210716836238259189516378739363165870545011250152999706846125418737727205964888683746272840914433937185490247644210151990853481150634781253150485019738235355065466729266357145379655255710303460524443018745539400226089777104947984847499603773818242733953385051873360201524864747509626437632) = 265 / 202402253307310618352495346718917307049556649764142118356901358027430339567995346891960383701437124495187077864316811911389808737385793476867013399940738509921517424276566361364466907742093216341239767678472745068562007483424692698618103355649159556340810056512358769552333414615230502532186327508646006263307707741093494784"
  "round_double (265 / 202402253307310618352495346718917307049556649764142118356901358027430339567995346891960383701437124495187077864316811911389808737385793476867013399940738509921517424276566361364466907742093216341239767678472745068562007483424692698618103355649159556340810056512358769552333414615230502532186327508646006263307707741093494784) = 265 / 202402253307310618352495346718917307049556649764142118356901358027430339567995346891960383701437124495187077864316811911389808737385793476867013399940738509921517424276566361364466907742093216341239767678472745068562007483424692698618103355649159556340810056512358769552333414615230502532186327508646006263307707741093494784"
  "round_double (- (75 / 25300281663413827294061918339864663381194581220517764794612669753428792445999418361495047962679640561898384733039601488923726092173224184608376674992592313740189678034570795170558363467761652042654970959809093133570250935428086587327262919456144944542601257064044846194041676826903812816523290938580750782913463467636686848)) = - (75 / 25300281663413827294061918339864663381194581220517764794612669753428792445999418361495047962679640561898384733039601488923726092173224184608376674992592313740189678034570795170558363467761652042654970959809093133570250935428086587327262919456144944542601257064044846194041676826903812816523290938580750782913463467636686848)"
  "round_double (- (25 / 2192691077495865107055913542051433648424579988654236849615472167893269209249150073718185742390970153993058894533238804506770377934759995023888382172031593229502868196110354072185013760899962042156022317035993954681539644439186574584258903995558762474489238337561902154879658110242621377410037689043546861533898637871939584)) = - (577 / 50600563326827654588123836679729326762389162441035529589225339506857584891998836722990095925359281123796769466079202977847452184346448369216753349985184627480379356069141590341116726935523304085309941919618186267140501870856173174654525838912289889085202514128089692388083353653807625633046581877161501565826926935273373696)"
  "round_double (- (2043 / 202402253307310618352495346718917307049556649764142118356901358027430339567995346891960383701437124495187077864316811911389808737385793476867013399940738509921517424276566361364466907742093216341239767678472745068562007483424692698618103355649159556340810056512358769552333414615230502532186327508646006263307707741093494784)) = - (2043 / 202402253307310618352495346718917307049556649764142118356901358027430339567995346891960383701437124495187077864316811911389808737385793476867013399940738509921517424276566361364466907742093216341239767678472745068562007483424692698618103355649159556340810056512358769552333414615230502532186327508646006263307707741093494784)"
proof -
  show "round_double (25 / 50600563326827654588123836679729326762389162441035529589225339506857584891998836722990095925359281123796769466079202977847452184346448369216753349985184627480379356069141590341116726935523304085309941919618186267140501870856173174654525838912289889085202514128089692388083353653807625633046581877161501565826926935273373696) = 25 / 50600563326827654588123836679729326762389162441035529589225339506857584891998836722990095925359281123796769466079202977847452184346448369216753349985184627480379356069141590341116726935523304085309941919618186267140501870856173174654525838912289889085202514128089692388083353653807625633046581877161501565826926935273373696"
    by (subst round_double_subnormal) (simp_all add: round_half_even_def Let_def)
  show "round_double (75 / 50600563326827654588123836679729326762389162441035529589225339506857584891998836722990095925359281123796769466079202977847452184346448369216753349985184627480379356069141590341116726935523304085309941919618186267140501870856173174654525838912289889085202514128089692388083353653807625633046581877161501565826926935273373696) = 75 / 50600563326827654588123836679729326762389162441035529589225339506857584891998836722990095925359281123796769466079202977847452184346448369216753349985184627480379356069141590341116726935523304085309941919618186267140501870856173174654525838912289889085202514128089692388083353653807625633046581877161501565826926935273373696"
    by (subst round_double_subnormal) (simp_all add: round_half_even_def Let_def)
  show "round_double (3 / 2) = 3 / 2"
    by (subst round_double_normal [where e = "0"]) (simp_all add: round_half_even_def Let_def)
  show "round_double (9 / 4) = 9 / 4"
    by (subst round_double_normal [where e = "1"]) (simp_all add: round_half_even_def Let_def)
  show "round_double (625 / 2560417008992295759073514303002693196495535401616769648112539898563173690820280857141310009316893264342312511747627169207133209017438374418784817763504231443756899851682245628126104338548822390609014760772812693860225017099650128991545145325095759037757220113653791413995946477966822817782179967238492529197748886400632112844352708635302239949127552814408080882356076143402453457826141550948752503393495056267532989706441483054705361078028919031980996551514409646740539156683913246145955749953609728882105736765378367524920207616582488092432380101964493097347046844239637272393265228802327888656637277893430859822630049748282850160536697664700416) = 0"
    by (subst round_double_subnormal) (simp_all add: round_half_even_def Let_def)
  show "round_double (1 / 100) = 5764607523034235 / 576460752303423488"
    by (subst round_double_normal [where e = "- 7"]) (simp_all add: round_half_even_def Let_def)
  show "round_double (1302801300205737083 / 576460752303423488) = 1272266894732165 / 562949953421312"
    by (subst round_double_normal [where e = "1"]) (simp_all add: round_half_even_def Let_def)
  show "round_double (15 / 22871454623726097716600212344458566421433672476518379032757478726331741090022500305999413692250837475454411929777367492545681828867874370980495288420303981706962301269562506300970039476470710130933458532714290759310511420606921048886037491078800452179554209895969694999207547636485467906770103746720403049729495019252875264) = 133 / 202402253307310618352495346718917307049556649764142118356901358027430339567995346891960383701437124495187077864316811911389808737385793476867013399940738509921517424276566361364466907742093216341239767678472745068562007483424692698618103355649159556340810056512358769552333414615230502532186327508646006263307707741093494784"
    by (subst round_double_subnormal) (simp_all add: round_half_even_def Let_def)
  show "round_double (133 / 202402253307310618352495346718917307049556649764142118356901358027430339567995346891960383701437124495187077864316811911389808737385793476867013399940738509921517424276566361364466907742093216341239767678472745068562007483424692698618103355649159556340810056512358769552333414615230502532186327508646006263307707741093494784) = 133 / 202402253307310618352495346718917307049556649764142118356901358027430339567995346891960383701437124495187077864316811911389808737385793476867013399940738509921517424276566361364466907742093216341239767678472745068562007483424692698618103355649159556340810056512358769552333414615230502532186327508646006263307707741093494784"
    by (subst round_double_subnormal) (simp_all add: round_half_even_def Let_def)
  show "round_double (- (75 / 50600563326827654588123836679729326762389162441035529589225339506857584891998836722990095925359281123796769466079202977847452184346448369216753349985184627480379356069141590341116726935523304085309941919618186267140501870856173174654525838912289889085202514128089692388083353653807625633046581877161501565826926935273373696)) = - (75 / 50600563326827654588123836679729326762389162441035529589225339506857584891998836722990095925359281123796769466079202977847452184346448369216753349985184627480379356069141590341116726935523304085309941919618186267140501870856173174654525838912289889085202514128089692388083353653807625633046581877161501565826926935273373696)"
    by (subst round_double_subnormal) (simp_all add: round_half_even_def Let_def)
  show "round_double (- (1 / 2)) = - (1 / 2)"
    by (subst round_double_normal [where e = "- 1"]) (simp_all add: round_half_even_def Let_def)
  show "round_double (1 / 4) = 1 / 4"
    by (subst round_double_normal [where e = "- 2"]) (simp_all add: round_half_even_def Let_def)
  show "round_double (149879795598890107 / 576460752303423488) = 1170935903116329 / 4503599627370496"
    by (subst round_double_normal [where e = "- 2"]) (simp_all add: round_half_even_def Let_def)
  show "round_double (- (25 / 4385382154991730214111827084102867296849159977308473699230944335786538418498300147436371484781940307986117789066477609013540755869519990047776764344063186459005736392220708144370027521799924084312044634071987909363079288878373149168517807991117524948978476675123804309759316220485242754820075378087093723067797275743879168)) = - (577 / 101201126653655309176247673359458653524778324882071059178450679013715169783997673445980191850718562247593538932158405955694904368692896738433506699970369254960758712138283180682233453871046608170619883839236372534281003741712346349309051677824579778170405028256179384776166707307615251266093163754323003131653853870546747392)"
    by (subst round_double_subnormal) (simp_all add: round_half_even_def Let_def)
  show "round_double (- (1021 / 202402253307310618352495346718917307049556649764142118356901358027430339567995346891960383701437124495187077864316811911389808737385793476867013399940738509921517424276566361364466907742093216341239767678472745068562007483424692698618103355649159556340810056512358769552333414615230502532186327508646006263307707741093494784)) = - (1021 / 202402253307310618352495346718917307049556649764142118356901358027430339567995346891960383701437124495187077864316811911389808737385793476867013399940738509921517424276566361364466907742093216341239767678472745068562007483424692698618103355649159556340810056512358769552333414615230502532186327508646006263307707741093494784)"
    by (subst round_double_subnormal) (simp_all add: round_half_even_def Let_def)
  show "round_double (75 / 25300281663413827294061918339864663381194581220517764794612669753428792445999418361495047962679640561898384733039601488923726092173224184608376674992592313740189678034570795170558363467761652042654970959809093133570250935428086587327262919456144944542601257064044846194041676826903812816523290938580750782913463467636686848) = 75 / 25300281663413827294061918339864663381194581220517764794612669753428792445999418361495047962679640561898384733039601488923726092173224184608376674992592313740189678034570795170558363467761652042654970959809093133570250935428086587327262919456144944542601257064044846194041676826903812816523290938580750782913463467636686848"
    by (subst round_double_subnormal) (simp_all add: round_half_even_def Let_def)
  show "round_double (15 / 11435727311863048858300106172229283210716836238259189516378739363165870545011250152999706846125418737727205964888683746272840914433937185490247644210151990853481150634781253150485019738235355065466729266357145379655255710303460524443018745539400226089777104947984847499603773818242733953385051873360201524864747509626437632) = 265 / 202402253307310618352495346718917307049556649764142118356901358027430339567995346891960383701437124495187077864316811911389808737385793476867013399940738509921517424276566361364466907742093216341239767678472745068562007483424692698618103355649159556340810056512358769552333414615230502532186327508646006263307707741093494784"
    by (subst round_double_subnormal) (simp_all add: round_half_even_def Let_def)
  show "round_double (265 / 202402253307310618352495346718917307049556649764142118356901358027430339567995346891960383701437124495187077864316811911389808737385793476867013399940738509921517424276566361364466907742093216341239767678472745068562007483424692698618103355649159556340810056512358769552333414615230502532186327508646006263307707741093494784) = 265 / 202402253307310618352495346718917307049556649764142118356901358027430339567995346891960383701437124495187077864316811911389808737385793476867013399940738509921517424276566361364466907742093216341239767678472745068562007483424692698618103355649159556340810056512358769552333414615230502532186327508646006263307707741093494784"
    by (subst round_double_subnormal) (simp_all add: round_half_even_def Let_def)
  show "round_double (- (75 / 25300281663413827294061918339864663381194581220517764794612669753428792445999418361495047962679640561898384733039601488923726092173224184608376674992592313740189678034570795170558363467761652042654970959809093133570250935428086587327262919456144944542601257064044846194041676826903812816523290938580750782913463467636686848)) = - (75 / 25300281663413827294061918339864663381194581220517764794612669753428792445999418361495047962679640561898384733039601488923726092173224184608376674992592313740189678034570795170558363467761652042654970959809093133570250935428086587327262919456144944542601257064044846194041676826903812816523290938580750782913463467636686848)"
    by (subst round_double_subnormal) (simp_all add: round_half_even_def Let_def)
  show "round_double (- (25 / 2192691077495865107055913542051433648424579988654236849615472167893269209249150073718185742390970153993058894533238804506770377934759995023888382172031593229502868196110354072185013760899962042156022317035993954681539644439186574584258903995558762474489238337561902154879658110242621377410037689043546861533898637871939584)) = - (577 / 50600563326827654588123836679729326762389162441035529589225339506857584891998836722990095925359281123796769466079202977847452184346448369216753349985184627480379356069141590341116726935523304085309941919618186267140501870856173174654525838912289889085202514128089692388083353653807625633046581877161501565826926935273373696)"
    by (subst round_double_subnormal) (simp_all add: round_half_even_def Let_def)
  show "round_double (- (2043 / 202402253307310618352495346718917307049556649764142118356901358027430339567995346891960383701437124495187077864316811911389808737385793476867013399940738509921517424276566361364466907742093216341239767678472745068562007483424692698618103355649159556340810056512358769552333414615230502532186327508646006263307707741093494784)) = - (2043 / 202402253307310618352495346718917307049556649764142118356901358027430339567995346891960383701437124495187077864316811911389808737385793476867013399940738509921517424276566361364466907742093216341239767678472745068562007483424692698618103355649159556340810056512358769552333414615230502532186327508646006263307707741093494784)"
    by (subst round_double_subnormal) (simp_all add: round_half_even_def Let_def)
qed

lemma dipole_origin_double:
  "fl_Fx round_double 0 [(- 1, 0, 3), (1, 0, - 3)] 0 0 = 3344257149037497 / 562949953421312"
  "fl_Fy round_double 0 [(- 1, 0, 3), (1, 0, - 3)] 0 0 = 0"
  "fl_Fx round_double 0 [(- 1, 0, 6), (1, 0, - 6)] 0 0 = 3344257149037497 / 281474976710656"
  "fl_Fy round_double 0 [(- 1, 0, 6), (1, 0, - 6)] 0 0 = 0"
  by (simp_all add: fl_Fx_def fl_Fy_def fl_rSq_def Let_def round_double_zero origin_steps)

lemma dipole_origin_normal:
  "fl_normal_x round_double 0 [(- 1, 0, 3), (1, 0, - 3)] 0 0"
  "fl_normal_y round_double 0 [(- 1, 0, 3), (1, 0, - 3)] 0 0"
  by (simp_all add: fl_rSq_def fl_rSq_in_range_def in_range_def Let_def round_double_zero
      origin_steps normal_or_zero_def)

lemma dipole_underflow_double:
  "fl_Fy round_double 0 [(- 1, 0, 3), (1, 0, - 3)] (1 / 2) (100 / 2 ^ 1074) = - (1021 / 2 ^ 1074)"
  "fl_Fy round_double 0 [(- 1, 0, 6), (1, 0, - 6)] (1 / 2) (100 / 2 ^ 1074) = - (2043 / 2 ^ 1074)"
  by (simp_all add: fl_Fy_def fl_rSq_def Let_def round_double_zero underflow_steps)

lemma dipole_underflow_subnormal:
  "\<not> fl_normal_y round_double 0 [(- 1, 0, 3), (1, 0, - 3)] (1 / 2) (100 / 2 ^ 1074)"
  by (simp add: fl_rSq_def fl_rSq_in_range_def in_range_def Let_def round_double_zero
      underflow_steps normal_or_zero_def)

text \<open>
  Claim C6, as the code has it. For the Electric Dipole preset, with a host that evaluates
  the text \<open>0\<close> to zero, the field at the origin is finite and not zero: \<open>(600/101, 0)\<close> in the
  exact arithmetic of the model, and \<open>(3344257149037497 / 2\<^sup>4\<^sup>9, 0)\<close> in doubles. The value of
  the model at every finite point is that of the computation with rounding, taken without
  rounding. With a rounding that commutes with doubling on the normal range, as rounding to
  the nearest double does, doubling both strengths doubles a component exactly at every
  point where its evaluation does not overflow and no product \<open>strength * dx\<close>, quotient by
  \<open>rSq\<close> or partial sum is subnormal; the origin is such a point.
\<close>

theorem electric_dipole_superposition:
  assumes "host_evaluates h [''x'', ''y'', ''Math''] ''0'' (\<lambda>args. JSNumber (Fin 0))"
  shows "Fx (createFieldFunction h (preset_fx electricDipole)) (loadPhysicsPreset n electricDipole)
           (Fin 0) (Fin 0) w = Returned (Fin (600 / 101)) w \<and>
         Fy (createFieldFunction h (preset_fy electricDipole)) (loadPhysicsPreset n electricDipole)
           (Fin 0) (Fin 0) w = Returned (Fin 0) w \<and>
         Fin (600 / 101) \<noteq> Fin 0 \<and>
         (\<forall>x y. \<exists>vx vy.
            Fx (createFieldFunction h (preset_fx electricDipole)) (loadPhysicsPreset n electricDipole)
              (Fin x) (Fin y) w = Returned (Fin vx) w \<and>
            Fy (createFieldFunction h (preset_fy electricDipole)) (loadPhysicsPreset n electricDipole)
              (Fin x) (Fin y) w = Returned (Fin vy) w \<and>
            vx = fl_Fx (\<lambda>x. x) 0 (source_triples (loadPhysicsPreset n electricDipole)) x y \<and>
            vy = fl_Fy (\<lambda>x. x) 0 (source_triples (loadPhysicsPreset n electricDipole)) x y) \<and>
         fl_Fx round_double 0 (source_triples (loadPhysicsPreset n electricDipole)) 0 0 =
           3344257149037497 / 562949953421312 \<and>
         fl_Fy round_double 0 (source_triples (loadPhysicsPreset n electricDipole)) 0 0 = 0 \<and>
         (3344257149037497 / 562949953421312 :: real) \<noteq> 0 \<and>
         (\<forall>rnd x y.
            doubling_exact rnd \<and>
            fl_normal_x rnd 0 (source_triples (loadPhysicsPreset n electricDipole)) x y \<longrightarrow>
            fl_Fx rnd 0 (source_triples (double_strengths (loadPhysicsPreset n electricDipole))) x y =
              2 * fl_Fx rnd 0 (source_triples (loadPhysicsPreset n electricDipole)) x y) \<and>
         (\<forall>rnd x y.
            doubling_exact rnd \<and>
            fl_normal_y rnd 0 (source_triples (loadPhysicsPreset n electricDipole)) x y \<longrightarrow>
            fl_Fy rnd 0 (source_triples (double_strengths (loadPhysicsPreset n electricDipole))) x y =
              2 * fl_Fy rnd 0 (source_triples (loadPhysicsPreset n electricDipole)) x y) \<and>
         doubling_exact round_double \<and>
         fl_normal_x round_double 0 (source_triples (loadPhysicsPreset n electricDipole)) 0 0 \<and>
         fl_normal_y round_double 0 (source_triples (loadPhysicsPreset n electricDipole)) 0 0"
proof -
  let ?P = "loadPhysicsPreset n electricDipole"
  have fx: "preset_fx electricDipole = ''0''" and fy: "preset_fy electricDipole = ''0''"
    by (simp_all add: electricDipole_def)
  have base: "\<And>x y w. createFieldFunction h ''0'' x y w = Returned (Fin 0) w"
    by (rule host_evaluates_zero [OF assms])
  have origin_x: "Fx (createFieldFunction h ''0'') ?P (Fin 0) (Fin 0) w = Returned (Fin (600 / 101)) w"
    using Fx_finite [where pointSources = ?P
        and baseFx = "createFieldFunction h ''0''" and x = 0 and y = 0 and w = w and b = 0 and w' = w,
        OF electricDipole_finite base]
    by (simp add: electricDipole_loaded spec_source_term_def)
  have origin_y: "Fy (createFieldFunction h ''0'') ?P (Fin 0) (Fin 0) w = Returned (Fin 0) w"
    using Fy_finite [where pointSources = ?P
        and baseFy = "createFieldFunction h ''0''" and x = 0 and y = 0 and w = w and b = 0 and w' = w,
        OF electricDipole_finite base]
    by (simp add: electricDipole_loaded spec_source_term_def)
  have model: "\<exists>vx vy.
            Fx (createFieldFunction h ''0'') ?P (Fin x) (Fin y) w = Returned (Fin vx) w \<and>
            Fy (createFieldFunction h ''0'') ?P (Fin x) (Fin y) w = Returned (Fin vy) w \<and>
            vx = fl_Fx (\<lambda>x. x) 0 (source_triples ?P) x y \<and>
            vy = fl_Fy (\<lambda>x. x) 0 (source_triples ?P) x y" for x y
  proof -
    have vx: "Fx (createFieldFunction h ''0'') ?P (Fin x) (Fin y) w =
                Returned (Fin (fl_Fx (\<lambda>x. x) 0 (source_triples ?P) x y)) w"
      using Fx_finite [where pointSources = ?P
        and baseFx = "createFieldFunction h ''0''" and x = x and y = y and w = w and b = 0 and w' = w,
        OF electricDipole_finite base]
      by (simp only: fl_Fx_exact)
    have vy: "Fy (createFieldFunction h ''0'') ?P (Fin x) (Fin y) w =
                Returned (Fin (fl_Fy (\<lambda>x. x) 0 (source_triples ?P) x y)) w"
      using Fy_finite [where pointSources = ?P
        and baseFy = "createFieldFunction h ''0''" and x = x and y = y and w = w and b = 0 and w' = w,
        OF electricDipole_finite base]
      by (simp only: fl_Fy_exact)
    from vx vy show ?thesis by blast
  qed
  have rounded_x: "fl_Fx rnd 0 (source_triples (double_strengths ?P)) x y =
              2 * fl_Fx rnd 0 (source_triples ?P) x y"
    if "doubling_exact rnd \<and> fl_normal_x rnd 0 (source_triples ?P) x y" for rnd x y
    using fl_Fx_doubled [of rnd 0 "source_triples ?P" x y] that
    by (simp add: source_triples_doubled [OF electricDipole_finite])
  have rounded_y: "fl_Fy rnd 0 (source_triples (double_strengths ?P)) x y =
              2 * fl_Fy rnd 0 (source_triples ?P) x y"
    if "doubling_exact rnd \<and> fl_normal_y rnd 0 (source_triples ?P) x y" for rnd x y
    using fl_Fy_doubled [of rnd 0 "source_triples ?P" x y] that
    by (simp add: source_triples_doubled [OF electricDipole_finite])
  have doubles: "fl_Fx round_double 0 (source_triples ?P) 0 0 = 3344257149037497 / 562949953421312"
    "fl_Fy round_double 0 (source_triples ?P) 0 0 = 0"
    "fl_normal_x round_double 0 (source_triples ?P) 0 0"
    "fl_normal_y round_double 0 (source_triples ?P) 0 0"
    by (simp_all only: dipole_triples dipole_origin_double dipole_origin_normal)
  show ?thesis
    unfolding fx fy
    using origin_x origin_y model rounded_x rounded_y doubles round_double_doubling_exact
    by simp
qed

lemma sample_host_evaluates_zero:
  "host_evaluates sample_host [''x'', ''y'', ''Math''] ''0'' (\<lambda>args. JSNumber (Fin 0))"
  unfolding host_evaluates_def by (rule exI [of _ "\<lambda>args. js_return (JSNumber (Fin 0))"]) simp

theorem electric_dipole_superposition_witness:
  "Fx (createFieldFunction sample_host ''0'') (loadPhysicsPreset 0 electricDipole) (Fin 0) (Fin 0) 0 =
     Returned (Fin (600 / 101)) 0 \<and>
   Fy (createFieldFunction sample_host ''0'') (loadPhysicsPreset 0 electricDipole) (Fin 0) (Fin 0) 0 =
     Returned (Fin 0) 0 \<and>
   doubling_exact round_double \<and>
   fl_normal_x round_double 0 (source_triples (loadPhysicsPreset 0 electricDipole)) 0 0 \<and>
   fl_Fx round_double 0 (source_triples (loadPhysicsPreset 0 electricDipole)) 0 0 =
     3344257149037497 / 562949953421312 \<and>
   fl_Fx round_double 0 (source_triples (double_strengths (loadPhysicsPreset 0 electricDipole))) 0 0 =
     2 * (3344257149037497 / 562949953421312) \<and>
   fl_normal_y round_double 0 (source_triples (loadPhysicsPreset 0 electricDipole)) 0 0 \<and>
   fl_Fy round_double 0 (source_triples (double_strengths (loadPhysicsPreset 0 electricDipole))) 0 0 =
     2 * 0"
proof -
  let ?P = "loadPhysicsPreset 0 electricDipole"
  have fx: "preset_fx electricDipole = ''0''" and fy: "preset_fy electricDipole = ''0''"
    by (simp_all add: electricDipole_def)
  note inst = electric_dipole_superposition [OF sample_host_evaluates_zero, where n = 0 and w = 0,
      unfolded fx fy]
  from inst have ox: "Fx (createFieldFunction sample_host ''0'') ?P (Fin 0) (Fin 0) 0 =
      Returned (Fin (600 / 101)) 0"
    and oy: "Fy (createFieldFunction sample_host ''0'') ?P (Fin 0) (Fin 0) 0 = Returned (Fin 0) 0"
    and e: "doubling_exact round_double"
    and nx: "fl_normal_x round_double 0 (source_triples ?P) 0 0"
    and ny: "fl_normal_y round_double 0 (source_triples ?P) 0 0"
    and vx: "fl_Fx round_double 0 (source_triples ?P) 0 0 = 3344257149037497 / 562949953421312"
    and vy: "fl_Fy round_double 0 (source_triples ?P) 0 0 = 0"
    by blast+
  from inst have "\<forall>rnd x y.
            doubling_exact rnd \<and> fl_normal_x rnd 0 (source_triples ?P) x y \<longrightarrow>
            fl_Fx rnd 0 (source_triples (double_strengths ?P)) x y =
              2 * fl_Fx rnd 0 (source_triples ?P) x y"
    by blast
  with e nx have dx: "fl_Fx round_double 0 (source_triples (double_strengths ?P)) 0 0 =
      2 * fl_Fx round_double 0 (source_triples ?P) 0 0"
    by blast
  from inst have "\<forall>rnd x y.
            doubling_exact rnd \<and> fl_normal_y rnd 0 (source_triples ?P) x y \<longrightarrow>
            fl_Fy rnd 0 (source_triples (double_strengths ?P)) x y =
              2 * fl_Fy rnd 0 (source_triples ?P) x y"
    by blast
  with e ny have dy: "fl_Fy round_double 0 (source_triples (double_strengths ?P)) 0 0 =
      2 * fl_Fy round_double 0 (source_triples ?P) 0 0"
    by blast
  from ox oy e nx ny vx dx [unfolded vx] dy [unfolded vy] show ?thesis by blast
qed

text \<open>
  The claim as stated, exactly twice the vector at every point, fails in doubles where a
  quotient is subnormal: at \<open>(0.5, 100 \<times> 2\<^sup>-\<^sup>1\<^sup>0\<^sup>7\<^sup>4)\<close> the \<open>y\<close> component is \<open>-1021 \<times> 2\<^sup>-\<^sup>1\<^sup>0\<^sup>7\<^sup>4\<close>, and with
  both strengths doubled it is \<open>-2043 \<times> 2\<^sup>-\<^sup>1\<^sup>0\<^sup>7\<^sup>4\<close>.
\<close>

theorem dipole_doubling_counterexample:
  "fl_Fy round_double 0 (source_triples (loadPhysicsPreset 0 electricDipole))
     (1 / 2) (100 / 2 ^ 1074) = - (1021 / 2 ^ 1074) \<and>
   fl_Fy round_double 0 (source_triples (double_strengths (loadPhysicsPreset 0 electricDipole)))
     (1 / 2) (100 / 2 ^ 1074) = - (2043 / 2 ^ 1074) \<and>
   - (2043 / 2 ^ 1074) \<noteq> 2 * (- (1021 / 2 ^ 1074) :: real) \<and>
   \<not> fl_normal_y round_double 0 (source_triples (loadPhysicsPreset 0 electricDipole))
       (1 / 2) (100 / 2 ^ 1074)"
  using dipole_underflow_subnormal
  by (simp only: dipole_triples dipole_underflow_double) simp

section \<open>Properties of the colour mapper\<close>

lemma clamp_Fin:
  "Math_max (Fin 0) (Math_min (Fin 1) (Fin t)) = Fin (max 0 (min 1 t))"
  by (simp add: Math_max_def Math_min_def max_def min_def)

lemma colorMaps_length: "2 \<le> length (colorMaps theme)"
  by (cases theme) simp_all

lemma colorMaps_bytes:
  "k < length (colorMaps theme) \<Longrightarrow>
   (case colorMaps theme ! k of (r, g, b) \<Rightarrow> byte r \<and> byte g \<and> byte b)"
  by (cases theme) (simp_all add: byte_def nth_Cons' )


lemma array_get_nat:
  "k < length xs \<Longrightarrow> array_get xs (Fin (real k)) = Some (xs ! k)"
  by simp

lemma array_get_int:
  "0 \<le> i \<Longrightarrow> nat i < length xs \<Longrightarrow> array_get xs (Fin (of_int i)) = Some (xs ! nat i)"
  by simp

text \<open>The interpolated channel value stays between the two anchors.\<close>

lemma mix_byte:
  assumes "byte c1" "byte c2" "0 \<le> f" "f < 1"
  shows "byte \<lfloor>real_of_int c1 + (real_of_int c2 - real_of_int c1) * f + 1 / 2\<rfloor>"
proof -
  let ?v = "real_of_int c1 + (real_of_int c2 - real_of_int c1) * f"
  have lo: "0 \<le> ?v"
  proof (cases "c1 \<le> c2")
    case True
    then have "0 \<le> (real_of_int c2 - real_of_int c1) * f" using assms by simp
    then show ?thesis using assms by (simp add: byte_def)
  next
    case False
    then have "(real_of_int c1 - real_of_int c2) * f \<le> (real_of_int c1 - real_of_int c2) * 1"
      using assms by (intro mult_left_mono) simp_all
    then have "real_of_int c2 \<le> ?v" by (simp add: algebra_simps)
    then show ?thesis using assms by (simp add: byte_def)
  qed
  have hi: "?v \<le> 255"
  proof (cases "c1 \<le> c2")
    case True
    then have "(real_of_int c2 - real_of_int c1) * f \<le> (real_of_int c2 - real_of_int c1) * 1"
      using assms by (intro mult_left_mono) simp_all
    then have "?v \<le> real_of_int c2" by (simp add: algebra_simps)
    then show ?thesis using assms by (simp add: byte_def)
  next
    case False
    then have "(real_of_int c2 - real_of_int c1) * f \<le> 0"
      using assms by (simp add: mult_le_0_iff)
    then show ?thesis using assms by (simp add: byte_def)
  qed
  have "0 \<le> \<lfloor>?v + 1 / 2\<rfloor>" using lo by simp
  moreover have "\<lfloor>?v + 1 / 2\<rfloor> \<le> 255"
  proof -
    have "?v + 1 / 2 < 256" using hi by simp
    then have "\<lfloor>?v + 1 / 2\<rfloor> < 256" by (simp add: floor_less_iff)
    then show ?thesis by simp
  qed
  ultimately show ?thesis by (simp add: byte_def)
qed

text \<open>What \<open>getColor\<close> computes on a finite number, in terms of the clamped input.\<close>

lemma getColor_Fin:
  fixes t :: real and theme :: ColorTheme
  defines "c \<equiv> max 0 (min 1 t)"
  defines "n \<equiv> length (colorMaps theme) - 1"
  defines "k \<equiv> nat \<lfloor>c * real n\<rfloor>"
  defines "f \<equiv> c * real n - of_int \<lfloor>c * real n\<rfloor>"
  shows "getColor (Fin t) theme =
     (if n \<le> k then Inr (anchor (colorMaps theme ! n))
      else case (colorMaps theme ! k, colorMaps theme ! Suc k) of
        ((r1, g1, b1), (r2, g2, b2)) \<Rightarrow>
          Inr (RGB (channel \<lfloor>real_of_int r1 + (real_of_int r2 - real_of_int r1) * f + 1 / 2\<rfloor>)
                   (channel \<lfloor>real_of_int g1 + (real_of_int g2 - real_of_int g1) * f + 1 / 2\<rfloor>)
                   (channel \<lfloor>real_of_int b1 + (real_of_int b2 - real_of_int b1) * f + 1 / 2\<rfloor>)))"
proof -
  have len: "2 \<le> length (colorMaps theme)" by (rule colorMaps_length)
  then have top: "real (length (colorMaps theme)) - 1 = real n"
    by (simp add: n_def of_nat_diff)
  have c0: "0 \<le> c" by (simp add: c_def)
  then have nonneg: "0 \<le> c * real n" by simp
  then have fl: "0 \<le> \<lfloor>c * real n\<rfloor>" by simp
  have k_real: "real_of_int \<lfloor>c * real n\<rfloor> = real k"
    using fl by (simp add: k_def)
  have ge: "js_ge (Fin (real_of_int \<lfloor>c * real n\<rfloor>)) (Fin (real n)) \<longleftrightarrow> n \<le> k"
    by (simp add: js_ge_def k_real)
  show ?thesis
  proof (cases "n \<le> k")
    case True
    have g: "array_get (colorMaps theme) (Fin (real n)) = Some (colorMaps theme ! n)"
      using len by (intro array_get_nat) (simp add: n_def)
    from True ge show ?thesis
      by (simp add: getColor_def clamp_Fin top Let_def anchor_def c_def [symmetric] g
          del: array_get.simps split: prod.splits)
  next
    case False
    then have k: "k < n" by simp
    then have k1: "k < length (colorMaps theme)" and k2: "Suc k < length (colorMaps theme)"
      using len by (simp_all add: n_def)
    have g1: "array_get (colorMaps theme) (Fin (real k)) = Some (colorMaps theme ! k)"
      using k1 by (rule array_get_nat)
    have g2: "array_get (colorMaps theme) (Fin (real k + 1)) = Some (colorMaps theme ! Suc k)"
      using array_get_nat [OF k2] by (simp add: add.commute)
    have fr: "c * real n - real k = f" by (simp add: f_def k_real)
    from False ge show ?thesis
      by (simp add: getColor_def clamp_Fin top Let_def c_def [symmetric] k_real fr channel_def
          g1 g2 del: array_get.simps split: prod.splits)
  qed
qed


lemma getColor_top:
  assumes "1 \<le> t"
  shows "getColor (Fin t) theme = Inr (anchor (last (colorMaps theme)))"
proof -
  have len: "2 \<le> length (colorMaps theme)" by (rule colorMaps_length)
  then have ne: "colorMaps theme \<noteq> []" by auto
  have c: "max 0 (min 1 t) = 1" using assms by simp
  show ?thesis
    by (simp add: getColor_Fin c last_conv_nth [OF ne])
qed

lemma getColor_bottom:
  assumes "t \<le> 0"
  shows "getColor (Fin t) theme = Inr (anchor (hd (colorMaps theme)))"
proof -
  have len: "2 \<le> length (colorMaps theme)" by (rule colorMaps_length)
  then have ne: "colorMaps theme \<noteq> []" by auto
  have c: "max 0 (min 1 t) = 0" using assms by simp
  obtain r1 g1 b1 where a0: "colorMaps theme ! 0 = (r1, g1, b1)" by (metis prod_cases3)
  obtain r2 g2 b2 where a1: "colorMaps theme ! Suc 0 = (r2, g2, b2)" by (metis prod_cases3)
  from len a0 a1 show ?thesis
    by (simp add: getColor_Fin c hd_conv_nth [OF ne] anchor_def)
qed

lemma getColor_bytes:
  "\<exists>r g b. getColor (Fin t) theme = Inr (RGB (channel r) (channel g) (channel b)) \<and>
     byte r \<and> byte g \<and> byte b"
proof -
  define c where "c = max 0 (min 1 t)"
  define n where "n = length (colorMaps theme) - 1"
  define k where "k = nat \<lfloor>c * real n\<rfloor>"
  define f where "f = c * real n - of_int \<lfloor>c * real n\<rfloor>"
  have len: "2 \<le> length (colorMaps theme)" by (rule colorMaps_length)
  show ?thesis
  proof (cases "n \<le> k")
    case True
    obtain r g b where a: "colorMaps theme ! n = (r, g, b)" by (metis prod_cases3)
    have "n < length (colorMaps theme)" using len by (simp add: n_def)
    from colorMaps_bytes [OF this] a have "byte r \<and> byte g \<and> byte b" by simp
    have "getColor (Fin t) theme = Inr (anchor (colorMaps theme ! n))"
      using True unfolding c_def n_def k_def by (subst getColor_Fin) (simp only: if_True)
    with a \<open>byte r \<and> byte g \<and> byte b\<close> show ?thesis
      by (simp add: anchor_def) blast
  next
    case False
    then have k1: "k < length (colorMaps theme)" and k2: "Suc k < length (colorMaps theme)"
      using len by (simp_all add: n_def)
    obtain r1 g1 b1 where a1: "colorMaps theme ! k = (r1, g1, b1)" by (metis prod_cases3)
    obtain r2 g2 b2 where a2: "colorMaps theme ! Suc k = (r2, g2, b2)" by (metis prod_cases3)
    from colorMaps_bytes [OF k1] a1 have b1: "byte r1" "byte g1" "byte b1" by simp_all
    from colorMaps_bytes [OF k2] a2 have b2: "byte r2" "byte g2" "byte b2" by simp_all
    have f: "0 \<le> f" "f < 1" unfolding f_def by linarith+
    have "\<not> n \<le> k" by (rule False)
    with a1 a2 have "getColor (Fin t) theme =
        Inr (RGB (channel \<lfloor>real_of_int r1 + (real_of_int r2 - real_of_int r1) * f + 1 / 2\<rfloor>)
                 (channel \<lfloor>real_of_int g1 + (real_of_int g2 - real_of_int g1) * f + 1 / 2\<rfloor>)
                 (channel \<lfloor>real_of_int b1 + (real_of_int b2 - real_of_int b1) * f + 1 / 2\<rfloor>))"
      unfolding c_def n_def k_def f_def by (subst getColor_Fin) (simp only: if_False prod.case)
    with mix_byte [OF b1(1) b2(1) f] mix_byte [OF b1(2) b2(2) f] mix_byte [OF b1(3) b2(3) f]
    show ?thesis by blast
  qed
qed

lemma getColor_floor_top:
  assumes "int (length (colorMaps theme)) - 1 \<le> \<lfloor>max 0 (min 1 t) * (real (length (colorMaps theme)) - 1)\<rfloor>"
  shows "getColor (Fin t) theme = Inr (anchor (last (colorMaps theme)))"
proof -
  have len: "2 \<le> length (colorMaps theme)" by (rule colorMaps_length)
  then have ne: "colorMaps theme \<noteq> []" by auto
  have eq: "real (length (colorMaps theme)) - 1 = real (length (colorMaps theme) - 1)"
    using len by (simp add: of_nat_diff)
  have "length (colorMaps theme) - 1 \<le> nat \<lfloor>max 0 (min 1 t) * real (length (colorMaps theme) - 1)\<rfloor>"
    using assms len unfolding eq by linarith
  then have "getColor (Fin t) theme = Inr (anchor (colorMaps theme ! (length (colorMaps theme) - 1)))"
    by (subst getColor_Fin) (simp only: if_True)
  then show ?thesis
    by (simp add: last_conv_nth [OF ne])
qed

lemma getColor_clamps: "getColor (Fin t) theme = getColor (Fin (max 0 (min 1 t))) theme"
proof -
  have "max 0 (min 1 (max 0 (min 1 t))) = max 0 (min 1 t)" by simp
  then show ?thesis by (simp only: getColor_Fin)
qed

text \<open>
  Claim C7. For every real \<open>t\<close> and every palette, \<open>getColor\<close> returns a colour (no lookup
  is out of bounds) whose three channels are integers in \<open>[0, 255]\<close>, and it returns what it
  returns for \<open>t\<close> clamped into \<open>[0, 1]\<close>. At \<open>0\<close> the colour is the first anchor; at \<open>1\<close>, at
  every \<open>t \<ge> 1\<close>, and whenever the floor index reaches \<open>N - 1\<close>, it is the last anchor,
  unmodified.
\<close>

theorem getColor_in_range:
  "(\<exists>r g b. getColor (Fin t) theme = Inr (RGB (channel r) (channel g) (channel b)) \<and>
      byte r \<and> byte g \<and> byte b) \<and>
   getColor (Fin t) theme = getColor (Fin (max 0 (min 1 t))) theme \<and>
   getColor (Fin 0) theme = Inr (anchor (hd (colorMaps theme))) \<and>
   getColor (Fin 1) theme = Inr (anchor (last (colorMaps theme))) \<and>
   (1 \<le> t \<longrightarrow> getColor (Fin t) theme = Inr (anchor (last (colorMaps theme)))) \<and>
   (int (length (colorMaps theme)) - 1 \<le> \<lfloor>max 0 (min 1 t) * (real (length (colorMaps theme)) - 1)\<rfloor> \<longrightarrow>
      getColor (Fin t) theme = Inr (anchor (last (colorMaps theme))))"
  using getColor_bytes [of t theme] getColor_clamps [of t theme] getColor_bottom [of 0 theme]
    getColor_top [of 1 theme] getColor_top [of t theme] getColor_floor_top [of theme t]
  by simp

theorem getColor_in_range_witness:
  "(1::real) \<le> 2 \<and>
   getColor (Fin 2) Viridis = Inr (RGB (Fin 253) (Fin 231) (Fin 37)) \<and>
   getColor (Fin 0) Cool = Inr (RGB (Fin 0) (Fin 255) (Fin 255)) \<and>
   getColor (Fin 1) Hot = Inr (RGB (Fin 255) (Fin 255) (Fin 255))"
  using getColor_in_range [of 2 Viridis] getColor_in_range [of 0 Cool] getColor_in_range [of 1 Hot]
  by (simp add: anchor_def channel_def)

text \<open>Two further values: an interpolated colour, and the input that is not a real number.
  On NaN the clamp yields NaN, the lookup yields \<open>undefined\<close>, and reading its component
  throws.\<close>

lemma getColor_half: "getColor (Fin (1 / 2)) Viridis = Inr (RGB (Fin 35) (Fin 144) (Fin 140))"
  by (simp add: getColor_Fin channel_def)

lemma getColor_NaN: "getColor NaN theme = Inl TypeError"
  by (simp add: getColor_def Math_max_def Math_min_def js_ge_def Let_def minus_jsnum_def)

section \<open>Properties of the divergence grid\<close>

subsection \<open>Loops\<close>

lemma for_each_pure:
  assumes "\<And>s a w. body s a w = Returned (stp s a) w"
  shows "for_each xs body s w = Returned (foldl stp s xs) w"
  by (induction xs arbitrary: s) (simp_all add: js_bind_apply assms)

lemma for_each_counts:
  assumes stp: "\<And>s a w. I s \<Longrightarrow> \<exists>s' w'. body s a w = Returned s' w' \<and> I s' \<and> m s' = Suc (m s)"
    and "I s"
  shows "\<exists>s' w'. for_each xs body s w = Returned s' w' \<and> I s' \<and> m s' = m s + length xs"
  using \<open>I s\<close>
proof (induction xs arbitrary: s w)
  case Nil
  then show ?case by simp
next
  case (Cons a xs)
  from stp [OF Cons.prems, of a w] obtain s1 w1 where
    s1: "body s a w = Returned s1 w1" "I s1" "m s1 = Suc (m s)" by blast
  from Cons.IH [OF s1(2), of w1] obtain s2 w2 where
    "for_each xs body s1 w1 = Returned s2 w2" "I s2" "m s2 = m s1 + length xs" by blast
  with s1 show ?case by (simp add: js_bind_apply)
qed

subsection \<open>Closures that never throw\<close>

lemma createFieldFunction_never_throws: "never_throws (createFieldFunction h src)"
  unfolding never_throws_def
proof (intro allI)
  fix x y w
  from createFieldFunction_returns [of h src x y w]
  show "\<exists>v w'. createFieldFunction h src x y w = Returned v w'" by blast
qed

lemma Fx_never_throws: "never_throws baseFx \<Longrightarrow> never_throws (Fx baseFx pointSources)"
  unfolding never_throws_def
proof (intro allI)
  fix x y w
  assume "\<forall>x y w. \<exists>v w'. baseFx x y w = Returned v w'"
  then obtain v w' where "baseFx x y w = Returned v w'" by blast
  then show "\<exists>v w'. Fx baseFx pointSources x y w = Returned v w'"
    by (simp add: Fx_def js_bind_apply)
qed

lemma Fy_never_throws: "never_throws baseFy \<Longrightarrow> never_throws (Fy baseFy pointSources)"
  unfolding never_throws_def
proof (intro allI)
  fix x y w
  assume "\<forall>x y w. \<exists>v w'. baseFy x y w = Returned v w'"
  then obtain v w' where "baseFy x y w = Returned v w'" by blast
  then show "\<exists>v w'. Fy baseFy pointSources x y w = Returned v w'"
    by (simp add: Fy_def js_bind_apply)
qed

lemma derivative_returns:
  assumes "never_throws f"
  shows "\<exists>v w'. derivative f x y ax w = Returned v w'"
proof (cases ax)
  case AxisX
  from assms obtain a w1 where a: "f (x + Fin 0.01) y w = Returned a w1"
    unfolding never_throws_def by blast
  from assms obtain b w2 where b: "f (x - Fin 0.01) y w1 = Returned b w2"
    unfolding never_throws_def by blast
  from AxisX a b show ?thesis by (simp add: derivative_def js_bind_apply Let_def)
next
  case AxisY
  from assms obtain a w1 where a: "f x (y + Fin 0.01) w = Returned a w1"
    unfolding never_throws_def by blast
  from assms obtain b w2 where b: "f x (y - Fin 0.01) w1 = Returned b w2"
    unfolding never_throws_def by blast
  from AxisY a b show ?thesis by (simp add: derivative_def js_bind_apply Let_def)
qed

lemma divergence_cell_returns:
  assumes "never_throws Fx'" "never_throws Fy'"
  shows "\<exists>acc' w'. divergence_cell Fx' Fy' i acc j w = Returned acc' w' \<and>
           length (fst acc') = Suc (length (fst acc))"
proof -
  obtain row mn mx where acc: "acc = (row, mn, mx)" by (metis prod_cases3)
  let ?x = "- range2D + Fin (real i) * step2D" and ?y = "range2D - Fin (real j) * step2D"
  from derivative_returns [OF assms(1)] obtain a w1 where
    a: "derivative Fx' ?x ?y AxisX w = Returned a w1" by blast
  from derivative_returns [OF assms(2)] obtain b w2 where
    b: "derivative Fy' ?x ?y AxisY w1 = Returned b w2" by blast
  from a b show ?thesis
    by (simp add: divergence_cell_def acc js_bind_apply Let_def)
qed

lemma divergence_row_returns:
  assumes "never_throws Fx'" "never_throws Fy'"
  shows "\<exists>acc' w'. divergence_row Fx' Fy' acc i w = Returned acc' w' \<and>
           (\<exists>row. fst acc' = fst acc @ [row] \<and> length row = Suc gridSize)"
proof -
  obtain grid mn mx where acc: "acc = (grid, mn, mx)" by (metis prod_cases3)
  from for_each_counts [of "\<lambda>s. True" "divergence_cell Fx' Fy' i" "\<lambda>s. length (fst s)"
      "([], mn, mx)" "[0..<Suc gridSize]" w]
    divergence_cell_returns [OF assms]
  obtain s' w' where
    s': "for_each [0..<Suc gridSize] (divergence_cell Fx' Fy' i) ([], mn, mx) w = Returned s' w'"
      "length (fst s') = Suc gridSize"
    by auto
  obtain row mn' mx' where "s' = (row, mn', mx')" by (metis prod_cases3)
  with s' show ?thesis
    by (simp add: divergence_row_def acc js_bind_apply)
qed

lemma divergence_scan_dimensions:
  assumes "never_throws Fx'" "never_throws Fy'"
  shows "\<exists>grid mn mx w'. divergence_scan Fx' Fy' w = Returned (grid, mn, mx) w' \<and>
           length grid = Suc gridSize \<and> (\<forall>row\<in>set grid. length row = Suc gridSize)"
proof -
  have "\<exists>s' w'. for_each [0..<Suc gridSize] (divergence_row Fx' Fy') ([], PInf, NInf) w =
            Returned s' w' \<and> (\<forall>row\<in>set (fst s'). length row = Suc gridSize) \<and>
          length (fst s') = length (fst (([], PInf, NInf) :: jsnum list list \<times> jsnum \<times> jsnum)) +
            length [0..<Suc gridSize]"
  proof (rule for_each_counts)
    fix s :: "jsnum list list \<times> jsnum \<times> jsnum" and a :: nat and w :: 'a
    assume inv: "\<forall>row\<in>set (fst s). length row = Suc gridSize"
    from divergence_row_returns [OF assms, of s a w] obtain s' w' row where
      "divergence_row Fx' Fy' s a w = Returned s' w'" "fst s' = fst s @ [row]"
      "length row = Suc gridSize" by blast
    with inv show "\<exists>s' w'. divergence_row Fx' Fy' s a w = Returned s' w' \<and>
        (\<forall>row\<in>set (fst s'). length row = Suc gridSize) \<and> length (fst s') = Suc (length (fst s))"
      by auto
  qed simp
  then obtain s' w' where s': "for_each [0..<Suc gridSize] (divergence_row Fx' Fy') ([], PInf, NInf) w =
      Returned s' w'" "\<forall>row\<in>set (fst s'). length row = Suc gridSize" "length (fst s') = Suc gridSize"
    by auto
  obtain grid mn mx where "s' = (grid, mn, mx)" by (metis prod_cases3)
  with s' show ?thesis by (simp add: divergence_scan_def)
qed


subsection \<open>Closures that compute a real function\<close>

lemma Fx_computes:
  assumes "\<forall>ps\<in>set pointSources. finite_source ps" and "computes baseFx g"
  shows "computes (Fx baseFx pointSources)
           (\<lambda>x y. g x y + (\<Sum>ps\<leftarrow>pointSources.
                spec_source_term (fin_value (strength ps)) (x - fin_value (ps_x ps))
                  (x - fin_value (ps_x ps)) (y - fin_value (ps_y ps))))"
  unfolding computes_def
proof (intro allI)
  fix x y w
  from assms(2) have "baseFx (Fin x) (Fin y) w = Returned (Fin (g x y)) w"
    unfolding computes_def by simp
  from Fx_finite [where baseFx = baseFx, OF assms(1) this]
  show "Fx baseFx pointSources (Fin x) (Fin y) w =
          Returned (Fin (g x y + (\<Sum>ps\<leftarrow>pointSources.
                spec_source_term (fin_value (strength ps)) (x - fin_value (ps_x ps))
                  (x - fin_value (ps_x ps)) (y - fin_value (ps_y ps))))) w" .
qed

lemma Fy_computes:
  assumes "\<forall>ps\<in>set pointSources. finite_source ps" and "computes baseFy g"
  shows "computes (Fy baseFy pointSources)
           (\<lambda>x y. g x y + (\<Sum>ps\<leftarrow>pointSources.
                spec_source_term (fin_value (strength ps)) (y - fin_value (ps_y ps))
                  (x - fin_value (ps_x ps)) (y - fin_value (ps_y ps))))"
  unfolding computes_def
proof (intro allI)
  fix x y w
  from assms(2) have "baseFy (Fin x) (Fin y) w = Returned (Fin (g x y)) w"
    unfolding computes_def by simp
  from Fy_finite [where baseFy = baseFy, OF assms(1) this]
  show "Fy baseFy pointSources (Fin x) (Fin y) w =
          Returned (Fin (g x y + (\<Sum>ps\<leftarrow>pointSources.
                spec_source_term (fin_value (strength ps)) (y - fin_value (ps_y ps))
                  (x - fin_value (ps_x ps)) (y - fin_value (ps_y ps))))) w" .
qed

lemma derivative_computes:
  assumes "computes f g"
  shows "derivative f (Fin x) (Fin y) AxisX w = Returned (Fin (central_difference (\<lambda>x'. g x' y) x)) w"
    and "derivative f (Fin x) (Fin y) AxisY w = Returned (Fin (central_difference (\<lambda>y'. g x y') y)) w"
  using assms unfolding computes_def
  by (simp_all add: derivative_def js_bind_apply Let_def central_difference_def)

lemma grid_point:
  "- range2D + Fin (real i) * step2D = Fin (grid_x i)"
  "range2D - Fin (real j) * step2D = Fin (grid_y j)"
  by (simp_all add: range2D_def step2D_def gridSize_def grid_x_def grid_y_def)

lemma divergence_cell_computes:
  assumes "computes Fx' gx" "computes Fy' gy"
  shows "divergence_cell Fx' Fy' i (row, mn, mx) j w =
           Returned (row @ [Fin (spec_divergence gx gy (grid_x i) (grid_y j))],
                     Math_min mn (Fin (spec_divergence gx gy (grid_x i) (grid_y j))),
                     Math_max mx (Fin (spec_divergence gx gy (grid_x i) (grid_y j)))) w"
  by (simp add: divergence_cell_def grid_point derivative_computes [OF assms(1)]
      derivative_computes [OF assms(2)] js_bind_apply Let_def spec_divergence_def)

lemma row_loop_computes:
  assumes "computes Fx' gx" "computes Fy' gy"
  shows "for_each js (divergence_cell Fx' Fy' i) (row, mn, mx) w =
           Returned (row @ map (\<lambda>j. Fin (spec_divergence gx gy (grid_x i) (grid_y j))) js,
                     foldl Math_min mn (map (\<lambda>j. Fin (spec_divergence gx gy (grid_x i) (grid_y j))) js),
                     foldl Math_max mx (map (\<lambda>j. Fin (spec_divergence gx gy (grid_x i) (grid_y j))) js)) w"
proof (induction js arbitrary: row mn mx)
  case Nil
  show ?case by simp
next
  case (Cons j js)
  show ?case
    by (simp add: js_bind_apply divergence_cell_computes [OF assms] Cons.IH)
qed

lemma divergence_row_computes:
  assumes "computes Fx' gx" "computes Fy' gy"
  shows "divergence_row Fx' Fy' (grid, mn, mx) i w =
           Returned (grid @ [map (\<lambda>j. Fin (spec_divergence gx gy (grid_x i) (grid_y j))) [0..<Suc gridSize]],
                     foldl Math_min mn (map (\<lambda>j. Fin (spec_divergence gx gy (grid_x i) (grid_y j))) [0..<Suc gridSize]),
                     foldl Math_max mx (map (\<lambda>j. Fin (spec_divergence gx gy (grid_x i) (grid_y j))) [0..<Suc gridSize])) w"
  unfolding divergence_row_def
  by (simp add: js_bind_apply row_loop_computes [OF assms] del: upt_Suc)

lemma grid_loop_computes:
  assumes "computes Fx' gx" "computes Fy' gy"
  defines "rowf \<equiv> \<lambda>i. map (\<lambda>j. Fin (spec_divergence gx gy (grid_x i) (grid_y j))) [0..<Suc gridSize]"
  shows "for_each is (divergence_row Fx' Fy') (grid, mn, mx) w =
           Returned (grid @ map rowf is, foldl Math_min mn (concat (map rowf is)),
                     foldl Math_max mx (concat (map rowf is))) w"
proof (induction "is" arbitrary: grid mn mx)
  case Nil
  show ?case by simp
next
  case (Cons i "is")
  show ?case
    unfolding rowf_def
    by (simp add: js_bind_apply divergence_row_computes [OF assms(1,2)] Cons.IH [unfolded rowf_def]
        del: upt_Suc)
qed

lemma divergence_scan_computes:
  assumes "computes Fx' gx" "computes Fy' gy"
  shows "divergence_scan Fx' Fy' w =
           Returned (spec_grid gx gy, foldl Math_min PInf (concat (spec_grid gx gy)),
                     foldl Math_max NInf (concat (spec_grid gx gy))) w"
  unfolding divergence_scan_def spec_grid_def
  using grid_loop_computes [OF assms, of "[0..<Suc gridSize]" "[]" PInf NInf w]
  by simp


subsection \<open>A field of constant divergence\<close>

lemma gridSize_Suc: "Suc gridSize = 101"
  by (simp add: gridSize_def)

lemma foldl_min_constant:
  assumes "\<forall>v\<in>set xs. v = Fin c" and "a = PInf \<or> a = Fin c"
  shows "foldl Math_min a xs = (if xs = [] then a else Fin c)"
  using assms
proof (induction xs arbitrary: a)
  case Nil
  show ?case by simp
next
  case (Cons v xs)
  then have "Math_min a v = Fin c" by (auto simp: Math_min_def)
  with Cons show ?case by simp
qed

lemma foldl_max_constant:
  assumes "\<forall>v\<in>set xs. v = Fin c" and "a = NInf \<or> a = Fin c"
  shows "foldl Math_max a xs = (if xs = [] then a else Fin c)"
  using assms
proof (induction xs arbitrary: a)
  case Nil
  show ?case by simp
next
  case (Cons v xs)
  then have "Math_max a v = Fin c" by (auto simp: Math_max_def)
  with Cons show ?case by simp
qed

lemma spec_grid_constant:
  assumes "\<And>x y. spec_divergence gx gy x y = c"
  shows "spec_grid gx gy = replicate 101 (replicate 101 (Fin c))"
  unfolding spec_grid_def gridSize_Suc by (simp add: assms map_replicate_const)

lemma divergence_scan_constant:
  assumes "computes Fx' gx" "computes Fy' gy" and "\<And>x y. spec_divergence gx gy x y = c"
  shows "divergence_scan Fx' Fy' w = Returned (replicate 101 (replicate 101 (Fin c)), Fin c, Fin c) w"
proof -
  let ?g = "replicate 101 (replicate 101 (Fin c))"
  have all: "\<forall>v\<in>set (concat ?g). v = Fin c" by auto
  have ne: "concat ?g \<noteq> []" by simp
  have "foldl Math_min PInf (concat ?g) = Fin c"
    using foldl_min_constant [OF all, of PInf] ne by simp
  moreover have "foldl Math_max NInf (concat ?g) = Fin c"
    using foldl_max_constant [OF all, of NInf] ne by simp
  ultimately show ?thesis
    by (simp only: divergence_scan_computes [OF assms(1,2)] spec_grid_constant [OF assms(3)])
qed

lemma normalized_degenerate:
  assumes "js_strict_eq maxDiv minDiv" "isFinite dv"
  shows "normalized dv minDiv maxDiv = Some (Fin (1 / 2))"
  using assms by (simp add: normalized_def)

subsection \<open>The radial field\<close>

lemma host_returns_x:
  assumes "host_evaluates h [''x'', ''y'', ''Math''] ''x'' (\<lambda>args. args ! 0)"
  shows "computes (createFieldFunction h ''x'') (\<lambda>x y. x)"
proof -
  from assms obtain func where
    "newFunction h [''x'', ''y'', ''Math''] (function_body ''x'') = Inr func"
    "\<And>args w. func args w = Returned (args ! 0) w"
    unfolding host_evaluates_def by blast
  then show ?thesis
    unfolding computes_def by (simp add: createFieldFunction_Inr finite_or_zero_simps)
qed

lemma host_returns_y:
  assumes "host_evaluates h [''x'', ''y'', ''Math''] ''y'' (\<lambda>args. args ! 1)"
  shows "computes (createFieldFunction h ''y'') (\<lambda>x y. y)"
proof -
  from assms obtain func where
    "newFunction h [''x'', ''y'', ''Math''] (function_body ''y'') = Inr func"
    "\<And>args w. func args w = Returned (args ! 1) w"
    unfolding host_evaluates_def by blast
  then show ?thesis
    unfolding computes_def by (simp add: createFieldFunction_Inr finite_or_zero_simps)
qed

lemma computes_no_sources:
  "computes baseFx g \<Longrightarrow> computes (Fx baseFx []) g"
  "computes baseFy g \<Longrightarrow> computes (Fy baseFy []) g"
  unfolding computes_def by (simp_all add: Fx_no_sources Fy_no_sources)

lemma radial_divergence: "spec_divergence (\<lambda>x y. x) (\<lambda>x y. y) x y = 2"
  by (simp add: spec_divergence_def central_difference_def)


lemma radial_grid:
  assumes "host_evaluates h [''x'', ''y'', ''Math''] ''x'' (\<lambda>args. args ! 0)"
    and "host_evaluates h [''x'', ''y'', ''Math''] ''y'' (\<lambda>args. args ! 1)"
  shows "computeDivergence h ''x'' ''y'' [] w =
           Returned (replicate 101 (replicate 101 (Fin 2)), Fin 2, Fin 2) w"
  unfolding computeDivergence_def Let_def
  by (rule divergence_scan_constant
      [OF computes_no_sources(1) [OF host_returns_x [OF assms(1)]]
          computes_no_sources(2) [OF host_returns_y [OF assms(2)]] radial_divergence])

lemma rounding_absolute:
  assumes "standard_rounding rnd" "\<bar>x\<bar> \<le> 50"
  shows "\<bar>rnd x - x\<bar> \<le> 1 / 10 ^ 14"
proof -
  have "\<bar>x\<bar> \<le> 2 ^ 1023" using assms(2) by simp
  then have "\<bar>rnd x - x\<bar> \<le> max (\<bar>x\<bar> / 2 ^ 53) (1 / 2 ^ 1075)"
    using assms(1) unfolding standard_rounding_def by blast
  moreover have "\<bar>x\<bar> / 2 ^ 53 \<le> 50 / 2 ^ 53" using assms(2) by (simp add: divide_right_mono)
  moreover have "(50::real) / 2 ^ 53 \<le> 1 / 10 ^ 14" by simp
  moreover have "(1::real) / 2 ^ 1075 \<le> 1 / 10 ^ 14" by simp
  ultimately show ?thesis by (simp add: max_def split: if_splits)
qed

lemma fl_step_bound:
  assumes "standard_rounding rnd"
  shows "\<bar>fl_step rnd - 6 / 100\<bar> \<le> 2 / 10 ^ 14"
proof -
  have a: "\<bar>rnd (2 * 3) - 2 * 3\<bar> \<le> 1 / 10 ^ 14"
    by (rule rounding_absolute [OF assms]) simp
  then have "\<bar>rnd (2 * 3) / 100\<bar> \<le> 50" by (simp add: abs_if split: if_splits)
  from rounding_absolute [OF assms this]
  have "\<bar>fl_step rnd - rnd (2 * 3) / 100\<bar> \<le> 1 / 10 ^ 14" by (simp add: fl_step_def)
  with a show ?thesis by (simp add: abs_if split: if_splits)
qed

lemma fl_product_bound:
  assumes "standard_rounding rnd" "i \<le> 100"
  shows "\<bar>rnd (real i * fl_step rnd) - real i * (6 / 100)\<bar> \<le> 201 / 10 ^ 14"
proof -
  have i: "0 \<le> real i" "real i \<le> 100" using assms(2) by simp_all
  have "\<bar>real i * fl_step rnd - real i * (6 / 100)\<bar> = real i * \<bar>fl_step rnd - 6 / 100\<bar>"
    using i by (simp only: right_diff_distrib [symmetric] abs_mult abs_of_nonneg)
  also have "\<dots> \<le> 100 * (2 / 10 ^ 14)"
    using i fl_step_bound [OF assms(1)] by (intro mult_mono) simp_all
  finally have d: "\<bar>real i * fl_step rnd - real i * (6 / 100)\<bar> \<le> 200 / 10 ^ 14" by simp
  have "0 \<le> real i * (6 / 100)" "real i * (6 / 100) \<le> 6" using i by simp_all
  with d have "\<bar>real i * fl_step rnd\<bar> \<le> 50" by (simp add: abs_if split: if_splits)
  from rounding_absolute [OF assms(1) this] d show ?thesis by (simp add: abs_if split: if_splits)
qed

lemma fl_x_bound:
  assumes "standard_rounding rnd" "i \<le> 100"
  shows "\<bar>fl_x rnd i\<bar> \<le> 4"
proof -
  have i: "0 \<le> real i * (6 / 100)" "real i * (6 / 100) \<le> 6" using assms(2) by simp_all
  note p = fl_product_bound [OF assms]
  with i have "\<bar>- 3 + rnd (real i * fl_step rnd)\<bar> \<le> 50" by (simp add: abs_if split: if_splits)
  from rounding_absolute [OF assms(1) this] p i show ?thesis
    by (simp add: fl_x_def abs_if split: if_splits)
qed

lemma fl_y_bound:
  assumes "standard_rounding rnd" "j \<le> 100"
  shows "\<bar>fl_y rnd j\<bar> \<le> 4"
proof -
  have j: "0 \<le> real j * (6 / 100)" "real j * (6 / 100) \<le> 6" using assms(2) by simp_all
  note p = fl_product_bound [OF assms]
  with j have "\<bar>3 - rnd (real j * fl_step rnd)\<bar> \<le> 50" by (simp add: abs_if split: if_splits)
  from rounding_absolute [OF assms(1) this] p j show ?thesis
    by (simp add: fl_y_def abs_if split: if_splits)
qed

lemma fl_derivative_bound:
  assumes "standard_rounding rnd" "\<bar>x\<bar> \<le> 4"
  shows "\<bar>fl_derivative rnd x - 1\<bar> \<le> 401 / 10 ^ 14"
proof -
  define h where "h = rnd (1 / 100)"
  define a where "a = rnd (x + h)"
  define b where "b = rnd (x - h)"
  define n where "n = rnd (a - b)"
  define d where "d = rnd (2 * h)"
  have h: "\<bar>h - 1 / 100\<bar> \<le> 1 / 10 ^ 14"
    unfolding h_def by (rule rounding_absolute [OF assms(1)]) simp
  have "\<bar>x + h\<bar> \<le> 50" using assms(2) h by (simp add: abs_if split: if_splits)
  from rounding_absolute [OF assms(1) this] have a: "\<bar>a - (x + h)\<bar> \<le> 1 / 10 ^ 14"
    by (simp add: a_def)
  have "\<bar>x - h\<bar> \<le> 50" using assms(2) h by (simp add: abs_if split: if_splits)
  from rounding_absolute [OF assms(1) this] have b: "\<bar>b - (x - h)\<bar> \<le> 1 / 10 ^ 14"
    by (simp add: b_def)
  have "\<bar>a - b\<bar> \<le> 50" using a b h by (simp add: abs_if split: if_splits)
  from rounding_absolute [OF assms(1) this] have n0: "\<bar>n - (a - b)\<bar> \<le> 1 / 10 ^ 14"
    by (simp add: n_def)
  with a b have n: "\<bar>n - 2 * h\<bar> \<le> 3 / 10 ^ 14" by (simp add: abs_if split: if_splits)
  have "\<bar>2 * h\<bar> \<le> 50" using h by (simp add: abs_if split: if_splits)
  from rounding_absolute [OF assms(1) this] have d: "\<bar>d - 2 * h\<bar> \<le> 1 / 10 ^ 14"
    by (simp add: d_def)
  have dpos: "1 / 100 \<le> d" using d h by (simp add: abs_if split: if_splits)
  have nd: "\<bar>n - d\<bar> \<le> 4 / 10 ^ 14" using n d by (simp add: abs_if split: if_splits)
  define q where "q = n / d"
  have "q - 1 = (n - d) / d" using dpos by (simp add: q_def field_simps)
  then have "\<bar>q - 1\<bar> = \<bar>n - d\<bar> / d" using dpos by simp
  also have "\<dots> \<le> (4 / 10 ^ 14) / (1 / 100)"
    using nd dpos by (intro frac_le) simp_all
  finally have q: "\<bar>q - 1\<bar> \<le> 400 / 10 ^ 14" by simp
  then have "\<bar>q\<bar> \<le> 50" by (simp add: abs_if split: if_splits)
  from rounding_absolute [OF assms(1) this] q
  have "\<bar>rnd q - 1\<bar> \<le> 401 / 10 ^ 14" by (simp add: abs_if split: if_splits)
  then show ?thesis
    by (simp add: fl_derivative_def Let_def h_def a_def b_def n_def d_def q_def)
qed

lemma fl_radial_sample_bound:
  assumes "standard_rounding rnd" "i \<le> 100" "j \<le> 100"
  shows "\<bar>fl_radial_sample rnd i j - 2\<bar> \<le> 1 / 10 ^ 6"
proof -
  note dx = fl_derivative_bound [OF assms(1) fl_x_bound [OF assms(1,2)]]
  note dy = fl_derivative_bound [OF assms(1) fl_y_bound [OF assms(1,3)]]
  let ?s = "fl_derivative rnd (fl_x rnd i) + fl_derivative rnd (fl_y rnd j)"
  from dx dy have s: "\<bar>?s - 2\<bar> \<le> 802 / 10 ^ 14" by (simp add: abs_if split: if_splits)
  then have "\<bar>?s\<bar> \<le> 50" by (simp add: abs_if split: if_splits)
  from rounding_absolute [OF assms(1) this] s
  have "\<bar>rnd ?s - 2\<bar> \<le> 803 / 10 ^ 14" by (simp add: abs_if split: if_splits)
  then show ?thesis by (simp add: fl_radial_sample_def)
qed

text \<open>In particular with rounding to the nearest double.\<close>

lemma fl_radial_sample_double:
  "i \<le> 100 \<Longrightarrow> j \<le> 100 \<Longrightarrow> \<bar>fl_radial_sample round_double i j - 2\<bar> \<le> 1 / 10 ^ 6"
  by (rule fl_radial_sample_bound [OF round_double_standard])

lemma exact_is_standard: "standard_rounding (\<lambda>x. x)"
  by (simp add: standard_rounding_def le_max_iff_disj)

lemma fl_grid_exact: "fl_x (\<lambda>x. x) i = grid_x i" "fl_y (\<lambda>x. x) j = grid_y j"
  by (simp_all add: fl_x_def fl_y_def fl_step_def grid_x_def grid_y_def)

lemma fl_derivative_exact: "fl_derivative (\<lambda>x. x) x = central_difference (\<lambda>x'. x') x"
  by (simp add: fl_derivative_def central_difference_def)

text \<open>
  Claim C9. For the field \<open>Fx = x\<close>, \<open>Fy = y\<close> with no point sources, on a host that evaluates
  the texts \<open>x\<close> and \<open>y\<close> to the first and second argument, every sample of the grid is
  within \<open>10\<^sup>-\<^sup>6\<close> of \<open>2\<close>; each sample is the sum of the two central differences with
  \<open>h = 0.01\<close>, each along its own axis; and \<open>derivative\<close> computes exactly that difference
  quotient of any closure that computes a real function. In the exact arithmetic of this
  model every sample is \<open>2\<close>; when every operation of the same computation is rounded with
  the accuracy of doubles, every sample is still within \<open>10\<^sup>-\<^sup>6\<close> of \<open>2\<close>, and without rounding
  that computation is the one of the model.
\<close>

theorem radial_field_divergence:
  assumes "host_evaluates h [''x'', ''y'', ''Math''] ''x'' (\<lambda>args. args ! 0)"
    and "host_evaluates h [''x'', ''y'', ''Math''] ''y'' (\<lambda>args. args ! 1)"
  shows "\<exists>grid minDiv maxDiv.
           computeDivergence h ''x'' ''y'' [] w = Returned (grid, minDiv, maxDiv) w \<and>
           length grid = 101 \<and>
           (\<forall>i<101. length (grid ! i) = 101 \<and>
              (\<forall>j<101. \<exists>d. grid ! i ! j = Fin d \<and> \<bar>d - 2\<bar> \<le> 1 / 10 ^ 6 \<and>
                 d = central_difference (\<lambda>x'. x') (grid_x i) + central_difference (\<lambda>y'. y') (grid_y j))) \<and>
           (\<forall>f g x y w'. computes f g \<longrightarrow>
              derivative f (Fin x) (Fin y) AxisX (w'::'w) =
                Returned (Fin ((g (x + 1 / 100) y - g (x - 1 / 100) y) / (2 * (1 / 100)))) w' \<and>
              derivative f (Fin x) (Fin y) AxisY w' =
                Returned (Fin ((g x (y + 1 / 100) - g x (y - 1 / 100)) / (2 * (1 / 100)))) w') \<and>
           (\<forall>rnd i j. standard_rounding rnd \<and> i \<le> 100 \<and> j \<le> 100 \<longrightarrow>
              \<bar>fl_radial_sample rnd i j - 2\<bar> \<le> 1 / 10 ^ 6) \<and>
           (\<forall>i j. fl_radial_sample (\<lambda>x. x) i j =
              central_difference (\<lambda>x'. x') (grid_x i) + central_difference (\<lambda>y'. y') (grid_y j))"
proof -
  have cd: "central_difference (\<lambda>x'. x') a = 1" for a
    by (simp add: central_difference_def)
  have der: "\<forall>f g x y w'. computes f g \<longrightarrow>
              derivative f (Fin x) (Fin y) AxisX (w'::'w) =
                Returned (Fin ((g (x + 1 / 100) y - g (x - 1 / 100) y) / (2 * (1 / 100)))) w' \<and>
              derivative f (Fin x) (Fin y) AxisY w' =
                Returned (Fin ((g x (y + 1 / 100) - g x (y - 1 / 100)) / (2 * (1 / 100)))) w'"
  proof (intro allI impI)
    fix f :: "jsnum \<Rightarrow> jsnum \<Rightarrow> (jsnum, 'w) js" and g x y w'
    assume "computes f g"
    from derivative_computes [OF this, of x y w']
    show "derivative f (Fin x) (Fin y) AxisX w' =
                Returned (Fin ((g (x + 1 / 100) y - g (x - 1 / 100) y) / (2 * (1 / 100)))) w' \<and>
              derivative f (Fin x) (Fin y) AxisY w' =
                Returned (Fin ((g x (y + 1 / 100) - g x (y - 1 / 100)) / (2 * (1 / 100)))) w'"
      by (simp add: central_difference_def)
  qed
  have rounded: "\<forall>rnd i j. standard_rounding rnd \<and> i \<le> 100 \<and> j \<le> 100 \<longrightarrow>
              \<bar>fl_radial_sample rnd i j - 2\<bar> \<le> 1 / 10 ^ 6"
    using fl_radial_sample_bound by blast
  have exact: "\<forall>i j. fl_radial_sample (\<lambda>x. x) i j =
              central_difference (\<lambda>x'. x') (grid_x i) + central_difference (\<lambda>y'. y') (grid_y j)"
    by (simp add: fl_radial_sample_def fl_derivative_exact fl_grid_exact)
  have scan: "\<exists>grid minDiv maxDiv.
           computeDivergence h ''x'' ''y'' [] w = Returned (grid, minDiv, maxDiv) w \<and>
           length grid = 101 \<and>
           (\<forall>i<101. length (grid ! i) = 101 \<and>
              (\<forall>j<101. \<exists>d. grid ! i ! j = Fin d \<and> \<bar>d - 2\<bar> \<le> 1 / 10 ^ 6 \<and>
                 d = central_difference (\<lambda>x'. x') (grid_x i) + central_difference (\<lambda>y'. y') (grid_y j)))"
    apply (rule exI [of _ "replicate 101 (replicate 101 (Fin 2))"])
    apply (rule exI [of _ "Fin 2"])
    apply (rule exI [of _ "Fin 2"])
    by (simp add: radial_grid [OF assms] cd)
  from scan der rounded exact show ?thesis by blast
qed

lemma sample_host_evaluates_xy:
  "host_evaluates sample_host [''x'', ''y'', ''Math''] ''x'' (\<lambda>args. args ! 0)"
  "host_evaluates sample_host [''x'', ''y'', ''Math''] ''y'' (\<lambda>args. args ! 1)"
  unfolding host_evaluates_def
  by (rule exI [of _ "\<lambda>args. js_return (args ! 0)"], simp)
     (rule exI [of _ "\<lambda>args. js_return (args ! 1)"], simp)

theorem radial_field_divergence_witness:
  "(\<exists>grid minDiv maxDiv.
     computeDivergence sample_host ''x'' ''y'' [] 0 = Returned (grid, minDiv, maxDiv) 0 \<and>
     length grid = 101 \<and> length (grid ! 50) = 101 \<and>
     (\<exists>d. grid ! 50 ! 50 = Fin d \<and> \<bar>d - 2\<bar> \<le> 1 / 10 ^ 6)) \<and>
   computes (\<lambda>x y. js_return x :: (jsnum, nat) js) (\<lambda>x y. x) \<and>
   derivative (\<lambda>x y. js_return x) (Fin 1) (Fin 0) AxisX (0::nat) = Returned (Fin 1) 0 \<and>
   standard_rounding (\<lambda>x. x) \<and> \<bar>fl_radial_sample (\<lambda>x. x) 50 50 - 2\<bar> \<le> 1 / 10 ^ 6"
proof -
  from radial_field_divergence [OF sample_host_evaluates_xy, of 0]
  obtain grid minDiv maxDiv where
    g: "computeDivergence sample_host ''x'' ''y'' [] 0 = Returned (grid, minDiv, maxDiv) 0"
      "length grid = 101"
      "\<forall>i<101. length (grid ! i) = 101 \<and>
              (\<forall>j<101. \<exists>d. grid ! i ! j = Fin d \<and> \<bar>d - 2\<bar> \<le> 1 / 10 ^ 6 \<and>
                 d = central_difference (\<lambda>x'. x') (grid_x i) + central_difference (\<lambda>y'. y') (grid_y j))"
      "\<forall>f g x y w'. computes f g \<longrightarrow>
              derivative f (Fin x) (Fin y) AxisX (w'::nat) =
                Returned (Fin ((g (x + 1 / 100) y - g (x - 1 / 100) y) / (2 * (1 / 100)))) w' \<and>
              derivative f (Fin x) (Fin y) AxisY w' =
                Returned (Fin ((g x (y + 1 / 100) - g x (y - 1 / 100)) / (2 * (1 / 100)))) w'"
      "\<forall>rnd i j. standard_rounding rnd \<and> i \<le> 100 \<and> j \<le> 100 \<longrightarrow>
              \<bar>fl_radial_sample rnd i j - 2\<bar> \<le> 1 / 10 ^ 6"
    by blast
  from g(3) have "length (grid ! 50) = 101"
    and "\<exists>d. grid ! 50 ! 50 = Fin d \<and> \<bar>d - 2\<bar> \<le> 1 / 10 ^ 6"
    by auto
  with g(1,2) have scan: "\<exists>grid minDiv maxDiv.
     computeDivergence sample_host ''x'' ''y'' [] 0 = Returned (grid, minDiv, maxDiv) 0 \<and>
     length grid = 101 \<and> length (grid ! 50) = 101 \<and>
     (\<exists>d. grid ! 50 ! 50 = Fin d \<and> \<bar>d - 2\<bar> \<le> 1 / 10 ^ 6)"
    by blast
  have c: "computes (\<lambda>x y. js_return x :: (jsnum, nat) js) (\<lambda>x y. x)"
    by (simp add: computes_def)
  from g(4) c have d: "derivative (\<lambda>x y. js_return x) (Fin 1) (Fin 0) AxisX (0::nat) = Returned (Fin 1) 0"
    by simp
  have r: "standard_rounding (\<lambda>x. x)" by (rule exact_is_standard)
  with g(5) have "\<bar>fl_radial_sample (\<lambda>x. x) 50 50 - 2\<bar> \<le> 1 / 10 ^ 6" by simp
  with scan c d r show ?thesis by blast
qed


lemma fieldEffect_Scanned:
  "computeDivergence h fx fy pointSources w = Returned g w' \<Longrightarrow>
   fieldEffect h (Some (Canvas (Some ctx))) fx fy pointSources w = Returned (Scanned g) w'"
  by (simp add: fieldEffect_def try_catch_def js_bind_apply)

lemma computeDivergence_dimensions:
  "\<exists>grid minDiv maxDiv w'.
     computeDivergence h fx fy pointSources w = Returned (grid, minDiv, maxDiv) w' \<and>
     length grid = 101 \<and> (\<forall>row\<in>set grid. length row = 101)"
proof -
  let ?Fx = "Fx (createFieldFunction h fx) pointSources"
  let ?Fy = "Fy (createFieldFunction h fy) pointSources"
  have nt: "never_throws ?Fx" "never_throws ?Fy"
    by (simp_all add: Fx_never_throws Fy_never_throws createFieldFunction_never_throws)
  from divergence_scan_dimensions [OF nt, of w] obtain grid mn mx w' where
    scan: "divergence_scan ?Fx ?Fy w = Returned (grid, mn, mx) w'"
    and dims: "length grid = Suc gridSize" "\<forall>row\<in>set grid. length row = Suc gridSize"
    by blast
  have "computeDivergence h fx fy pointSources w = Returned (grid, mn, mx) w'"
    using scan by (simp add: computeDivergence_def Let_def)
  with dims show ?thesis unfolding gridSize_Suc by blast
qed

lemma field_change_is_dependency_change:
  "view_fx previous \<noteq> view_fx current \<or> view_fy previous \<noteq> view_fy current \<or>
   view_pointSources previous \<noteq> view_pointSources current \<Longrightarrow>
   effect_deps previous \<noteq> effect_deps current"
  by (auto simp: effect_deps_def)

text \<open>
  Claim C4, as the code has it. Both loops run while the index is \<open>\<le> gridSize\<close>, so the grid
  has \<open>101 \<times> 101\<close> samples, not \<open>100 \<times> 100\<close>: for every host, expression pair, source list and
  ambient state the scan returns a grid of \<open>101\<close> rows of \<open>101\<close> entries, and with a canvas and a
  context the effect never abandons it. Without a canvas or without a context the effect
  returns before the scan. After a render in which an expression, the source list or another
  dependency of the effect changed, the grid in use is the one a new run of the effect scans
  from the current expressions and sources, starting from the empty array: it has all its
  \<open>101 \<times> 101\<close> entries from that scan, whatever grid was in use before.
\<close>

theorem divergence_grid_dimensions:
  "(\<exists>grid minDiv maxDiv w'.
      computeDivergence h fx fy pointSources w = Returned (grid, minDiv, maxDiv) w' \<and>
      fieldEffect h (Some (Canvas (Some ctx))) fx fy pointSources w =
        Returned (Scanned (grid, minDiv, maxDiv)) w' \<and>
      length grid = 101 \<and> (\<forall>row\<in>set grid. length row = 101)) \<and>
   fieldEffect h None fx fy pointSources w = Returned NoCanvas w \<and>
   fieldEffect h (Some (Canvas None)) fx fy pointSources w = Returned NoContext w \<and>
   (view_fx previous \<noteq> view_fx current \<or> view_fy previous \<noteq> view_fy current \<or>
    view_pointSources previous \<noteq> view_pointSources current \<or>
    effect_deps previous \<noteq> effect_deps current \<longrightarrow>
      (\<exists>grid minDiv maxDiv w'.
         render h (Some (Canvas (Some ctx))) previous current inUse w =
           Returned (Scanned (grid, minDiv, maxDiv)) w' \<and>
         computeDivergence h (view_fx current) (view_fy current) (view_pointSources current) w =
           Returned (grid, minDiv, maxDiv) w' \<and>
         length grid = 101 \<and> (\<forall>row\<in>set grid. length row = 101)))"
proof (intro conjI impI)
  from computeDivergence_dimensions [of h fx fy pointSources w] obtain grid mn mx w' where
    run: "computeDivergence h fx fy pointSources w = Returned (grid, mn, mx) w'"
    and dims: "length grid = 101" "\<forall>row\<in>set grid. length row = 101"
    by blast
  from run fieldEffect_Scanned [OF run] dims
  show "\<exists>grid minDiv maxDiv w'.
      computeDivergence h fx fy pointSources w = Returned (grid, minDiv, maxDiv) w' \<and>
      fieldEffect h (Some (Canvas (Some ctx))) fx fy pointSources w =
        Returned (Scanned (grid, minDiv, maxDiv)) w' \<and>
      length grid = 101 \<and> (\<forall>row\<in>set grid. length row = 101)"
    by blast
next
  show "fieldEffect h None fx fy pointSources w = Returned NoCanvas w"
    by (simp add: fieldEffect_def)
next
  show "fieldEffect h (Some (Canvas None)) fx fy pointSources w = Returned NoContext w"
    by (simp add: fieldEffect_def)
next
  assume "view_fx previous \<noteq> view_fx current \<or> view_fy previous \<noteq> view_fy current \<or>
    view_pointSources previous \<noteq> view_pointSources current \<or>
    effect_deps previous \<noteq> effect_deps current"
  then have changed: "effect_deps previous \<noteq> effect_deps current"
    using field_change_is_dependency_change [of previous current] by blast
  from computeDivergence_dimensions
    [of h "view_fx current" "view_fy current" "view_pointSources current" w]
  obtain grid mn mx w' where
    run: "computeDivergence h (view_fx current) (view_fy current) (view_pointSources current) w =
      Returned (grid, mn, mx) w'"
    and dims: "length grid = 101" "\<forall>row\<in>set grid. length row = 101"
    by blast
  have "render h (Some (Canvas (Some ctx))) previous current inUse w =
      Returned (Scanned (grid, mn, mx)) w'"
    using changed fieldEffect_Scanned [OF run] by (simp add: render_def)
  with run dims
  show "\<exists>grid minDiv maxDiv w'.
         render h (Some (Canvas (Some ctx))) previous current inUse w =
           Returned (Scanned (grid, minDiv, maxDiv)) w' \<and>
         computeDivergence h (view_fx current) (view_fy current) (view_pointSources current) w =
           Returned (grid, minDiv, maxDiv) w' \<and>
         length grid = 101 \<and> (\<forall>row\<in>set grid. length row = 101)"
    by blast
qed

theorem divergence_grid_dimensions_witness:
  "view_fx \<lparr>view_fx = ''-y'', view_fy = ''x'', view_isAnimating = True,
            view_animationSpeed = Fin 1, view_pointSources = [], view_colorTheme = Viridis,
            view_isPulsingEnabled = True\<rparr> \<noteq>
   view_fx \<lparr>view_fx = ''x'', view_fy = ''y'', view_isAnimating = True,
            view_animationSpeed = Fin 1, view_pointSources = loadPhysicsPreset 0 electricDipole,
            view_colorTheme = Viridis, view_isPulsingEnabled = True\<rparr> \<and>
   (\<exists>grid minDiv maxDiv w'.
      render sample_host (Some (Canvas (Some Context2D)))
        \<lparr>view_fx = ''-y'', view_fy = ''x'', view_isAnimating = True,
          view_animationSpeed = Fin 1, view_pointSources = [], view_colorTheme = Viridis,
          view_isPulsingEnabled = True\<rparr>
        \<lparr>view_fx = ''x'', view_fy = ''y'', view_isAnimating = True,
          view_animationSpeed = Fin 1, view_pointSources = loadPhysicsPreset 0 electricDipole,
          view_colorTheme = Viridis, view_isPulsingEnabled = True\<rparr>
        NoCanvas 0 = Returned (Scanned (grid, minDiv, maxDiv)) w' \<and>
      computeDivergence sample_host ''x'' ''y'' (loadPhysicsPreset 0 electricDipole) 0 =
        Returned (grid, minDiv, maxDiv) w' \<and>
      length grid = 101 \<and> length (hd grid) = 101 \<and> length (last grid) = 101)"
proof -
  let ?previous = "\<lparr>view_fx = ''-y'', view_fy = ''x'', view_isAnimating = True,
            view_animationSpeed = Fin 1, view_pointSources = [], view_colorTheme = Viridis,
            view_isPulsingEnabled = True\<rparr>"
  let ?current = "\<lparr>view_fx = ''x'', view_fy = ''y'', view_isAnimating = True,
            view_animationSpeed = Fin 1, view_pointSources = loadPhysicsPreset 0 electricDipole,
            view_colorTheme = Viridis, view_isPulsingEnabled = True\<rparr>"
  have changed: "view_fx ?previous \<noteq> view_fx ?current" by simp
  from divergence_grid_dimensions [where previous = ?previous and current = ?current
      and h = sample_host and ctx = Context2D and inUse = NoCanvas and w = 0] changed
  obtain grid minDiv maxDiv w' where
    g: "render sample_host (Some (Canvas (Some Context2D))) ?previous ?current NoCanvas 0 =
          Returned (Scanned (grid, minDiv, maxDiv)) w'"
      "computeDivergence sample_host (view_fx ?current) (view_fy ?current)
         (view_pointSources ?current) 0 = Returned (grid, minDiv, maxDiv) w'"
      "length grid = 101" "\<forall>row\<in>set grid. length row = 101"
    by blast
  from g(3) have ne: "grid \<noteq> []" by auto
  with g(4) have "length (hd grid) = 101" "length (last grid) = 101" by simp_all
  with changed g(1) g(2) [simplified] g(3) show ?thesis by blast
qed

text \<open>The claim as stated, \<open>100 \<times> 100\<close> samples, fails for the radial field on the sample
  host: the grid has \<open>101\<close> rows of \<open>101\<close> entries.\<close>

theorem divergence_grid_100_counterexample:
  "\<exists>grid minDiv maxDiv w'.
     computeDivergence sample_host ''x'' ''y'' [] 0 = Returned (grid, minDiv, maxDiv) w' \<and>
     length grid = 101 \<and> length (hd grid) = 101 \<and>
     length grid \<noteq> 100 \<and> length (hd grid) \<noteq> 100"
proof -
  from computeDivergence_dimensions [of sample_host "''x''" "''y''" "[]" 0]
  obtain grid minDiv maxDiv w' where
    g: "computeDivergence sample_host ''x'' ''y'' [] 0 = Returned (grid, minDiv, maxDiv) w'"
      "length grid = 101" "\<forall>row\<in>set grid. length row = 101"
    by blast
  from g(2) have "grid \<noteq> []" by auto
  with g(3) have "length (hd grid) = 101" by simp
  with g(1,2) show ?thesis by auto
qed

lemma constant_field_divergence:
  "spec_divergence (\<lambda>x y. a) (\<lambda>x y. b) x y = 0"
  by (simp add: spec_divergence_def central_difference_def)

lemma constant_closure_computes:
  "(\<And>x y w. f x y w = Returned (Fin a) w) \<Longrightarrow> computes f (\<lambda>x y. a)"
  by (simp add: computes_def)

text \<open>
  Claim C8. When the recorded maximum equals the recorded minimum, every finite sample is
  normalised to \<open>0.5\<close>, and no quotient is formed. Such a grid arises from every constant
  field: each difference is that of a number with itself, so every sample is \<open>0\<close>, the
  recorded minimum and maximum are both \<open>0\<close>, and all samples are normalised to \<open>0.5\<close>.
\<close>

theorem degenerate_range_midpoint:
  "(js_strict_eq maxDiv minDiv \<and> isFinite dv \<longrightarrow> normalized dv minDiv maxDiv = Some (Fin (1 / 2))) \<and>
   ((\<forall>x y w. Fx' x y w = Returned (Fin a) w) \<and> (\<forall>x y w. Fy' x y w = Returned (Fin b) w) \<longrightarrow>
      (\<exists>grid mn mx. divergence_scan Fx' Fy' w = Returned (grid, mn, mx) w \<and>
         mn = Fin 0 \<and> mx = Fin 0 \<and> js_strict_eq mx mn \<and>
         (\<forall>row\<in>set grid. \<forall>dv\<in>set row.
            dv = Fin 0 \<and> normalized dv mn mx = Some (Fin (1 / 2)))))"
proof (intro conjI impI)
  assume "js_strict_eq maxDiv minDiv \<and> isFinite dv"
  then show "normalized dv minDiv maxDiv = Some (Fin (1 / 2))"
    by (simp add: normalized_degenerate)
next
  assume a: "(\<forall>x y w. Fx' x y w = Returned (Fin a) w) \<and> (\<forall>x y w. Fy' x y w = Returned (Fin b) w)"
  then have c: "computes Fx' (\<lambda>x y. a)" "computes Fy' (\<lambda>x y. b)"
    by (simp_all add: computes_def)
  have "divergence_scan Fx' Fy' w =
      Returned (replicate 101 (replicate 101 (Fin 0)), Fin 0, Fin 0) w"
    by (rule divergence_scan_constant [OF c]) (simp add: constant_field_divergence)
  moreover have "\<forall>row\<in>set (replicate 101 (replicate 101 (Fin 0))). \<forall>dv\<in>set row.
      dv = Fin 0 \<and> normalized dv (Fin 0) (Fin 0) = Some (Fin (1 / 2))"
    by (auto simp: normalized_degenerate)
  ultimately show "\<exists>grid mn mx. divergence_scan Fx' Fy' w = Returned (grid, mn, mx) w \<and>
         mn = Fin 0 \<and> mx = Fin 0 \<and> js_strict_eq mx mn \<and>
         (\<forall>row\<in>set grid. \<forall>dv\<in>set row.
            dv = Fin 0 \<and> normalized dv mn mx = Some (Fin (1 / 2)))"
    by simp
qed

lemma sample_constant_fields:
  "Fx (createFieldFunction sample_host ''0'') [] x y (w::nat) = Returned (Fin 0) w"
  "Fy (createFieldFunction sample_host ''1/0'') [] x y (w::nat) = Returned (Fin 0) w"
  by (simp_all add: Fx_no_sources Fy_no_sources createFieldFunction_Inr [OF sample_compile(3)]
      finite_or_zero_simps js_bind_apply)

theorem degenerate_range_midpoint_witness:
  "js_strict_eq (Fin 0) (Fin 0) \<and> isFinite (Fin 0) \<and>
   normalized (Fin 0) (Fin 0) (Fin 0) = Some (Fin (1 / 2)) \<and>
   (\<exists>grid mn mx.
      computeDivergence sample_host ''0'' ''1/0'' [] 0 = Returned (grid, mn, mx) 0 \<and>
      mn = Fin 0 \<and> mx = Fin 0 \<and> grid \<noteq> [] \<and> hd grid \<noteq> [] \<and> hd (hd grid) = Fin 0 \<and>
      normalized (hd (hd grid)) mn mx = Some (Fin (1 / 2)))"
proof -
  let ?Fx = "Fx (createFieldFunction sample_host ''0'') [] :: jsnum \<Rightarrow> jsnum \<Rightarrow> (jsnum, nat) js"
  let ?Fy = "Fy (createFieldFunction sample_host ''1/0'') [] :: jsnum \<Rightarrow> jsnum \<Rightarrow> (jsnum, nat) js"
  note inst = degenerate_range_midpoint [where maxDiv = "Fin 0" and minDiv = "Fin 0" and dv = "Fin 0"
      and Fx' = ?Fx and Fy' = ?Fy and a = 0 and b = 0 and w = 0]
  from inst have n: "normalized (Fin 0) (Fin 0) (Fin 0) = Some (Fin (1 / 2))" by simp
  from inst sample_constant_fields obtain grid mn mx where
    g: "divergence_scan ?Fx ?Fy 0 = Returned (grid, mn, mx) 0"
      "mn = Fin 0" "mx = Fin 0"
      "\<forall>row\<in>set grid. \<forall>dv\<in>set row. dv = Fin 0 \<and> normalized dv mn mx = Some (Fin (1 / 2))"
    by auto
  have nt: "never_throws ?Fx" "never_throws ?Fy"
    by (simp_all add: Fx_never_throws Fy_never_throws createFieldFunction_never_throws)
  from divergence_scan_dimensions [OF nt, of 0] g(1)
  have dims: "length grid = Suc gridSize" "\<forall>row\<in>set grid. length row = Suc gridSize"
    by auto
  from dims(1) have ne: "grid \<noteq> []" by auto
  then have hd1: "hd grid \<in> set grid" by simp
  with dims(2) have ne2: "hd grid \<noteq> []" by auto
  then have "hd (hd grid) \<in> set (hd grid)" by simp
  with g(4) hd1 have cell: "hd (hd grid) = Fin 0"
    "normalized (hd (hd grid)) mn mx = Some (Fin (1 / 2))"
    by blast+
  have run: "computeDivergence sample_host ''0'' ''1/0'' [] 0 = Returned (grid, mn, mx) 0"
    using g(1) by (simp add: computeDivergence_def Let_def)
  from n run g(2,3) ne ne2 cell show ?thesis by simp
qed

section \<open>Properties of the particle update\<close>

subsection \<open>Random coordinates\<close>

lemma random_coordinate_draw:
  assumes "random_in_unit_interval h"
  shows "\<exists>u w'. Math_random h w = (Fin u, w') \<and> 0 \<le> u \<and> u < 1 \<and>
           random_coordinate h (Fin r) w = Returned (Fin ((u * 2 - 1) * r)) w'"
proof -
  from assms obtain u where u: "fst (Math_random h w) = Fin u" "0 \<le> u" "u < 1"
    unfolding random_in_unit_interval_def by blast
  then obtain w' where mr: "Math_random h w = (Fin u, w')"
    by (cases "Math_random h w") simp
  show ?thesis
    by (intro exI [of _ u] exI [of _ w']) (simp add: random_coordinate_def mr u)
qed

lemma random_coordinate_bound:
  assumes "0 \<le> u" "u < 1" "0 \<le> (r::real)"
  shows "- r \<le> (u * 2 - 1) * r" "(u * 2 - 1) * r \<le> r"
proof -
  have lo: "- 1 \<le> u * 2 - 1" and hi: "u * 2 - 1 \<le> 1" using assms by simp_all
  from mult_right_mono [OF lo assms(3)] show "- r \<le> (u * 2 - 1) * r" by simp
  from mult_right_mono [OF hi assms(3)] show "(u * 2 - 1) * r \<le> r" by simp
qed

subsection \<open>One particle of the 2D view\<close>

lemma finite_particleE:
  assumes "finite_particle p"
  obtains x y l where "p = \<lparr>px = Fin x, py = Fin y, life = Fin l\<rparr>"
proof -
  from assms obtain x y l where "px p = Fin x" "py p = Fin y" "life p = Fin l"
    unfolding finite_particle_def by (cases "px p"; cases "py p"; cases "life p") simp_all
  then have "p = \<lparr>px = Fin x, py = Fin y, life = Fin l\<rparr>" by (cases p) simp
  then show ?thesis by (rule that)
qed

lemma isFinite_iff: "isFinite v \<longleftrightarrow> (\<exists>a. v = Fin a)"
  by (cases v) simp_all

lemma moveParticle_result:
  assumes "Fx' (px p) (py p) w = Returned vx w1" "Fy' (px p) (py p) w1 = Returned vy w2"
  shows "moveParticle Fx' Fy' animationSpeed p w =
           Returned ((if isFinite vx \<and> isFinite vy
                      then p\<lparr>px := px p + vx * (Fin 0.016 * animationSpeed),
                             py := py p + vy * (Fin 0.016 * animationSpeed)\<rparr>
                      else p)\<lparr>life := life (if isFinite vx \<and> isFinite vy
                      then p\<lparr>px := px p + vx * (Fin 0.016 * animationSpeed),
                             py := py p + vy * (Fin 0.016 * animationSpeed)\<rparr>
                      else p) - Fin 0.005 * animationSpeed\<rparr>) w2"
  using assms by (simp add: moveParticle_def js_bind_apply Let_def)

lemma moveParticle_finite:
  assumes "never_throws Fx'" "never_throws Fy'" "finite_particle p"
  shows "\<exists>p1 w1. moveParticle Fx' Fy' (Fin s) p w = Returned p1 w1 \<and> finite_particle p1"
proof -
  from assms(1) obtain vx w1 where vx: "Fx' (px p) (py p) w = Returned vx w1"
    unfolding never_throws_def by blast
  from assms(2) obtain vy w2 where vy: "Fy' (px p) (py p) w1 = Returned vy w2"
    unfolding never_throws_def by blast
  from assms(3) obtain x y l where p: "p = \<lparr>px = Fin x, py = Fin y, life = Fin l\<rparr>"
    by (rule finite_particleE)
  show ?thesis
    unfolding moveParticle_result [where Fx' = Fx' and Fy' = Fy', OF vx vy]
    by (auto simp: p finite_particle_def isFinite_iff)
qed

lemma needsRespawn_spec:
  assumes "finite_particle p"
  shows "needsRespawn p \<longleftrightarrow> spec_trigger 3 p"
proof -
  from assms obtain x y l where "p = \<lparr>px = Fin x, py = Fin y, life = Fin l\<rparr>"
    by (rule finite_particleE)
  then show ?thesis
    by (simp add: needsRespawn_def spec_trigger_def js_gt_def range2D_def)
qed

lemma respawnParticle_triggered:
  assumes "random_in_unit_interval h" "needsRespawn p"
  shows "\<exists>u1 w1 u2 w2. Math_random h w = (Fin u1, w1) \<and> Math_random h w1 = (Fin u2, w2) \<and>
           0 \<le> u1 \<and> u1 < 1 \<and> 0 \<le> u2 \<and> u2 < 1 \<and>
           respawnParticle h p w =
             Returned (p\<lparr>px := Fin ((u1 * 2 - 1) * 3), py := Fin ((u2 * 2 - 1) * 3), life := Fin 1\<rparr>) w2"
proof -
  from random_coordinate_draw [OF assms(1), of w 3] obtain u1 w1 where
    u1: "Math_random h w = (Fin u1, w1)" "0 \<le> u1" "u1 < 1"
      "random_coordinate h (Fin 3) w = Returned (Fin ((u1 * 2 - 1) * 3)) w1" by blast
  from random_coordinate_draw [OF assms(1), of w1 3] obtain u2 w2 where
    u2: "Math_random h w1 = (Fin u2, w2)" "0 \<le> u2" "u2 < 1"
      "random_coordinate h (Fin 3) w1 = Returned (Fin ((u2 * 2 - 1) * 3)) w2" by blast
  from assms(2) u1 u2 show ?thesis
    by (simp add: respawnParticle_def range2D_def js_bind_apply)
qed

lemma respawnParticle_untouched:
  "\<not> needsRespawn p \<Longrightarrow> respawnParticle h p w = Returned p w"
  by (simp add: respawnParticle_def)

lemma updateParticle_after_move:
  "moveParticle Fx' Fy' animationSpeed p w = Returned p1 w1 \<Longrightarrow>
   updateParticle h Fx' Fy' animationSpeed p w = respawnParticle h p1 w1"
  by (simp add: updateParticle_def js_bind_apply)

lemma respawnParticle_in_domain:
  assumes "random_in_unit_interval h" "finite_particle p"
  shows "\<exists>p' w'. respawnParticle h p w = Returned p' w' \<and> in_domain 3 p' \<and> finite_particle p'"
proof (cases "needsRespawn p")
  case True
  from respawnParticle_triggered [OF assms(1) True, of w] obtain u1 w1 u2 w2 where
    r: "0 \<le> u1" "u1 < 1" "0 \<le> u2" "u2 < 1"
      "respawnParticle h p w =
         Returned (p\<lparr>px := Fin ((u1 * 2 - 1) * 3), py := Fin ((u2 * 2 - 1) * 3), life := Fin 1\<rparr>) w2"
    by blast
  from random_coordinate_bound [OF r(1,2), of 3] random_coordinate_bound [OF r(3,4), of 3] r(5)
  show ?thesis
    by (simp add: in_domain_def finite_particle_def)
next
  case False
  from assms(2) obtain x y l where p: "p = \<lparr>px = Fin x, py = Fin y, life = Fin l\<rparr>"
    by (rule finite_particleE)
  from False have "\<bar>x\<bar> \<le> 3" "\<bar>y\<bar> \<le> 3"
    by (simp_all add: p needsRespawn_def js_gt_def range2D_def)
  then have "in_domain 3 p" by (simp add: in_domain_def p abs_le_iff)
  with False assms(2) show ?thesis by (simp add: respawnParticle_untouched)
qed

lemma updateParticle_in_domain:
  assumes "random_in_unit_interval h" "never_throws Fx'" "never_throws Fy'" "finite_particle p"
  shows "\<exists>p' w'. updateParticle h Fx' Fy' (Fin s) p w = Returned p' w' \<and>
           in_domain 3 p' \<and> finite_particle p'"
proof -
  from moveParticle_finite [OF assms(2,3,4), of s w] obtain p1 w1 where
    m: "moveParticle Fx' Fy' (Fin s) p w = Returned p1 w1" "finite_particle p1" by blast
  from respawnParticle_in_domain [OF assms(1) m(2), of w1] updateParticle_after_move [OF m(1), of h]
  show ?thesis by simp
qed

subsection \<open>All particles\<close>



lemma for_each_element_all:
  assumes "\<And>x w. P x \<Longrightarrow> \<exists>y w'. f x w = Returned y w' \<and> Q y"
    and "\<forall>x\<in>set xs. P x"
  shows "\<exists>ys w'. for_each_element f xs w = Returned ys w' \<and> (\<forall>y\<in>set ys. Q y)"
  using assms(2)
proof (induction xs arbitrary: w)
  case Nil
  then show ?case by simp
next
  case (Cons a xs)
  then have "P a" by simp
  from assms(1) [OF this, of w] obtain b w1 where b: "f a w = Returned b w1" "Q b" by blast
  from Cons obtain bs w2 where
    "for_each_element f xs w1 = Returned bs w2" "\<forall>y\<in>set bs. Q y" by force
  with b show ?case by (simp add: js_bind_apply)
qed


subsection \<open>One particle of the 3D view\<close>

lemma createFieldFunction3D_never_throws: "never_throws3D (createFieldFunction3D h src)"
  unfolding never_throws3D_def
proof (intro allI)
  fix x y z w
  from createFieldFunction3D_returns [of h src x y z w]
  show "\<exists>v w'. createFieldFunction3D h src x y z w = Returned v w'" by blast
qed

lemma finite_particle3DE:
  assumes "finite_particle3D p"
  obtains x y z l where "position p = \<lparr>v3x = Fin x, v3y = Fin y, v3z = Fin z\<rparr>" "life3D p = Fin l"
proof -
  from assms obtain x y z l where
    "v3x (position p) = Fin x" "v3y (position p) = Fin y" "v3z (position p) = Fin z"
    "life3D p = Fin l"
    unfolding finite_particle3D_def finite_vector_def isFinite_iff by blast
  moreover from this have "position p = \<lparr>v3x = Fin x, v3y = Fin y, v3z = Fin z\<rparr>"
    by (cases "position p") simp
  ultimately show ?thesis by (rule_tac that)
qed

lemma moveParticle3D_result:
  assumes "Fx' (v3x (position p)) (v3y (position p)) (v3z (position p)) w = Returned vx w1"
    and "Fy' (v3x (position p)) (v3y (position p)) (v3z (position p)) w1 = Returned vy w2"
    and "Fz' (v3x (position p)) (v3y (position p)) (v3z (position p)) w2 = Returned vz w3"
  shows "moveParticle3D Fx' Fy' Fz' delta speed p w =
           Returned
             (if isFinite vx \<and> isFinite vy \<and> isFinite vz
              then p\<lparr>position :=
                       \<lparr>v3x = v3x (position p) + vx * delta * speed,
                        v3y = v3y (position p) + vy * delta * speed,
                        v3z = v3z (position p) + vz * delta * speed\<rparr>,
                     life3D := life3D p - delta * Fin 0.3 * speed\<rparr>
              else p\<lparr>life3D := life3D p - delta * Fin 0.3 * speed\<rparr>) w3"
  using assms by (simp add: moveParticle3D_def js_bind_apply Let_def)

lemma moveParticle3D_finite:
  assumes "never_throws3D Fx'" "never_throws3D Fy'" "never_throws3D Fz'" "finite_particle3D p"
  shows "\<exists>p1 w1. moveParticle3D Fx' Fy' Fz' (Fin d) (Fin s) p w = Returned p1 w1 \<and>
           finite_particle3D p1 \<and> velocity p1 = velocity p"
proof -
  let ?x = "v3x (position p)" and ?y = "v3y (position p)" and ?z = "v3z (position p)"
  from assms(1) obtain vx w1 where vx: "Fx' ?x ?y ?z w = Returned vx w1"
    unfolding never_throws3D_def by blast
  from assms(2) obtain vy w2 where vy: "Fy' ?x ?y ?z w1 = Returned vy w2"
    unfolding never_throws3D_def by blast
  from assms(3) obtain vz w3 where vz: "Fz' ?x ?y ?z w2 = Returned vz w3"
    unfolding never_throws3D_def by blast
  from assms(4) obtain x y z l where
    p: "position p = \<lparr>v3x = Fin x, v3y = Fin y, v3z = Fin z\<rparr>" "life3D p = Fin l"
    by (rule finite_particle3DE)
  show ?thesis
    unfolding moveParticle3D_result [where Fx' = Fx' and Fy' = Fy' and Fz' = Fz', OF vx vy vz]
    by (auto simp: p finite_particle3D_def finite_vector_def isFinite_iff)
qed

lemma needsRespawn3D_spec:
  assumes "finite_particle3D p"
  shows "needsRespawn3D (Fin r) p \<longleftrightarrow> spec_trigger3D r p"
proof -
  from assms obtain x y z l where
    "position p = \<lparr>v3x = Fin x, v3y = Fin y, v3z = Fin z\<rparr>" "life3D p = Fin l"
    by (rule finite_particle3DE)
  then show ?thesis
    by (simp add: needsRespawn3D_def spec_trigger3D_def js_gt_def)
qed

lemma respawnParticle3D_triggered:
  assumes "random_in_unit_interval h" "needsRespawn3D (Fin r) p"
  shows "\<exists>u1 w1 u2 w2 u3 w3.
           Math_random h w = (Fin u1, w1) \<and> Math_random h w1 = (Fin u2, w2) \<and>
           Math_random h w2 = (Fin u3, w3) \<and>
           0 \<le> u1 \<and> u1 < 1 \<and> 0 \<le> u2 \<and> u2 < 1 \<and> 0 \<le> u3 \<and> u3 < 1 \<and>
           respawnParticle3D h (Fin r) p w =
             Returned (p\<lparr>position := \<lparr>v3x = Fin ((u1 * 2 - 1) * r), v3y = Fin ((u2 * 2 - 1) * r),
                                       v3z = Fin ((u3 * 2 - 1) * r)\<rparr>,
                         life3D := Fin 1\<rparr>) w3"
proof -
  from random_coordinate_draw [OF assms(1), of w r] obtain u1 w1 where
    u1: "Math_random h w = (Fin u1, w1)" "0 \<le> u1" "u1 < 1"
      "random_coordinate h (Fin r) w = Returned (Fin ((u1 * 2 - 1) * r)) w1" by blast
  from random_coordinate_draw [OF assms(1), of w1 r] obtain u2 w2 where
    u2: "Math_random h w1 = (Fin u2, w2)" "0 \<le> u2" "u2 < 1"
      "random_coordinate h (Fin r) w1 = Returned (Fin ((u2 * 2 - 1) * r)) w2" by blast
  from random_coordinate_draw [OF assms(1), of w2 r] obtain u3 w3 where
    u3: "Math_random h w2 = (Fin u3, w3)" "0 \<le> u3" "u3 < 1"
      "random_coordinate h (Fin r) w2 = Returned (Fin ((u3 * 2 - 1) * r)) w3" by blast
  from assms(2) u1 u2 u3 show ?thesis
    by (simp add: respawnParticle3D_def js_bind_apply)
qed

lemma respawnParticle3D_untouched:
  "\<not> needsRespawn3D domainRange p \<Longrightarrow> respawnParticle3D h domainRange p w = Returned p w"
  by (simp add: respawnParticle3D_def)

lemma updateParticle3D_after_move:
  "moveParticle3D Fx' Fy' Fz' delta speed p w = Returned p1 w1 \<Longrightarrow>
   updateParticle3D h Fx' Fy' Fz' domainRange delta speed p w = respawnParticle3D h domainRange p1 w1"
  by (simp add: updateParticle3D_def js_bind_apply)

lemma respawnParticle3D_in_domain:
  assumes "random_in_unit_interval h" "finite_particle3D p" "0 \<le> r"
  shows "\<exists>p' w'. respawnParticle3D h (Fin r) p w = Returned p' w' \<and> in_domain3D r p' \<and>
           finite_particle3D p' \<and> velocity p' = velocity p"
proof (cases "needsRespawn3D (Fin r) p")
  case True
  from respawnParticle3D_triggered [OF assms(1) True, of w] obtain u1 u2 u3 w3 where
    u: "0 \<le> u1" "u1 < 1" "0 \<le> u2" "u2 < 1" "0 \<le> u3" "u3 < 1"
      "respawnParticle3D h (Fin r) p w =
             Returned (p\<lparr>position := \<lparr>v3x = Fin ((u1 * 2 - 1) * r), v3y = Fin ((u2 * 2 - 1) * r),
                                       v3z = Fin ((u3 * 2 - 1) * r)\<rparr>,
                         life3D := Fin 1\<rparr>) w3"
    by blast
  from random_coordinate_bound [OF u(1,2) assms(3)] random_coordinate_bound [OF u(3,4) assms(3)]
    random_coordinate_bound [OF u(5,6) assms(3)] u(7)
  show ?thesis
    by (simp add: in_domain3D_def finite_particle3D_def finite_vector_def)
next
  case False
  from assms(2) obtain x y z l where
    p: "position p = \<lparr>v3x = Fin x, v3y = Fin y, v3z = Fin z\<rparr>" "life3D p = Fin l"
    by (rule finite_particle3DE)
  from False have "\<bar>x\<bar> \<le> r" "\<bar>y\<bar> \<le> r" "\<bar>z\<bar> \<le> r"
    by (simp_all add: p needsRespawn3D_def js_gt_def)
  then have "in_domain3D r p" by (simp add: in_domain3D_def p abs_le_iff)
  with False assms(2) show ?thesis by (simp add: respawnParticle3D_untouched)
qed

lemma updateParticle3D_in_domain:
  assumes "random_in_unit_interval h" "never_throws3D Fx'" "never_throws3D Fy'" "never_throws3D Fz'"
    "finite_particle3D p" "0 \<le> r"
  shows "\<exists>p' w'. updateParticle3D h Fx' Fy' Fz' (Fin r) (Fin d) (Fin s) p w = Returned p' w' \<and>
           in_domain3D r p' \<and> finite_particle3D p' \<and> velocity p' = velocity p"
proof -
  from moveParticle3D_finite [OF assms(2,3,4,5), of d s w] obtain p1 w1 where
    m: "moveParticle3D Fx' Fy' Fz' (Fin d) (Fin s) p w = Returned p1 w1" "finite_particle3D p1"
      "velocity p1 = velocity p"
    by blast
  from respawnParticle3D_in_domain [OF assms(1) m(2) assms(6), of w1]
    updateParticle3D_after_move [OF m(1), of h "Fin r"] m(3)
  show ?thesis by auto
qed


subsection \<open>The respawn rule\<close>

lemma updateParticle_respawn_rule:
  assumes "random_in_unit_interval h" "never_throws Fx'" "never_throws Fy'" "finite_particle p"
  shows "\<exists>p1 w1. moveParticle Fx' Fy' (Fin s) p w = Returned p1 w1 \<and> finite_particle p1 \<and>
           (spec_trigger 3 p1 \<longrightarrow>
              (\<exists>u1 w2 u2 w3. Math_random h w1 = (Fin u1, w2) \<and> Math_random h w2 = (Fin u2, w3) \<and>
                 updateParticle h Fx' Fy' (Fin s) p w =
                   Returned \<lparr>px = Fin ((u1 * 2 - 1) * 3), py = Fin ((u2 * 2 - 1) * 3), life = Fin 1\<rparr> w3)) \<and>
           (\<not> spec_trigger 3 p1 \<longrightarrow> updateParticle h Fx' Fy' (Fin s) p w = Returned p1 w1)"
proof -
  from moveParticle_finite [OF assms(2,3,4), of s w] obtain p1 w1 where
    m: "moveParticle Fx' Fy' (Fin s) p w = Returned p1 w1" "finite_particle p1" by blast
  note upd = updateParticle_after_move [OF m(1), of h]
  have yes: "\<exists>u1 w2 u2 w3. Math_random h w1 = (Fin u1, w2) \<and> Math_random h w2 = (Fin u2, w3) \<and>
                 updateParticle h Fx' Fy' (Fin s) p w =
                   Returned \<lparr>px = Fin ((u1 * 2 - 1) * 3), py = Fin ((u2 * 2 - 1) * 3), life = Fin 1\<rparr> w3"
    if "spec_trigger 3 p1"
  proof -
    from that have "needsRespawn p1" by (simp add: needsRespawn_spec [OF m(2)])
    from respawnParticle_triggered [OF assms(1) this, of w1] obtain u1 w2 u2 w3 where
      "Math_random h w1 = (Fin u1, w2)" "Math_random h w2 = (Fin u2, w3)"
      "respawnParticle h p1 w1 =
         Returned (p1\<lparr>px := Fin ((u1 * 2 - 1) * 3), py := Fin ((u2 * 2 - 1) * 3), life := Fin 1\<rparr>) w3"
      by blast
    then show ?thesis unfolding upd by (cases p1) auto
  qed
  have no: "updateParticle h Fx' Fy' (Fin s) p w = Returned p1 w1" if "\<not> spec_trigger 3 p1"
    using that unfolding upd by (simp add: needsRespawn_spec [OF m(2)] respawnParticle_untouched)
  from m yes no show ?thesis by blast
qed

lemma updateParticle3D_respawn_rule:
  assumes "random_in_unit_interval h" "never_throws3D Fx'" "never_throws3D Fy'" "never_throws3D Fz'"
    "finite_particle3D p"
  shows "\<exists>p1 w1. moveParticle3D Fx' Fy' Fz' (Fin d) (Fin s) p w = Returned p1 w1 \<and>
           finite_particle3D p1 \<and>
           (spec_trigger3D r p1 \<longrightarrow>
              (\<exists>u1 w2 u2 w3 u3 w4.
                 Math_random h w1 = (Fin u1, w2) \<and> Math_random h w2 = (Fin u2, w3) \<and>
                 Math_random h w3 = (Fin u3, w4) \<and>
                 updateParticle3D h Fx' Fy' Fz' (Fin r) (Fin d) (Fin s) p w =
                   Returned \<lparr>position = \<lparr>v3x = Fin ((u1 * 2 - 1) * r), v3y = Fin ((u2 * 2 - 1) * r),
                                          v3z = Fin ((u3 * 2 - 1) * r)\<rparr>,
                             velocity = velocity p, life3D = Fin 1\<rparr> w4)) \<and>
           (\<not> spec_trigger3D r p1 \<longrightarrow>
              updateParticle3D h Fx' Fy' Fz' (Fin r) (Fin d) (Fin s) p w = Returned p1 w1)"
proof -
  from moveParticle3D_finite [OF assms(2,3,4,5), of d s w] obtain p1 w1 where
    m: "moveParticle3D Fx' Fy' Fz' (Fin d) (Fin s) p w = Returned p1 w1" "finite_particle3D p1"
      "velocity p1 = velocity p"
    by blast
  note upd = updateParticle3D_after_move [OF m(1), of h "Fin r"]
  have yes: "\<exists>u1 w2 u2 w3 u3 w4.
                 Math_random h w1 = (Fin u1, w2) \<and> Math_random h w2 = (Fin u2, w3) \<and>
                 Math_random h w3 = (Fin u3, w4) \<and>
                 updateParticle3D h Fx' Fy' Fz' (Fin r) (Fin d) (Fin s) p w =
                   Returned \<lparr>position = \<lparr>v3x = Fin ((u1 * 2 - 1) * r), v3y = Fin ((u2 * 2 - 1) * r),
                                          v3z = Fin ((u3 * 2 - 1) * r)\<rparr>,
                             velocity = velocity p, life3D = Fin 1\<rparr> w4"
    if "spec_trigger3D r p1"
  proof -
    from that have "needsRespawn3D (Fin r) p1" by (simp add: needsRespawn3D_spec [OF m(2)])
    from respawnParticle3D_triggered [OF assms(1) this, of w1] obtain u1 w2 u2 w3 u3 w4 where
      "Math_random h w1 = (Fin u1, w2)" "Math_random h w2 = (Fin u2, w3)"
      "Math_random h w3 = (Fin u3, w4)"
      "respawnParticle3D h (Fin r) p1 w1 =
             Returned (p1\<lparr>position := \<lparr>v3x = Fin ((u1 * 2 - 1) * r), v3y = Fin ((u2 * 2 - 1) * r),
                                       v3z = Fin ((u3 * 2 - 1) * r)\<rparr>,
                         life3D := Fin 1\<rparr>) w4"
      by blast
    with m(3) show ?thesis unfolding upd by (cases p1) auto
  qed
  have no: "updateParticle3D h Fx' Fy' Fz' (Fin r) (Fin d) (Fin s) p w = Returned p1 w1"
    if "\<not> spec_trigger3D r p1"
    using that unfolding upd
    by (simp add: needsRespawn3D_spec [OF m(2)] respawnParticle3D_untouched)
  from m yes no show ?thesis by blast
qed

lemma animate_in_domain:
  assumes "random_in_unit_interval h" "\<forall>p\<in>set particles. finite_particle p"
  shows "\<exists>ps' w'. animate h fx fy pointSources True (Fin s) particles w = Returned ps' w' \<and>
           (\<forall>p'\<in>set ps'. in_domain 3 p' \<and> finite_particle p')"
proof -
  let ?Fx = "Fx (createFieldFunction h fx) pointSources"
  let ?Fy = "Fy (createFieldFunction h fy) pointSources"
  have nt: "never_throws ?Fx" "never_throws ?Fy"
    by (simp_all add: Fx_never_throws Fy_never_throws createFieldFunction_never_throws)
  have "\<exists>ys w'. for_each_element (updateParticle h ?Fx ?Fy (Fin s)) particles w = Returned ys w' \<and>
          (\<forall>y\<in>set ys. in_domain 3 y \<and> finite_particle y)"
    by (rule for_each_element_all [where P = finite_particle, OF _ assms(2)])
       (rule updateParticle_in_domain [OF assms(1) nt])
  then show ?thesis by (simp add: animate_def animateParticles_def)
qed

lemma useFrame_in_domain:
  assumes "random_in_unit_interval h" "\<forall>p\<in>set particles. finite_particle3D p" "0 \<le> r"
  shows "\<exists>ps' w'. useFrame h fx fy fz (Fin r) True True (Fin s) (Fin d) particles w = Returned ps' w' \<and>
           (\<forall>p'\<in>set ps'. in_domain3D r p' \<and> finite_particle3D p')"
proof -
  have "\<exists>ys w'. for_each_element
            (updateParticle3D h (createFieldFunction3D h fx) (createFieldFunction3D h fy)
               (createFieldFunction3D h fz) (Fin r) (Fin d) (Fin s)) particles w = Returned ys w' \<and>
          (\<forall>y\<in>set ys. in_domain3D r y \<and> finite_particle3D y)"
  proof (rule for_each_element_all [where P = finite_particle3D, OF _ assms(2)])
    fix x w
    assume "finite_particle3D x"
    have nt: "never_throws3D (createFieldFunction3D h fx)"
      "never_throws3D (createFieldFunction3D h fy)" "never_throws3D (createFieldFunction3D h fz)"
      by (rule createFieldFunction3D_never_throws)+
    from updateParticle3D_in_domain [OF assms(1) nt \<open>finite_particle3D x\<close> assms(3),
        where d = d and s = s and w = w]
    show "\<exists>y w'. updateParticle3D h (createFieldFunction3D h fx) (createFieldFunction3D h fy)
               (createFieldFunction3D h fz) (Fin r) (Fin d) (Fin s) x w = Returned y w' \<and>
             in_domain3D r y \<and> finite_particle3D y"
      by blast
  qed
  then show ?thesis by (simp add: useFrame_def)
qed


text \<open>
  Claim C3. With \<open>Math.random\<close> drawing from \<open>[0, 1)\<close>, closures that do not throw, finite
  speed and frame time, and a particle whose fields are finite: after the advance and the
  decay, the particle is respawned exactly when its life is at most \<open>0\<close> or the absolute
  value of a coordinate exceeds the domain range; a respawn sets each coordinate to
  \<open>(u * 2 - 1) * range\<close> for a fresh draw \<open>u\<close> and the life to \<open>1\<close>; otherwise the particle is
  left as the advance and the decay made it; and either way the particle then lies within
  \<open>[-range, range]\<close> on each axis. So after a tick every particle of the ensemble lies within
  the domain. The 2D view has range \<open>3\<close>; the 3D view takes a range \<open>r \<ge> 0\<close>.
\<close>

theorem respawn_rule:
  "(random_in_unit_interval h \<and> never_throws Fx' \<and> never_throws Fy' \<and> finite_particle p \<longrightarrow>
      (\<exists>p1 w1. moveParticle Fx' Fy' (Fin s) p w = Returned p1 w1 \<and> finite_particle p1 \<and>
         (spec_trigger 3 p1 \<longrightarrow>
            (\<exists>u1 w2 u2 w3. Math_random h w1 = (Fin u1, w2) \<and> Math_random h w2 = (Fin u2, w3) \<and>
               updateParticle h Fx' Fy' (Fin s) p w =
                 Returned \<lparr>px = Fin ((u1 * 2 - 1) * 3), py = Fin ((u2 * 2 - 1) * 3), life = Fin 1\<rparr> w3)) \<and>
         (\<not> spec_trigger 3 p1 \<longrightarrow> updateParticle h Fx' Fy' (Fin s) p w = Returned p1 w1)) \<and>
      (\<exists>p' w'. updateParticle h Fx' Fy' (Fin s) p w = Returned p' w' \<and> in_domain 3 p')) \<and>
   (random_in_unit_interval h \<and> (\<forall>p\<in>set particles. finite_particle p) \<longrightarrow>
      (\<exists>ps' w'. animate h fx fy pointSources True (Fin s) particles w = Returned ps' w' \<and>
         (\<forall>p'\<in>set ps'. in_domain 3 p'))) \<and>
   (random_in_unit_interval h \<and> never_throws3D Fx3 \<and> never_throws3D Fy3 \<and> never_throws3D Fz3 \<and>
    finite_particle3D q \<and> 0 \<le> r \<longrightarrow>
      (\<exists>q1 w1. moveParticle3D Fx3 Fy3 Fz3 (Fin d) (Fin s) q w = Returned q1 w1 \<and>
         finite_particle3D q1 \<and>
         (spec_trigger3D r q1 \<longrightarrow>
            (\<exists>u1 w2 u2 w3 u3 w4.
               Math_random h w1 = (Fin u1, w2) \<and> Math_random h w2 = (Fin u2, w3) \<and>
               Math_random h w3 = (Fin u3, w4) \<and>
               updateParticle3D h Fx3 Fy3 Fz3 (Fin r) (Fin d) (Fin s) q w =
                 Returned \<lparr>position = \<lparr>v3x = Fin ((u1 * 2 - 1) * r), v3y = Fin ((u2 * 2 - 1) * r),
                                        v3z = Fin ((u3 * 2 - 1) * r)\<rparr>,
                           velocity = velocity q, life3D = Fin 1\<rparr> w4)) \<and>
         (\<not> spec_trigger3D r q1 \<longrightarrow>
            updateParticle3D h Fx3 Fy3 Fz3 (Fin r) (Fin d) (Fin s) q w = Returned q1 w1)) \<and>
      (\<exists>q' w'. updateParticle3D h Fx3 Fy3 Fz3 (Fin r) (Fin d) (Fin s) q w = Returned q' w' \<and>
         in_domain3D r q')) \<and>
   (random_in_unit_interval h \<and> (\<forall>q\<in>set particles3D. finite_particle3D q) \<and> 0 \<le> r \<longrightarrow>
      (\<exists>qs' w'. useFrame h fx fy fz (Fin r) True True (Fin s) (Fin d) particles3D w = Returned qs' w' \<and>
         (\<forall>q'\<in>set qs'. in_domain3D r q')))"
proof (intro conjI impI)
  assume a: "random_in_unit_interval h \<and> never_throws Fx' \<and> never_throws Fy' \<and> finite_particle p"
  then show "\<exists>p1 w1. moveParticle Fx' Fy' (Fin s) p w = Returned p1 w1 \<and> finite_particle p1 \<and>
         (spec_trigger 3 p1 \<longrightarrow>
            (\<exists>u1 w2 u2 w3. Math_random h w1 = (Fin u1, w2) \<and> Math_random h w2 = (Fin u2, w3) \<and>
               updateParticle h Fx' Fy' (Fin s) p w =
                 Returned \<lparr>px = Fin ((u1 * 2 - 1) * 3), py = Fin ((u2 * 2 - 1) * 3), life = Fin 1\<rparr> w3)) \<and>
         (\<not> spec_trigger 3 p1 \<longrightarrow> updateParticle h Fx' Fy' (Fin s) p w = Returned p1 w1)"
    by (intro updateParticle_respawn_rule) simp_all
  from a updateParticle_in_domain [of h Fx' Fy' p s w]
  show "\<exists>p' w'. updateParticle h Fx' Fy' (Fin s) p w = Returned p' w' \<and> in_domain 3 p'"
    by blast
next
  assume "random_in_unit_interval h \<and> (\<forall>p\<in>set particles. finite_particle p)"
  with animate_in_domain [of h particles fx fy pointSources s w]
  show "\<exists>ps' w'. animate h fx fy pointSources True (Fin s) particles w = Returned ps' w' \<and>
         (\<forall>p'\<in>set ps'. in_domain 3 p')"
    by blast
next
  assume a: "random_in_unit_interval h \<and> never_throws3D Fx3 \<and> never_throws3D Fy3 \<and>
    never_throws3D Fz3 \<and> finite_particle3D q \<and> 0 \<le> r"
  then show "\<exists>q1 w1. moveParticle3D Fx3 Fy3 Fz3 (Fin d) (Fin s) q w = Returned q1 w1 \<and>
         finite_particle3D q1 \<and>
         (spec_trigger3D r q1 \<longrightarrow>
            (\<exists>u1 w2 u2 w3 u3 w4.
               Math_random h w1 = (Fin u1, w2) \<and> Math_random h w2 = (Fin u2, w3) \<and>
               Math_random h w3 = (Fin u3, w4) \<and>
               updateParticle3D h Fx3 Fy3 Fz3 (Fin r) (Fin d) (Fin s) q w =
                 Returned \<lparr>position = \<lparr>v3x = Fin ((u1 * 2 - 1) * r), v3y = Fin ((u2 * 2 - 1) * r),
                                        v3z = Fin ((u3 * 2 - 1) * r)\<rparr>,
                           velocity = velocity q, life3D = Fin 1\<rparr> w4)) \<and>
         (\<not> spec_trigger3D r q1 \<longrightarrow>
            updateParticle3D h Fx3 Fy3 Fz3 (Fin r) (Fin d) (Fin s) q w = Returned q1 w1)"
    by (intro updateParticle3D_respawn_rule) simp_all
  from a updateParticle3D_in_domain [of h Fx3 Fy3 Fz3 q r d s w]
  show "\<exists>q' w'. updateParticle3D h Fx3 Fy3 Fz3 (Fin r) (Fin d) (Fin s) q w = Returned q' w' \<and>
         in_domain3D r q'"
    by blast
next
  assume "random_in_unit_interval h \<and> (\<forall>q\<in>set particles3D. finite_particle3D q) \<and> 0 \<le> r"
  with useFrame_in_domain [of h particles3D r fx fy fz s d w]
  show "\<exists>qs' w'. useFrame h fx fy fz (Fin r) True True (Fin s) (Fin d) particles3D w = Returned qs' w' \<and>
         (\<forall>q'\<in>set qs'. in_domain3D r q')"
    by blast
qed


lemma sample_random [simp]: "Math_random sample_host w = (Fin (1 / 4), w)"
  by (simp add: sample_host_def)

lemma sample_random_ok: "random_in_unit_interval sample_host"
  unfolding random_in_unit_interval_def
  by (intro allI exI [of _ "1 / 4"]) simp

lemma sample_fields3D [simp]:
  "createFieldFunction3D sample_host ''x'' x y z w = Returned (finite_or_zero (JSNumber x)) w"
  "createFieldFunction3D sample_host ''y'' x y z w = Returned (finite_or_zero (JSNumber y)) w"
  "createFieldFunction3D sample_host ''0'' x y z w = Returned (Fin 0) w"
  by (simp_all add: createFieldFunction3D_Inr [OF sample_compile(5)]
      createFieldFunction3D_Inr [OF sample_compile(6)]
      createFieldFunction3D_Inr [OF sample_compile(7)] finite_or_zero_simps)

theorem respawn_rule_witness:
  "random_in_unit_interval sample_host \<and>
   finite_particle \<lparr>px = Fin (299 / 100), py = Fin 0, life = Fin (1 / 2)\<rparr> \<and>
   spec_trigger 3 \<lparr>px = Fin (299 / 100 + 299 / 100 * (2 / 125)), py = Fin 0, life = Fin (99 / 200)\<rparr> \<and>
   updateParticle sample_host (Fx (createFieldFunction sample_host ''x'') [])
     (Fy (createFieldFunction sample_host ''y'') []) (Fin 1)
     \<lparr>px = Fin (299 / 100), py = Fin 0, life = Fin (1 / 2)\<rparr> 0 =
     Returned \<lparr>px = Fin (- 3 / 2), py = Fin (- 3 / 2), life = Fin 1\<rparr> 0 \<and>
   in_domain 3 \<lparr>px = Fin (- 3 / 2), py = Fin (- 3 / 2), life = Fin 1\<rparr> \<and>
   animate sample_host ''x'' ''y'' [] True (Fin 1)
     [\<lparr>px = Fin (299 / 100), py = Fin 0, life = Fin (1 / 2)\<rparr>] 0 =
     Returned [\<lparr>px = Fin (- 3 / 2), py = Fin (- 3 / 2), life = Fin 1\<rparr>] 0 \<and>
   finite_particle3D
     \<lparr>position = \<lparr>v3x = Fin (199 / 100), v3y = Fin 0, v3z = Fin 0\<rparr>,
      velocity = \<lparr>v3x = Fin 0, v3y = Fin 0, v3z = Fin 0\<rparr>, life3D = Fin (1 / 2)\<rparr> \<and>
   useFrame sample_host ''x'' ''y'' ''0'' (Fin 2) True True (Fin 1) (Fin (2 / 125))
     [\<lparr>position = \<lparr>v3x = Fin (199 / 100), v3y = Fin 0, v3z = Fin 0\<rparr>,
       velocity = \<lparr>v3x = Fin 0, v3y = Fin 0, v3z = Fin 0\<rparr>, life3D = Fin (1 / 2)\<rparr>] 0 =
     Returned [\<lparr>position = \<lparr>v3x = Fin (- 1), v3y = Fin (- 1), v3z = Fin (- 1)\<rparr>,
                velocity = \<lparr>v3x = Fin 0, v3y = Fin 0, v3z = Fin 0\<rparr>, life3D = Fin 1\<rparr>] 0 \<and>
   in_domain3D 2 \<lparr>position = \<lparr>v3x = Fin (- 1), v3y = Fin (- 1), v3z = Fin (- 1)\<rparr>,
                velocity = \<lparr>v3x = Fin 0, v3y = Fin 0, v3z = Fin 0\<rparr>, life3D = Fin 1\<rparr>"
proof -
  let ?Fx = "Fx (createFieldFunction sample_host ''x'') [] :: jsnum \<Rightarrow> jsnum \<Rightarrow> (jsnum, nat) js"
  let ?Fy = "Fy (createFieldFunction sample_host ''y'') [] :: jsnum \<Rightarrow> jsnum \<Rightarrow> (jsnum, nat) js"
  let ?p = "\<lparr>px = Fin (299 / 100), py = Fin 0, life = Fin (1 / 2)\<rparr>"
  let ?p1 = "\<lparr>px = Fin (299 / 100 + 299 / 100 * (2 / 125)), py = Fin 0, life = Fin (99 / 200)\<rparr>"
  let ?p' = "\<lparr>px = Fin (- 3 / 2), py = Fin (- 3 / 2), life = Fin 1\<rparr>"
  let ?F3x = "createFieldFunction3D sample_host ''x''"
  let ?F3y = "createFieldFunction3D sample_host ''y''"
  let ?F3z = "createFieldFunction3D sample_host ''0''"
  let ?q = "\<lparr>position = \<lparr>v3x = Fin (199 / 100), v3y = Fin 0, v3z = Fin 0\<rparr>,
      velocity = \<lparr>v3x = Fin 0, v3y = Fin 0, v3z = Fin 0\<rparr>, life3D = Fin (1 / 2)\<rparr>"
  let ?q1 = "\<lparr>position = \<lparr>v3x = Fin (199 / 100 + 199 / 100 * (2 / 125)), v3y = Fin 0, v3z = Fin 0\<rparr>,
      velocity = \<lparr>v3x = Fin 0, v3y = Fin 0, v3z = Fin 0\<rparr>, life3D = Fin (1 / 2 - 2 / 125 * (3 / 10))\<rparr>"
  let ?q' = "\<lparr>position = \<lparr>v3x = Fin (- 1), v3y = Fin (- 1), v3z = Fin (- 1)\<rparr>,
                velocity = \<lparr>v3x = Fin 0, v3y = Fin 0, v3z = Fin 0\<rparr>, life3D = Fin 1\<rparr>"
  note inst = respawn_rule [of sample_host ?Fx ?Fy ?p 1 0 "[?p]" "''x''" "''y''" "[]"
      ?F3x ?F3y ?F3z ?q 2 "2 / 125" "[?q]" "''0''"]
  have nt: "never_throws ?Fx" "never_throws ?Fy"
    by (simp_all add: Fx_never_throws Fy_never_throws createFieldFunction_never_throws)
  have nt3: "never_throws3D ?F3x" "never_throws3D ?F3y" "never_throws3D ?F3z"
    by (rule createFieldFunction3D_never_throws)+
  have fp: "finite_particle ?p" by (simp add: finite_particle_def)
  have fq: "finite_particle3D ?q" by (simp add: finite_particle3D_def finite_vector_def)
  have vx: "?Fx (px ?p) (py ?p) 0 = Returned (Fin (299 / 100)) 0"
    and vy: "?Fy (px ?p) (py ?p) 0 = Returned (Fin 0) 0"
    by (simp_all add: Fx_no_sources Fy_no_sources finite_or_zero_simps)
  have mv: "moveParticle ?Fx ?Fy (Fin 1) ?p 0 = Returned ?p1 0"
    unfolding moveParticle_result [where Fx' = ?Fx and Fy' = ?Fy, OF vx vy] by simp
  have tr: "spec_trigger 3 ?p1" by (simp add: spec_trigger_def)
  from inst sample_random_ok nt fp mv tr
  have "\<exists>u1 w2 u2 w3. Math_random sample_host 0 = (Fin u1, w2) \<and>
          Math_random sample_host w2 = (Fin u2, w3) \<and>
          updateParticle sample_host ?Fx ?Fy (Fin 1) ?p 0 =
            Returned \<lparr>px = Fin ((u1 * 2 - 1) * 3), py = Fin ((u2 * 2 - 1) * 3), life = Fin 1\<rparr> w3"
    by simp
  then have upd: "updateParticle sample_host ?Fx ?Fy (Fin 1) ?p 0 = Returned ?p' 0"
    by auto
  have dom: "in_domain 3 ?p'"
    using inst sample_random_ok nt fp upd by simp
  have ani: "animate sample_host ''x'' ''y'' [] True (Fin 1) [?p] 0 = Returned [?p'] 0"
    by (simp add: animate_def animateParticles_def js_bind_apply upd)
  have mv3: "moveParticle3D ?F3x ?F3y ?F3z (Fin (2 / 125)) (Fin 1) ?q 0 = Returned ?q1 0"
    by (subst moveParticle3D_result [where vx = "Fin (199 / 100)" and vy = "Fin 0" and vz = "Fin 0"
          and ?w1.0 = 0 and ?w2.0 = 0 and ?w3.0 = 0])
       (simp_all add: finite_or_zero_simps)
  have tr3: "spec_trigger3D 2 ?q1" by (simp add: spec_trigger3D_def)
  from inst sample_random_ok nt3 fq mv3 tr3
  have "\<exists>u1 w2 u2 w3 u3 w4.
          Math_random sample_host 0 = (Fin u1, w2) \<and> Math_random sample_host w2 = (Fin u2, w3) \<and>
          Math_random sample_host w3 = (Fin u3, w4) \<and>
          updateParticle3D sample_host ?F3x ?F3y ?F3z (Fin 2) (Fin (2 / 125)) (Fin 1) ?q 0 =
            Returned \<lparr>position = \<lparr>v3x = Fin ((u1 * 2 - 1) * 2), v3y = Fin ((u2 * 2 - 1) * 2),
                                   v3z = Fin ((u3 * 2 - 1) * 2)\<rparr>,
                      velocity = velocity ?q, life3D = Fin 1\<rparr> w4"
    by simp
  then have upd3: "updateParticle3D sample_host ?F3x ?F3y ?F3z (Fin 2) (Fin (2 / 125)) (Fin 1) ?q 0 =
      Returned ?q' 0"
    by auto
  have dom3: "in_domain3D 2 ?q'"
    using inst sample_random_ok nt3 fq upd3 by simp
  have fr: "useFrame sample_host ''x'' ''y'' ''0'' (Fin 2) True True (Fin 1) (Fin (2 / 125)) [?q] 0 =
      Returned [?q'] 0"
    by (simp add: useFrame_def js_bind_apply upd3)
  from sample_random_ok fp tr upd dom ani fq fr dom3 show ?thesis by simp
qed


subsection \<open>What a tick changes\<close>









end
